(* ===== verification/AHP_Prelude.thy ===== *)
theory AHP_Prelude
  imports Complex_Main "HOL-Library.Multiset"
begin

text \<open>
  Shared vocabulary of the AHP development: Python float values (with the
  infinities and NaN that numpy produces), \<open>math.isclose\<close>, the string
  primitives the parser uses (\<open>str.strip\<close>, \<open>str.replace\<close>, \<open>str.split\<close>),
  the matrix shapes, and the generic lemmas on sums over index lists that the
  engine and the aggregation proofs share.
\<close>

named_theorems py_string_simps "evaluation rules of the Python string primitives"
named_theorems index_sum_simps "rewriting sums over index lists"

section \<open>Python floats\<close>

text \<open>
  A Python \<open>float\<close> is modelled by its exact value when it is finite; the
  non-finite values are kept as constructors because the code tests for them
  (\<open>np.isnan\<close>, \<open>np.isinf\<close>) and produces them (\<open>np.inf\<close> as the
  reciprocal of a near-zero judgment, \<open>float("inf")\<close> as a consistency ratio).
  Rounding to binary64 is not modelled: arithmetic on finite values is exact.
\<close>

datatype pyfloat = PFin real | PInf | PNegInf | PNaN

fun pf_finite :: "pyfloat \<Rightarrow> bool" where
  "pf_finite (PFin _) = True"
| "pf_finite _ = False"

fun pf_val :: "pyfloat \<Rightarrow> real" where
  "pf_val (PFin x) = x"
| "pf_val _ = 0"

fun pf_le :: "pyfloat \<Rightarrow> real \<Rightarrow> bool" where
  "pf_le (PFin x) y = (x \<le> y)"
| "pf_le PNegInf _ = True"
| "pf_le _ _ = False"

text \<open>\<open>math.isclose(a, b, rel_tol=r, abs_tol=t)\<close>.\<close>

definition py_isclose :: "real \<Rightarrow> real \<Rightarrow> real \<Rightarrow> real \<Rightarrow> bool" where
  "py_isclose a b rel_tol abs_tol \<longleftrightarrow> \<bar>a - b\<bar> \<le> max (rel_tol * max \<bar>a\<bar> \<bar>b\<bar>) abs_tol"

text \<open>\<open>math.isclose\<close> with its default \<open>rel_tol = 1e-9\<close>.\<close>

definition isclose :: "real \<Rightarrow> real \<Rightarrow> real \<Rightarrow> bool" where
  "isclose a b abs_tol = py_isclose a b (1 / 10 ^ 9) abs_tol"

lemma isclose_zero_iff [simp]:
  "0 \<le> t \<Longrightarrow> isclose a 0 t \<longleftrightarrow> \<bar>a\<bar> \<le> t"
  by (auto simp: isclose_def py_isclose_def max_def mult_le_cancel_right1)

section \<open>Matrices\<close>

type_synonym matrix = "real list list"
type_synonym pymatrix = "pyfloat list list"

text \<open>The shape test of \<open>calculate_ahp\<close>: \<open>n\<close> rows of \<open>n\<close> entries.\<close>

definition square :: "nat \<Rightarrow> 'a list list \<Rightarrow> bool" where
  "square n M \<longleftrightarrow> length M = n \<and> list_all (\<lambda>row. length row = n) M"

lemma square_nth_length [simp]:
  "square n M \<Longrightarrow> i < n \<Longrightarrow> length (M ! i) = n"
  by (auto simp: square_def list_all_length)

lemma square_map_map [simp]:
  "square n (map (map f) M) = square n M"
  by (simp add: square_def list_all_iff)

lemma square_map_upt [simp]:
  "square n (map (\<lambda>i. map (g i) [0..<n]) [0..<n])"
  by (simp add: square_def list_all_iff)

text \<open>An \<open>n \<times> n\<close> matrix given by its entries.\<close>

definition tab :: "nat \<Rightarrow> (nat \<Rightarrow> nat \<Rightarrow> 'a) \<Rightarrow> 'a list list" where
  "tab n g = map (\<lambda>i. map (\<lambda>j. g i j) [0..<n]) [0..<n]"

lemma square_tab [simp]: "square n (tab n g)"
  by (simp add: tab_def square_def list_all_iff)

lemma tab_nth [simp]: "i < n \<Longrightarrow> j < n \<Longrightarrow> tab n g ! i ! j = g i j"
  by (simp add: tab_def)

lemma length_tab [simp]: "length (tab n g) = n"
  by (simp add: tab_def)

lemma list_all_nth: "list_all P xs \<Longrightarrow> k < length xs \<Longrightarrow> P (xs ! k)"
  by (simp add: list_all_length)

lemma square_row_length: "square n M \<Longrightarrow> k < length M \<Longrightarrow> length (M ! k) = n"
  unfolding square_def using list_all_nth by fastforce

lemma tab_square_eq:
  assumes "square n M"
  shows "M = tab n (\<lambda>i j. M ! i ! j)"
proof (rule nth_equalityI)
  show "length M = length (tab n (\<lambda>i j. M ! i ! j))"
    using assms by (simp add: square_def)
next
  fix k assume k: "k < length M"
  then have len: "length (M ! k) = n"
    using assms by (rule square_row_length [rotated])
  have kn: "k < n" using k assms by (simp add: square_def)
  have "map (\<lambda>j. M ! k ! j) [0..<n] = M ! k"
    using len map_nth [of "M ! k"] by simp
  then show "M ! k = tab n (\<lambda>i j. M ! i ! j) ! k"
    using kn by (simp add: tab_def)
qed

lemma tab_cong:
  "(\<And>i j. i < n \<Longrightarrow> j < n \<Longrightarrow> f i j = g i j) \<Longrightarrow> tab n f = tab n g"
  by (simp add: tab_def)

lemma map_conv_upt: "map f xs = map (\<lambda>i. f (xs ! i)) [0..<length xs]"
proof -
  have "map f xs = map f (map ((!) xs) [0..<length xs])"
    by (simp only: map_nth)
  then show ?thesis
    by (simp only: map_map comp_def)
qed

lemma tab_const: "tab n (\<lambda>i j. x) = replicate n (replicate n x)"
  by (simp add: tab_def map_replicate_const)

lemma map_map_tab [simp]: "map (map f) (tab n g) = tab n (\<lambda>i j. f (g i j))"
  by (simp add: tab_def)

section \<open>Sums over index lists\<close>

lemma sum_list_map_upt [index_sum_simps]:
  "sum_list (map f [0..<n]) = (\<Sum>i<n. f i)"
  by (induction n) auto

lemma sum_list_map_nth [index_sum_simps]:
  "sum_list (map f xs) = (\<Sum>i<length xs. f (xs ! i))"
proof -
  have "sum_list (map f xs) = sum_list (map f (map ((!) xs) [0..<length xs]))"
    by (simp only: map_nth)
  then show ?thesis
    by (simp only: map_map sum_list_map_upt comp_def)
qed

lemma sum_list_replicate_real [simp]:
  "sum_list (replicate k (c::real)) = real k * c"
  by (induction k) (auto simp: algebra_simps)

lemma sum_list_const_map:
  "(\<forall>x\<in>set xs. f x = (c::real)) \<Longrightarrow> sum_list (map f xs) = real (length xs) * c"
  by (induction xs) (auto simp: algebra_simps)

lemma sum_list_map_divide:
  "sum_list (map (\<lambda>x. x / c) xs) = sum_list xs / (c::real)"
  by (induction xs) (simp_all add: add_divide_distrib)

lemma sum_swap_div:
  "(\<Sum>i<n. (\<Sum>j<m. a i j) / (c::real)) = (\<Sum>j<m. \<Sum>i<n. a i j) / c"
  by (simp add: sum_divide_distrib [symmetric] sum.swap [of _ "{..<n}"])

section \<open>Python strings\<close>

text \<open>
  Characters are Latin-1 code points (HOL's \<open>char\<close>). \<open>str.isspace\<close> holds
  for the control characters 9--13 and 28--31, the space, NEL (133) and
  NO-BREAK SPACE (160); \<open>str.strip()\<close> removes them from both ends.
\<close>

definition py_space :: "char \<Rightarrow> bool" where
  "py_space c \<longleftrightarrow> of_char c \<in> ({9..13} \<union> {28..32} \<union> {133, 160} :: nat set)"

definition py_strip :: "string \<Rightarrow> string" where
  "py_strip s = rev (dropWhile py_space (rev (dropWhile py_space s)))"

text \<open>\<open>s.replace(a, b)\<close> for one-character \<open>a\<close> and \<open>b\<close>.\<close>

definition py_replace :: "char \<Rightarrow> char \<Rightarrow> string \<Rightarrow> string" where
  "py_replace a b s = map (\<lambda>c. if c = a then b else c) s"

text \<open>\<open>s.split(c)\<close>: every occurrence separates, empty parts are kept.\<close>

fun py_split :: "char \<Rightarrow> string \<Rightarrow> string list" where
  "py_split c [] = [[]]"
| "py_split c (x # xs) =
     (if x = c then [] # py_split c xs
      else (case py_split c xs of [] \<Rightarrow> [[x]] | p # ps \<Rightarrow> (x # p) # ps))"

lemma py_split_nonempty [simp]: "py_split c s \<noteq> []"
  by (induction s) (auto split: list.split)

lemma length_py_split: "length (py_split c s) = Suc (count_list s c)"
  by (induction s) (auto split: list.split)

lemma rev_dropWhile_rev_prefix:
  "t = rev (dropWhile P (rev t)) @ rev (takeWhile P (rev t))"
  by (metis rev_append rev_rev_ident takeWhile_dropWhile_id)

lemma py_strip_idem [py_string_simps]: "py_strip (py_strip s) = py_strip s"
proof -
  define t where "t = dropWhile py_space s"
  define p where "p = rev (dropWhile py_space (rev t))"
  have t: "t = [] \<or> \<not> py_space (hd t)"
    unfolding t_def by (metis dropWhile_eq_self_iff dropWhile_idem)
  have tp: "t = p @ rev (takeWhile py_space (rev t))"
    unfolding p_def by (rule rev_dropWhile_rev_prefix)
  have p_start: "dropWhile py_space p = p"
  proof (cases p)
    case (Cons a q)
    have "t \<noteq> [] \<and> hd t = a"
      using tp Cons by (metis append_Cons list.distinct(1) list.sel(1))
    with t have "\<not> py_space a" by auto
    with Cons show ?thesis by simp
  qed simp
  have "dropWhile py_space (rev p) = rev p"
    unfolding p_def by simp
  then have "py_strip p = p"
    using p_start by (simp add: py_strip_def)
  moreover have "py_strip s = p"
    by (simp add: py_strip_def t_def p_def)
  ultimately show ?thesis by simp
qed

end
