(* ===== verification/Saaty.thy ===== *)
theory Saaty
  imports AHP_Prelude
begin

text \<open>
  The Saaty-scale cell parser \<open>parse_saaty_value\<close> of
  \<open>src/Quyhoachdat2_1/controller/ahp.py\<close> (lines 24--86), together with the
  parts of Python's \<open>int()\<close> and \<open>float()\<close> it relies on. Decimal literals are
  read exactly (mantissa and power of ten); Python's \<open>round(x, 10)\<close> is the
  exact round-half-even to ten decimal places. Every \<open>raise ValueError\<close> of
  the parser is a constructor of \<open>saaty_error\<close>.
\<close>

section \<open>Digits and Python's \<open>int()\<close>\<close>

definition is_digit :: "char \<Rightarrow> bool" where
  "is_digit c \<longleftrightarrow> c \<in> set ''0123456789''"

definition digit_val :: "char \<Rightarrow> nat" where
  "digit_val c = of_char c - 48"

text \<open>\<open>digitpart ::= digit (["_"] digit)*\<close>: the digit groups that
  \<open>int()\<close> and \<open>float()\<close> accept (single underscores between digits).\<close>

fun digitpart_ok :: "string \<Rightarrow> bool" where
  "digitpart_ok [] = False"
| "digitpart_ok (c # r) =
     (is_digit c \<and>
      (case r of
         [] \<Rightarrow> True
       | d # r' \<Rightarrow> (if d = CHR ''_'' then digitpart_ok r' else digitpart_ok r)))"

definition digits_val :: "string \<Rightarrow> nat" where
  "digits_val s = foldl (\<lambda>acc c. 10 * acc + digit_val c) 0 (filter is_digit s)"

definition digit_count :: "string \<Rightarrow> nat" where
  "digit_count s = length (filter is_digit s)"

definition sign_split :: "string \<Rightarrow> bool \<times> string" where
  "sign_split s =
     (case s of
        [] \<Rightarrow> (False, [])
      | c # r \<Rightarrow> (if c = CHR ''+'' then (False, r)
                 else if c = CHR ''-'' then (True, r) else (False, s)))"

definition signed_digits :: "string \<Rightarrow> int option" where
  "signed_digits s =
     (let (neg, r) = sign_split s
      in if digitpart_ok r
         then Some (if neg then - int (digits_val r) else int (digits_val r))
         else None)"

text \<open>\<open>int(s)\<close> in base 10: surrounding white space, an optional sign, a digitpart.\<close>

definition py_int :: "string \<Rightarrow> int option" where
  "py_int s = signed_digits (py_strip s)"

section \<open>Python's \<open>float()\<close>\<close>

text \<open>A parsed float literal: \<open>Lit_Num m e\<close> is the exact value \<open>m * 10^e\<close>;
  \<open>Lit_Inf neg\<close> and \<open>Lit_NaN\<close> are \<open>float("inf")\<close>, \<open>float("-inf")\<close>, \<open>float("nan")\<close>.\<close>

datatype float_lit = Lit_Num int int | Lit_Inf bool | Lit_NaN

fun split_first :: "(char \<Rightarrow> bool) \<Rightarrow> string \<Rightarrow> (string \<times> string) option" where
  "split_first P [] = None"
| "split_first P (x # xs) =
     (if P x then Some ([], xs) else map_option (\<lambda>(a, b). (x # a, b)) (split_first P xs))"

text \<open>\<open>number ::= [digitpart] "." digitpart | digitpart ["."]\<close>, scaled by \<open>10^k\<close>.\<close>

definition number_part :: "string \<Rightarrow> int \<Rightarrow> (int \<times> int) option" where
  "number_part m k =
     (case split_first (\<lambda>c. c = CHR ''.'') m of
        None \<Rightarrow> (if digitpart_ok m then Some (int (digits_val m), k) else None)
      | Some (a, b) \<Rightarrow>
          (if (a = [] \<and> digitpart_ok b) \<or> (digitpart_ok a \<and> (b = [] \<or> digitpart_ok b))
           then Some (int (digits_val (a @ b)), k - int (digit_count b)) else None))"

text \<open>\<open>floatnumber ::= number [("e" | "E") [sign] digitpart]\<close>.\<close>

definition float_number :: "string \<Rightarrow> (int \<times> int) option" where
  "float_number r =
     (case split_first (\<lambda>c. c = CHR ''e'' \<or> c = CHR ''E'') r of
        None \<Rightarrow> number_part r 0
      | Some (mant, ex) \<Rightarrow>
          (case signed_digits ex of None \<Rightarrow> None | Some k \<Rightarrow> number_part mant k))"

definition ascii_lower :: "char \<Rightarrow> char" where
  "ascii_lower c =
     (case map_of (zip ''ABCDEFGHIJKLMNOPQRSTUVWXYZ'' ''abcdefghijklmnopqrstuvwxyz'') c of
        Some d \<Rightarrow> d | None \<Rightarrow> c)"

definition py_float :: "string \<Rightarrow> float_lit option" where
  "py_float s =
     (let (neg, r) = sign_split (py_strip s); lr = map ascii_lower r
      in if lr = ''inf'' \<or> lr = ''infinity'' then Some (Lit_Inf neg)
         else if lr = ''nan'' then Some Lit_NaN
         else map_option (\<lambda>(m, e). Lit_Num (if neg then - m else m) e) (float_number r))"

definition dec_val :: "int \<Rightarrow> int \<Rightarrow> real" where
  "dec_val m e = (if 0 \<le> e then of_int m * 10 ^ nat e else of_int m / 10 ^ nat (- e))"

fun lit_val :: "float_lit \<Rightarrow> real" where
  "lit_val (Lit_Num m e) = dec_val m e"
| "lit_val _ = 0"

text \<open>\<open>float.is_integer()\<close> and \<open>int(val)\<close> of an integral value.\<close>

fun lit_is_integer :: "float_lit \<Rightarrow> bool" where
  "lit_is_integer (Lit_Num m e) = (0 \<le> e \<or> m mod 10 ^ nat (- e) = 0)"
| "lit_is_integer _ = False"

fun lit_int :: "float_lit \<Rightarrow> int" where
  "lit_int (Lit_Num m e) = (if 0 \<le> e then m * 10 ^ nat e else m div 10 ^ nat (- e))"
| "lit_int _ = 0"

section \<open>\<open>round(x, 10)\<close> and the decimal reciprocals\<close>

text \<open>\<open>p / q\<close> rounded to an integer, ties to even (\<open>q > 0\<close>).\<close>

definition round_half_even :: "int \<Rightarrow> int \<Rightarrow> int" where
  "round_half_even p q =
     (let f = p div q; r = p mod q
      in if 2 * r < q then f else if q < 2 * r then f + 1 else if even f then f else f + 1)"

text \<open>\<open>round(x, 10)\<close> as the integer \<open>10^10 * round(x, 10)\<close>; \<open>None\<close> for the
  non-finite values, whose rounding is never in the set below.\<close>

fun lit_round10 :: "float_lit \<Rightarrow> int option" where
  "lit_round10 (Lit_Num m e) =
     Some (if 0 \<le> e + 10 then m * 10 ^ nat (e + 10)
           else round_half_even m (10 ^ nat (- (e + 10))))"
| "lit_round10 _ = None"

text \<open>\<open>valid_saaty_reciprocals = {round(1 / d, 10) for d in range(2, 10)}\<close>, scaled by \<open>10^10\<close>.\<close>

definition valid_saaty_reciprocals :: "int list" where
  "valid_saaty_reciprocals = map (\<lambda>d. round_half_even (10 ^ 10) (int d)) [2..<10]"

definition is_saaty_recip :: "float_lit \<Rightarrow> bool" where
  "is_saaty_recip v =
     (case lit_round10 v of None \<Rightarrow> False | Some c \<Rightarrow> c \<in> set valid_saaty_reciprocals)"

section \<open>The parser\<close>

text \<open>One constructor per \<open>raise ValueError\<close> of \<open>parse_saaty_value\<close>; the
  out-of-range denominator is re-raised by the surrounding \<open>except ValueError\<close>
  with the same message as a non-integer one, hence one constructor for both.\<close>

datatype saaty_error =
    InvalidDiagonal
  | InvalidFraction
  | FractionNotOneOverN
  | NotANumber
  | IntegerOutOfScale
  | DecimalNotSaaty

definition parse_saaty_value :: "string \<Rightarrow> bool \<Rightarrow> saaty_error + real" where
  "parse_saaty_value value_str is_diagonal =
     (let s = py_replace CHR '','' CHR ''.'' (py_strip value_str)
      in if is_diagonal then (if s = ''1'' then Inr 1 else Inl InvalidDiagonal)
         else if CHR ''/'' \<in> set s then
           (case py_split CHR ''/'' s of
              [p0, p1] \<Rightarrow>
                (if py_strip p0 = ''1'' then
                   (case py_int (py_strip p1) of
                      None \<Rightarrow> Inl InvalidFraction
                    | Some d \<Rightarrow> (if 2 \<le> d \<and> d \<le> 9 then Inr (1 / of_int d) else Inl InvalidFraction))
                 else Inl FractionNotOneOverN)
            | _ \<Rightarrow> Inl FractionNotOneOverN)
         else
           (case py_float s of
              None \<Rightarrow> Inl NotANumber
            | Some v \<Rightarrow>
                (if lit_is_integer v then
                   (let k = lit_int v
                    in if 1 \<le> k \<and> k \<le> 9 then Inr (of_int k)
                       else if is_saaty_recip v then Inr (lit_val v)
                       else Inl IntegerOutOfScale)
                 else if is_saaty_recip v then Inr (lit_val v)
                 else Inl DecimalNotSaaty)))"

section \<open>Lemmas\<close>

text \<open>The definitions that evaluate a parse on a concrete string.\<close>

lemmas parse_eval_simps =
  parse_saaty_value_def py_strip_def py_space_def py_replace_def py_int_def
  signed_digits_def sign_split_def digits_val_def is_digit_def digit_val_def
  py_float_def float_number_def number_part_def ascii_lower_def digit_count_def
  is_saaty_recip_def valid_saaty_reciprocals_def round_half_even_def dec_val_def

lemma valid_saaty_reciprocals_eq:
  "valid_saaty_reciprocals =
     [5000000000, 3333333333, 2500000000, 2000000000, 1666666667, 1428571429, 1250000000, 1111111111]"
  by (simp add: valid_saaty_reciprocals_def round_half_even_def upt_rec)

lemma round_half_even_exact: "0 < q \<Longrightarrow> round_half_even (a * q) q = a"
  by (simp add: round_half_even_def)

lemma round_half_even_close:
  assumes "0 < q"
  shows "\<bar>real_of_int (round_half_even p q) - real_of_int p / real_of_int q\<bar> \<le> 1 / 2"
proof -
  define f where "f = p div q"
  define r where "r = p mod q"
  have p: "p = f * q + r" by (simp add: f_def r_def)
  have r: "0 \<le> r" "r < q" using assms by (simp_all add: r_def)
  have pq: "real_of_int p / real_of_int q = of_int f + of_int r / of_int q"
    using assms by (simp add: p field_simps)
  have rq: "of_int r / of_int q < (1::real)" "0 \<le> of_int r / (of_int q::real)"
    using r assms by (simp_all add: divide_less_eq)
  have "round_half_even p q = f \<or> round_half_even p q = f + 1"
    by (auto simp: round_half_even_def Let_def f_def r_def)
  moreover have "round_half_even p q = f \<Longrightarrow> 2 * r \<le> q"
    by (auto simp: round_half_even_def Let_def f_def r_def split: if_splits)
  moreover have "round_half_even p q = f + 1 \<Longrightarrow> q \<le> 2 * r"
    by (auto simp: round_half_even_def Let_def f_def r_def split: if_splits)
  ultimately show ?thesis
    using assms r by (auto simp: pq field_simps abs_if)
qed

lemma lit_round10_integer_dvd:
  assumes "lit_is_integer l" and "lit_round10 l = Some c"
  shows "10 ^ 10 dvd c"
proof (cases l)
  case (Lit_Num m e)
  show ?thesis
  proof (cases "0 \<le> e")
    case True
    then have "nat (e + 10) = nat e + 10" by simp
    with True Lit_Num assms(2) show ?thesis by (auto simp: power_add)
  next
    case False
    with Lit_Num assms(1) obtain k where m: "m = k * 10 ^ nat (- e)"
      by (auto elim!: dvdE simp: mod_eq_0_iff_dvd mult.commute)
    show ?thesis
    proof (cases "0 \<le> e + 10")
      case True
      with False have "nat (- e) + nat (e + 10) = 10" by simp
      then have "m * 10 ^ nat (e + 10) = k * 10 ^ 10"
        by (simp add: m power_add [symmetric] mult.assoc)
      with True Lit_Num assms(2) show ?thesis by auto
    next
      case False
      then have "nat (- e) = nat (- (e + 10)) + 10" by simp
      then have "m = (k * 10 ^ 10) * 10 ^ nat (- (e + 10))"
        by (simp add: m power_add mult_ac)
      with False Lit_Num assms(2) show ?thesis
        by (auto simp: round_half_even_exact)
    qed
  qed
qed (use assms in simp_all)

lemma integer_never_saaty_recip:
  "lit_is_integer l \<Longrightarrow> \<not> is_saaty_recip l"
  by (auto simp: is_saaty_recip_def valid_saaty_reciprocals_eq
      dest: lit_round10_integer_dvd split: option.splits)

lemma lit_round10_close:
  assumes "lit_round10 (Lit_Num m e) = Some c"
  shows "\<bar>real_of_int c - dec_val m e * 10 ^ 10\<bar> \<le> 1 / 2"
proof (cases "0 \<le> e + 10")
  case True
  have "dec_val m e * 10 ^ 10 = of_int m * 10 ^ nat (e + 10)"
  proof (cases "0 \<le> e")
    case True
    then have "nat (e + 10) = nat e + 10" by simp
    with True show ?thesis by (simp add: dec_val_def power_add)
  next
    case False
    with \<open>0 \<le> e + 10\<close> have "nat (- e) + nat (e + 10) = 10" by simp
    then have eq: "(10::real) ^ 10 = 10 ^ nat (- e) * 10 ^ nat (e + 10)"
      by (metis power_add)
    show ?thesis
      by (subst eq) (simp add: dec_val_def False)
  qed
  moreover have "c = m * 10 ^ nat (e + 10)"
    using True assms by simp
  ultimately show ?thesis by simp
next
  case False
  define q :: int where "q = 10 ^ nat (- (e + 10))"
  have q: "0 < q" by (simp add: q_def)
  from False have "nat (- e) = nat (- (e + 10)) + 10" by simp
  then have "(10::real) ^ nat (- e) = of_int q * 10 ^ 10"
    by (simp add: q_def power_add)
  with False have "dec_val m e * 10 ^ 10 = of_int m / of_int q"
    by (simp add: dec_val_def)
  moreover have "c = round_half_even m q"
    using assms False by (simp add: q_def)
  ultimately show ?thesis
    using round_half_even_close [OF q, of m] by simp
qed

lemma is_saaty_recip_close:
  assumes "is_saaty_recip l"
  shows "\<exists>d::int. 2 \<le> d \<and> d \<le> 9 \<and> \<bar>lit_val l - 1 / of_int d\<bar> \<le> 1 / 10 ^ 10"
proof -
  obtain m e c where l: "l = Lit_Num m e" and c: "lit_round10 l = Some c"
    and cin: "c \<in> set valid_saaty_reciprocals"
    using assms by (cases l) (auto simp: is_saaty_recip_def)
  from cin obtain d :: nat where d: "2 \<le> d" "d < 10" and cd: "c = round_half_even (10 ^ 10) (int d)"
    unfolding valid_saaty_reciprocals_def set_map set_upt by auto
  have close1: "\<bar>real_of_int c - 10 ^ 10 / real d\<bar> \<le> 1 / 2"
    using round_half_even_close [of "int d" "10 ^ 10"] d cd by simp
  have close2: "\<bar>real_of_int c - lit_val l * 10 ^ 10\<bar> \<le> 1 / 2"
  proof -
    from c l have "lit_round10 (Lit_Num m e) = Some c" by simp
    from lit_round10_close [OF this] l show ?thesis by simp
  qed
  define K :: real where "K = 10 ^ 10"
  have K: "0 < K" by (simp add: K_def)
  have "\<bar>lit_val l * K - K / real d\<bar> \<le> 1"
    using close1 close2 unfolding K_def by linarith
  moreover have "lit_val l * K - K / real d = K * (lit_val l - 1 / real d)"
    by (simp add: algebra_simps)
  ultimately have "K * \<bar>lit_val l - 1 / real d\<bar> \<le> 1"
    using K by (simp add: abs_mult)
  then have "\<bar>lit_val l - 1 / real d\<bar> \<le> 1 / K"
    using K by (simp add: le_divide_eq mult.commute)
  then have "\<bar>lit_val l - 1 / real d\<bar> \<le> 1 / 10 ^ 10"
    by (simp add: K_def)
  with d show ?thesis
    by (intro exI [of _ "int d"]) simp
qed

lemma parse_saaty_value_cases:
  assumes "parse_saaty_value s b = Inr v"
  shows "(\<exists>k::int. 1 \<le> k \<and> k \<le> 9 \<and> v = of_int k)
       \<or> (\<exists>d::int. 2 \<le> d \<and> d \<le> 9 \<and> v = 1 / of_int d)
       \<or> (\<exists>d::int. 2 \<le> d \<and> d \<le> 9 \<and> \<bar>v - 1 / of_int d\<bar> \<le> 1 / 10 ^ 10)"
  using assms is_saaty_recip_close
  unfolding parse_saaty_value_def Let_def
  by (auto split: if_splits list.splits option.splits intro: exI [of _ 1])

lemma scale_bounds:
  assumes "(\<exists>k::int. 1 \<le> k \<and> k \<le> 9 \<and> v = of_int k)
       \<or> (\<exists>d::int. 2 \<le> d \<and> d \<le> 9 \<and> v = 1 / of_int d)
       \<or> (\<exists>d::int. 2 \<le> d \<and> d \<le> 9 \<and> \<bar>v - 1 / of_int d\<bar> \<le> 1 / 10 ^ 10)"
  shows "1 / 10 < v \<and> v \<le> (9::real)"
proof -
  have recip: "1 / 9 \<le> 1 / real_of_int d \<and> 1 / real_of_int d \<le> 1 / 2"
    if "2 \<le> d" "d \<le> 9" for d :: int
    using that by (simp add: frac_le)
  show ?thesis
    using assms
  proof (elim disjE exE conjE)
    fix k :: int assume "1 \<le> k" "k \<le> 9" "v = of_int k"
    then show ?thesis by simp
  next
    fix d :: int assume "2 \<le> d" "d \<le> 9" "v = 1 / of_int d"
    with recip [of d] have "1 / 9 \<le> v \<and> v \<le> 1 / 2" by simp
    then show ?thesis by linarith
  next
    fix d :: int assume d: "2 \<le> d" "d \<le> 9" and H: "\<bar>v - 1 / of_int d\<bar> \<le> 1 / 10 ^ 10"
    have "v - 1 / of_int d \<le> 1 / 10 ^ 10" "- (v - 1 / of_int d) \<le> 1 / 10 ^ 10"
      using abs_le_D1 [OF H] abs_le_D2 [OF H] by simp_all
    moreover have "(1::real) / 10 ^ 10 \<le> 1 / 100" by simp
    ultimately show ?thesis using recip [OF d] by linarith
  qed
qed

lemma parse_saaty_value_bounds:
  "parse_saaty_value s b = Inr v \<Longrightarrow> 1 / 10 < v \<and> v \<le> 9"
  by (rule scale_bounds [OF parse_saaty_value_cases])

section \<open>Properties of the parser\<close>

text \<open>Claim C3. Every value that \<open>parse_saaty_value\<close> accepts is on the Saaty
  scale: an integer 1..9, a reciprocal 1/2..1/9, or a decimal within \<open>10^-10\<close>
  of such a reciprocal; hence it lies in \<open>(1/10, 9]\<close>, so the caller's mirrored
  cell \<open>1.0 / parsed_val\<close> never takes the \<open>np.inf\<close> branch.\<close>

theorem parse_saaty_value_in_scale:
  assumes "parse_saaty_value s is_diag = Inr v"
  shows "((\<exists>k::int. 1 \<le> k \<and> k \<le> 9 \<and> v = of_int k)
       \<or> (\<exists>d::int. 2 \<le> d \<and> d \<le> 9 \<and> v = 1 / of_int d)
       \<or> (\<exists>d::int. 2 \<le> d \<and> d \<le> 9 \<and> \<bar>v - 1 / of_int d\<bar> \<le> 1 / 10 ^ 10))
       \<and> 1 / 10 < v \<and> v \<le> 9"
  using parse_saaty_value_cases [OF assms] parse_saaty_value_bounds [OF assms] by blast

theorem parse_saaty_value_in_scale_witness:
  "parse_saaty_value ''1/4'' False = Inr (1 / 4) \<and>
   (\<exists>d::int. 2 \<le> d \<and> d \<le> 9 \<and> (1 / 4 :: real) = 1 / of_int d) \<and>
   1 / 10 < (1 / 4 :: real) \<and> (1 / 4 :: real) \<le> 9"
proof -
  have p: "parse_saaty_value ''1/4'' False = Inr (1 / 4)"
    by (simp add: parse_eval_simps)
  from parse_saaty_value_in_scale [OF p] have "1 / 10 < (1 / 4 :: real) \<and> (1 / 4 :: real) \<le> 9"
    by blast
  moreover have "\<exists>d::int. 2 \<le> d \<and> d \<le> 9 \<and> (1 / 4 :: real) = 1 / of_int d"
    by (rule exI [of _ 4]) simp
  ultimately show ?thesis using p by blast
qed

text \<open>The parser on the inputs the specification lists: \<open>"1/4"\<close>
  and \<open>"0.25"\<close> give 0.25, \<open>"4"\<close> gives 4, a decimal comma is read as a point;
  \<open>"1/10"\<close> is an invalid fraction, \<open>"10"\<close> an integer out of scale,
  \<open>"abc"\<close> not a number, and \<open>"2"\<close> on the diagonal is refused.\<close>

theorem parse_saaty_value_spec_examples:
  "parse_saaty_value ''1/4'' False = Inr (1 / 4)
   \<and> parse_saaty_value ''0.25'' False = Inr (1 / 4)
   \<and> parse_saaty_value ''4'' False = Inr 4
   \<and> parse_saaty_value ''0,5'' False = Inr (1 / 2)
   \<and> parse_saaty_value '' 1 '' True = Inr 1
   \<and> parse_saaty_value ''1/10'' False = Inl InvalidFraction
   \<and> parse_saaty_value ''10'' False = Inl IntegerOutOfScale
   \<and> parse_saaty_value ''abc'' False = Inl NotANumber
   \<and> parse_saaty_value ''2'' True = Inl InvalidDiagonal
   \<and> parse_saaty_value ''2/3'' False = Inl FractionNotOneOverN
   \<and> parse_saaty_value ''0.3'' False = Inl DecimalNotSaaty"
  by (simp add: parse_eval_simps)

text \<open>Claim C33. In the integer branch of \<open>parse_saaty_value\<close> (ahp.py lines
  62--76) the test against \<open>valid_saaty_reciprocals\<close> can never succeed: an
  integral value rounds to a multiple of \<open>10^10\<close>, which no reciprocal code
  is. Integers outside 1..9 are therefore always refused.\<close>

theorem integer_value_never_reciprocal:
  assumes "lit_is_integer l"
  shows "\<not> is_saaty_recip l"
  using assms by (rule integer_never_saaty_recip)

theorem integer_value_never_reciprocal_witness:
  "lit_is_integer (Lit_Num 10 0) \<and> \<not> is_saaty_recip (Lit_Num 10 0)"
  using integer_value_never_reciprocal [of "Lit_Num 10 0"] by simp



end
