(* ===== verification/Engine.thy ===== *)
theory Engine
  imports AHP_Prelude
begin

text \<open>
  The priority-weight computation \<open>calculate_ahp\<close> of
  \<open>src/Quyhoachdat2_1/controller/ahp.py\<close> (lines 89--236) and its random-index
  table \<open>RI_lookup\<close> (lines 5--21). The input is the matrix as the caller
  passes it (entries may be \<open>inf\<close> or \<open>nan\<close>); the result is the error the
  code raises, or the record of the keys it returns. Each numpy step is one
  definition over the index list \<open>[0..<n]\<close>.
\<close>

section \<open>Data\<close>

text \<open>\<open>tolerance = 1e-9\<close> of \<open>calculate_ahp\<close>.\<close>

definition tolerance :: real where
  "tolerance = 1 / 10 ^ 9"

text \<open>\<open>RI_lookup\<close>, the random index by matrix size.\<close>

definition RI_table :: "(nat \<times> real) list" where
  "RI_table =
     [(1, 0), (2, 0), (3, 0.58), (4, 0.90), (5, 1.12), (6, 1.24), (7, 1.32), (8, 1.41),
      (9, 1.45), (10, 1.49), (11, 1.51), (12, 1.54), (13, 1.56), (14, 1.57), (15, 1.59)]"

text \<open>\<open>RI_lookup.get(n, 1.59)\<close>.\<close>

definition RI_get :: "nat \<Rightarrow> real" where
  "RI_get n = (case map_of RI_table n of Some r \<Rightarrow> r | None \<Rightarrow> 1.59)"

text \<open>The \<open>ValueError\<close>s raised before any arithmetic. \<open>BadDiagonal i\<close> names
  the 0-based row \<open>i\<close> (the message prints \<open>i+1\<close>); \<open>DegenerateColumns\<close>
  holds the 1-based column numbers of the message.\<close>

datatype ahp_error =
    MalformedMatrix
  | NonFiniteEntry
  | BadDiagonal nat
  | DegenerateColumns "nat list"

text \<open>The keys of the dictionary \<open>calculate_ahp\<close> returns on success.\<close>

record ahp_result =
  res_n :: nat
  weights :: "real list"
  wsv :: "real list"
  cv :: "real list"
  lambdaMax :: real
  ci :: real
  RI :: real
  CR :: pyfloat
  is_consistent :: bool
  colSums :: "real list"
  normMatrix :: "real list list"

section \<open>The steps of the computation\<close>

text \<open>\<open>math.isclose(matrix[i, i], 1.0, abs_tol=tolerance)\<close> for \<open>i\<close> in order.\<close>

definition first_bad_diagonal :: "nat \<Rightarrow> matrix \<Rightarrow> nat option" where
  "first_bad_diagonal n A = find (\<lambda>i. \<not> isclose (A ! i ! i) 1 tolerance) [0..<n]"

text \<open>\<open>matrix.sum(axis=0)\<close>.\<close>

definition col_sums :: "nat \<Rightarrow> matrix \<Rightarrow> real list" where
  "col_sums n A = map (\<lambda>j. sum_list (map (\<lambda>row. row ! j) A)) [0..<n]"

text \<open>\<open>problem_cols\<close>: the 1-based columns whose sum is at most \<open>tolerance\<close>.\<close>

definition degenerate_columns :: "real list \<Rightarrow> nat list" where
  "degenerate_columns cs = map Suc (filter (\<lambda>j. cs ! j \<le> tolerance) [0..<length cs])"

text \<open>\<open>np.divide(matrix, col_sums, out=zeros, where=col_sums != 0)\<close>.\<close>

definition norm_matrix :: "nat \<Rightarrow> matrix \<Rightarrow> real list \<Rightarrow> matrix" where
  "norm_matrix n A cs =
     map (\<lambda>row. map (\<lambda>j. if cs ! j \<noteq> 0 then row ! j / cs ! j else 0) [0..<n]) A"

text \<open>\<open>norm_matrix.mean(axis=1)\<close>.\<close>

definition row_means :: "nat \<Rightarrow> matrix \<Rightarrow> real list" where
  "row_means n N = map (\<lambda>row. sum_list row / real n) N"

text \<open>Division by \<open>weights.sum()\<close> if it exceeds \<open>tolerance\<close>, else \<open>np.ones(n) / n\<close>.\<close>

definition normalize_weights :: "nat \<Rightarrow> real list \<Rightarrow> real list" where
  "normalize_weights n w =
     (let s = sum_list w in if tolerance < s then map (\<lambda>x. x / s) w else replicate n (1 / real n))"

text \<open>\<open>np.dot(matrix, weights)\<close>.\<close>

definition mat_vec :: "nat \<Rightarrow> matrix \<Rightarrow> real list \<Rightarrow> real list" where
  "mat_vec n A w = map (\<lambda>row. sum_list (map (\<lambda>j. row ! j * w ! j) [0..<n])) A"

text \<open>The consistency vector: 0 where \<open>|w_i| \<le> tolerance\<close> (\<open>np.zeros_like\<close>),
  otherwise \<open>wsv_i / w_i\<close>, guarded again by \<open>|w_i| > tolerance * 1e-3\<close> with
  \<open>n\<close> as the fallback (\<open>np.full_like(safe_wsv, n)\<close>).\<close>

definition consistency_vector :: "nat \<Rightarrow> real list \<Rightarrow> real list \<Rightarrow> real list" where
  "consistency_vector n w v =
     map (\<lambda>i. if tolerance < \<bar>w ! i\<bar>
              then (if tolerance * (1 / 10 ^ 3) < \<bar>w ! i\<bar> then v ! i / w ! i else real n)
              else 0) [0..<n]"

text \<open>\<open>lambda_max\<close>: the mean of the entries at non-negligible weights, or \<open>n\<close>.\<close>

definition lambda_max :: "nat \<Rightarrow> real list \<Rightarrow> real list \<Rightarrow> real" where
  "lambda_max n w c =
     (let valid = map (\<lambda>i. c ! i) (filter (\<lambda>i. tolerance < \<bar>w ! i\<bar>) [0..<n])
      in if valid \<noteq> [] then sum_list valid / real (length valid) else real n)"

definition consistency_index :: "nat \<Rightarrow> real \<Rightarrow> real" where
  "consistency_index n lam = (if 1 < n then (lam - real n) / (real n - 1) else 0)"

definition random_index :: "nat \<Rightarrow> real" where
  "random_index n = (if n \<le> 2 then 0 else RI_get n)"

definition consistency_ratio :: "real \<Rightarrow> real \<Rightarrow> pyfloat" where
  "consistency_ratio ci_val ri_val =
     (if tolerance < ri_val then PFin (ci_val / ri_val)
      else if isclose ci_val 0 tolerance then PFin 0 else PInf)"

text \<open>\<open>cr_val <= 0.1 + tolerance\<close>.\<close>

definition consistent_cr :: "pyfloat \<Rightarrow> bool" where
  "consistent_cr cr = pf_le cr (0.1 + tolerance)"

section \<open>\<open>calculate_ahp\<close>\<close>

text \<open>The arithmetic of \<open>calculate_ahp\<close> after validation (ahp.py lines
  139--219), on the matrix of finite values \<open>A\<close> and its column sums \<open>cs\<close>.\<close>

definition compute_weights :: "nat \<Rightarrow> matrix \<Rightarrow> real list \<Rightarrow> ahp_result" where
  "compute_weights n A cs =
     (let N = norm_matrix n A cs;
          w = normalize_weights n (row_means n N);
          v = mat_vec n A w;
          c = consistency_vector n w v;
          lam = lambda_max n w c;
          ci_val = consistency_index n lam;
          ri_val = random_index n;
          cr = consistency_ratio ci_val ri_val
      in \<lparr>res_n = n, weights = w, wsv = v, cv = c, lambdaMax = lam,
          ci = ci_val, RI = ri_val, CR = cr, is_consistent = consistent_cr cr,
          colSums = cs, normMatrix = N\<rparr>)"

text \<open>
  The checks run in the code's order: shape, non-finite entries, diagonal,
  column sums. After them every entry is finite and every column sum
  positive, so the later NaN/Infinity guards of the code (the \<open>ValueError\<close>
  on a non-finite weighted sum vector and the clamping of the consistency
  vector) cannot fire in exact arithmetic and are not branches of the model.
\<close>

definition calculate_ahp :: "pymatrix \<Rightarrow> ahp_error + ahp_result" where
  "calculate_ahp M =
     (let n = length M
      in if n = 0 \<or> \<not> square n M then Inl MalformedMatrix
         else if \<not> list_all (list_all pf_finite) M then Inl NonFiniteEntry
         else
           (let A = map (map pf_val) M
            in case first_bad_diagonal n A of
                 Some i \<Rightarrow> Inl (BadDiagonal i)
               | None \<Rightarrow>
                   (let cs = col_sums n A
                    in if degenerate_columns cs \<noteq> []
                       then Inl (DegenerateColumns (degenerate_columns cs))
                       else Inr (compute_weights n A cs))))"

section \<open>The abstract contract\<close>

text \<open>
  The AHP contract: a perfectly consistent judgment matrix is a ratio matrix
  \<open>a\<^sub>i\<^sub>j = w\<^sub>i / w\<^sub>j\<close> of positive priorities \<open>w\<close>; the engine must recover \<open>w\<close>
  (normalised to sum 1), report \<open>\<lambda>max = n\<close> and a consistency ratio of 0.
\<close>

definition ratio_matrix :: "real list \<Rightarrow> pymatrix" where
  "ratio_matrix w = tab (length w) (\<lambda>i j. PFin (w ! i / w ! j))"

section \<open>Lemmas\<close>

lemma length_col_sums [simp]: "length (col_sums n A) = n"
  by (simp add: col_sums_def)

lemma length_norm_matrix [simp]: "length (norm_matrix n A cs) = length A"
  by (simp add: norm_matrix_def)

lemma length_row_means [simp]: "length (row_means n N) = length N"
  by (simp add: row_means_def)

lemma length_normalize_weights [simp]:
  "length w = n \<Longrightarrow> length (normalize_weights n w) = n"
  by (simp add: normalize_weights_def Let_def)

lemma col_sums_tab: "col_sums n (tab n g) = map (\<lambda>j. \<Sum>i<n. g i j) [0..<n]"
  unfolding col_sums_def
  by (rule map_cong) (simp_all add: tab_def sum_list_map_upt)

lemma norm_matrix_tab:
  "norm_matrix n (tab n g) cs = tab n (\<lambda>i j. if cs ! j \<noteq> 0 then g i j / cs ! j else 0)"
  by (simp add: norm_matrix_def tab_def)

lemma row_means_tab: "row_means n (tab n h) = map (\<lambda>i. (\<Sum>j<n. h i j) / real n) [0..<n]"
  by (simp add: row_means_def tab_def sum_list_map_upt)

lemma mat_vec_tab: "mat_vec n (tab n g) w = map (\<lambda>i. \<Sum>j<n. g i j * w ! j) [0..<n]"
  by (simp add: mat_vec_def tab_def sum_list_map_upt)

text \<open>Each normalised column sums to 1, so the row means sum to 1.\<close>

lemma sum_row_means_norm:
  assumes "0 < n" and nz: "\<forall>j<n. (\<Sum>i<n. g i j) \<noteq> 0"
  shows "sum_list (row_means n (norm_matrix n (tab n g) (col_sums n (tab n g)))) = 1"
proof -
  let ?cs = "\<lambda>j. \<Sum>i<n. g i j"
  have "sum_list (row_means n (norm_matrix n (tab n g) (col_sums n (tab n g))))
      = (\<Sum>i<n. (\<Sum>j<n. g i j / ?cs j) / real n)"
    using nz by (simp add: col_sums_tab norm_matrix_tab row_means_tab sum_list_map_upt)
  also have "\<dots> = (\<Sum>j<n. \<Sum>i<n. g i j / ?cs j) / real n"
    by (rule sum_swap_div)
  also have "\<dots> = (\<Sum>j<n. (1::real)) / real n"
    using nz by (simp add: sum_divide_distrib [symmetric])
  also have "\<dots> = 1" using assms(1) by simp
  finally show ?thesis .
qed

lemma sum_normalize_weights:
  assumes "0 < n" and "length w = n"
  shows "sum_list (normalize_weights n w) = 1"
proof (cases "tolerance < sum_list w")
  case True
  then have "0 < sum_list w" by (simp add: tolerance_def less_trans [rotated])
  with True show ?thesis
    by (simp add: normalize_weights_def sum_list_map_divide)
next
  case False
  with assms show ?thesis by (simp add: normalize_weights_def)
qed

lemma tolerance_pos: "0 < tolerance"
  by (simp add: tolerance_def)

lemma degenerate_columns_Nil:
  "degenerate_columns cs = [] \<longleftrightarrow> (\<forall>j<length cs. tolerance < cs ! j)"
  by (auto simp: degenerate_columns_def filter_empty_conv not_le)

lemma calculate_ahp_Inr:
  "calculate_ahp M = Inr r \<longleftrightarrow>
     (let n = length M; A = map (map pf_val) M; cs = col_sums n A
      in 0 < n \<and> square n M \<and> list_all (list_all pf_finite) M \<and>
         first_bad_diagonal n A = None \<and> degenerate_columns cs = [] \<and>
         r = compute_weights n A cs)"
  by (auto simp: calculate_ahp_def Let_def split: option.splits)

text \<open>A successful run, with the finite matrix written as \<open>tab n g\<close>.\<close>

lemma calculate_ahp_InrE:
  assumes "calculate_ahp M = Inr r"
  obtains g n where "0 < n" "n = length M" "square n M" "map (map pf_val) M = tab n g"
    "\<forall>j<n. tolerance < (\<Sum>i<n. g i j)" "first_bad_diagonal n (tab n g) = None"
    "r = compute_weights n (tab n g) (col_sums n (tab n g))"
proof -
  define n where "n = length M"
  define A where "A = map (map pf_val) M"
  from assms have ok: "0 < n" "square n M" "first_bad_diagonal n A = None"
    "degenerate_columns (col_sums n A) = []" "r = compute_weights n A (col_sums n A)"
    by (simp_all add: calculate_ahp_Inr Let_def n_def A_def)
  have sqA: "square n A" using ok(2) by (simp add: A_def)
  define g where "g = (\<lambda>i j. A ! i ! j)"
  have At: "A = tab n g" unfolding g_def by (rule tab_square_eq [OF sqA])
  have "\<forall>j<n. tolerance < (\<Sum>i<n. g i j)"
    using ok(4) by (simp add: degenerate_columns_Nil At col_sums_tab)
  with ok At show ?thesis
    by (intro that [of n g]) (simp_all add: n_def A_def)
qed

text \<open>The fields of the result, each in terms of the fields computed before it.\<close>

lemma compute_weights_fields:
  shows weights_compute_weights:
      "weights (compute_weights n A cs) = normalize_weights n (row_means n (norm_matrix n A cs))"
    and "normMatrix (compute_weights n A cs) = norm_matrix n A cs"
    and "colSums (compute_weights n A cs) = cs"
    and "res_n (compute_weights n A cs) = n"
    and "wsv (compute_weights n A cs) = mat_vec n A (weights (compute_weights n A cs))"
    and "cv (compute_weights n A cs) =
           consistency_vector n (weights (compute_weights n A cs)) (wsv (compute_weights n A cs))"
    and "lambdaMax (compute_weights n A cs) =
           lambda_max n (weights (compute_weights n A cs)) (cv (compute_weights n A cs))"
    and "ci (compute_weights n A cs) = consistency_index n (lambdaMax (compute_weights n A cs))"
    and "RI (compute_weights n A cs) = random_index n"
    and "CR (compute_weights n A cs) =
           consistency_ratio (ci (compute_weights n A cs)) (RI (compute_weights n A cs))"
    and "is_consistent (compute_weights n A cs) = consistent_cr (CR (compute_weights n A cs))"
  by (simp_all add: compute_weights_def Let_def)

lemma compute_weights_raw:
  assumes "0 < n" and "\<forall>j<n. tolerance < (\<Sum>i<n. g i j)"
  shows "weights (compute_weights n (tab n g) (col_sums n (tab n g)))
       = row_means n (norm_matrix n (tab n g) (col_sums n (tab n g)))"
proof -
  have nz: "\<forall>j<n. (\<Sum>i<n. g i j) \<noteq> 0"
  proof (intro allI impI)
    fix j assume "j < n"
    with assms(2) have "tolerance < (\<Sum>i<n. g i j)" by blast
    with tolerance_pos show "(\<Sum>i<n. g i j) \<noteq> 0" by linarith
  qed
  have s: "sum_list (row_means n (norm_matrix n (tab n g) (col_sums n (tab n g)))) = 1"
    using sum_row_means_norm [OF assms(1) nz] .
  have "tolerance < 1" by (simp add: tolerance_def)
  with s show ?thesis
    by (simp add: weights_compute_weights normalize_weights_def)
qed

lemma positive_matrix_weights:
  assumes n: "0 < n" and pos: "\<forall>i<n. \<forall>j<n. 0 < g i j"
    and big: "\<forall>j<n. tolerance < (\<Sum>i<n. g i j)"
  shows "list_all (\<lambda>x. 0 < x) (weights (compute_weights n (tab n g) (col_sums n (tab n g))))"
proof -
  define cs where "cs = col_sums n (tab n g)"
  have cs_pos: "0 < cs ! j" if "j < n" for j
    using pos that n by (simp add: cs_def col_sums_tab) (intro sum_pos, auto)
  have cs_nz: "cs ! j \<noteq> 0" if "j < n" for j
    using cs_pos [OF that] by simp
  have "0 < (\<Sum>j<n. if cs ! j \<noteq> 0 then g k j / cs ! j else 0) / real n"
    if k: "k < n" for k
  proof -
    have "0 < (\<Sum>j<n. if cs ! j \<noteq> 0 then g k j / cs ! j else 0)"
      using n k pos cs_pos by (intro sum_pos) (auto simp: cs_nz)
    with n show ?thesis by simp
  qed
  then show ?thesis
    using compute_weights_raw [OF n big]
    by (simp add: cs_def [symmetric] norm_matrix_tab row_means_tab list_all_iff)
qed
lemma lambda_max_eigen:
  assumes "\<forall>i<n. tolerance < \<bar>u ! i\<bar> \<longrightarrow> c ! i = real n"
  shows "lambda_max n u c = real n"
proof -
  let ?idx = "filter (\<lambda>i. tolerance < \<bar>u ! i\<bar>) [0..<n]"
  have "map (\<lambda>i. c ! i) ?idx = replicate (length ?idx) (real n)"
    using assms by (auto intro!: replicate_eqI simp: image_iff)
  then show ?thesis
    by (simp add: lambda_max_def Let_def)
qed

lemma consistency_vector_eigen:
  assumes "length u = n"
  shows "\<forall>i<n. tolerance < \<bar>u ! i\<bar> \<longrightarrow>
           consistency_vector n u (map (\<lambda>i. real n * u ! i) [0..<n]) ! i = real n"
proof (intro allI impI)
  fix i assume i: "i < n" and big: "tolerance < \<bar>u ! i\<bar>"
  have "tolerance * (1 / 10 ^ 3) < tolerance" using tolerance_pos by simp
  with big have "tolerance * (1 / 10 ^ 3) < \<bar>u ! i\<bar>" by linarith
  moreover from big tolerance_pos have "u ! i \<noteq> 0" by auto
  ultimately show "consistency_vector n u (map (\<lambda>i. real n * u ! i) [0..<n]) ! i = real n"
    using i big by (simp add: consistency_vector_def)
qed

lemma consistency_of_eigen:
  "consistency_index n (real n) = 0"
  "consistency_ratio 0 ri = PFin 0"
  "consistent_cr (PFin 0)"
  by (simp_all add: consistency_index_def consistency_ratio_def consistent_cr_def tolerance_def)

lemma ratio_matrix_result:
  assumes ne: "w \<noteq> []" and pos: "\<forall>x\<in>set w. 0 < x"
  shows "\<exists>r. calculate_ahp (ratio_matrix w) = Inr r
           \<and> weights r = map (\<lambda>x. x / sum_list w) w
           \<and> wsv r = map (\<lambda>x. real (length w) * (x / sum_list w)) w
           \<and> lambdaMax r = real (length w) \<and> ci r = 0 \<and> CR r = PFin 0 \<and> is_consistent r"
proof -
  define n where "n = length w"
  define S where "S = sum_list w"
  define g where "g = (\<lambda>i j. w ! i / w ! j)"
  have n: "0 < n" using ne by (simp add: n_def)
  have wpos: "\<And>i. i < n \<Longrightarrow> 0 < w ! i" using pos by (simp add: n_def)
  have S: "S = (\<Sum>i<n. w ! i)" by (simp add: S_def n_def sum_list_map_nth [of "\<lambda>x. x", simplified])
  have wS: "\<And>j. j < n \<Longrightarrow> w ! j \<le> S"
    unfolding S_def using pos by (auto intro!: member_le_sum_list simp: n_def)
  have Spos: "0 < S" using wS [of 0] wpos [of 0] n by simp
  have M: "ratio_matrix w = tab n (\<lambda>i j. PFin (g i j))"
    by (simp add: ratio_matrix_def n_def g_def)
  have A: "map (map pf_val) (ratio_matrix w) = tab n g"
    by (simp add: M)
  have cs: "\<And>j. j < n \<Longrightarrow> (\<Sum>i<n. g i j) = S / w ! j"
    by (simp add: g_def S sum_divide_distrib)
  have cs_big: "\<forall>j<n. tolerance < (\<Sum>i<n. g i j)"
  proof (intro allI impI)
    fix j assume j: "j < n"
    have "1 \<le> S / w ! j" using wS [OF j] wpos [OF j] by simp
    moreover have "tolerance < 1" by (simp add: tolerance_def)
    ultimately show "tolerance < (\<Sum>i<n. g i j)" using cs [OF j] by linarith
  qed
  have diag: "first_bad_diagonal n (tab n g) = None"
    using wpos by (simp add: first_bad_diagonal_def find_None_iff g_def isclose_def py_isclose_def tolerance_def)
      (metis less_irrefl)
  have len: "length (ratio_matrix w) = n" by (simp add: M)
  have sq: "square n (ratio_matrix w)" by (simp add: M)
  have fin: "list_all (list_all pf_finite) (ratio_matrix w)"
    by (simp add: M tab_def list_all_iff)
  have dg: "degenerate_columns (col_sums n (tab n g)) = []"
    using cs_big by (simp add: degenerate_columns_Nil col_sums_tab)
  have ok: "calculate_ahp (ratio_matrix w) = Inr (compute_weights n (tab n g) (col_sums n (tab n g)))"
    by (simp add: calculate_ahp_Inr Let_def len sq fin A diag dg n)
  define cs where "cs = col_sums n (tab n g)"
  define r where "r = compute_weights n (tab n g) cs"
  have csj: "\<And>j. j < n \<Longrightarrow> cs ! j = S / w ! j"
    using cs by (simp add: cs_def col_sums_tab)
  have norm: "norm_matrix n (tab n g) cs = tab n (\<lambda>i j. w ! i / S)"
    unfolding norm_matrix_tab
  proof (rule tab_cong)
    fix i j assume "i < n" "j < n"
    with wpos [of j] Spos show "(if cs ! j \<noteq> 0 then g i j / cs ! j else 0) = w ! i / S"
      by (simp add: csj g_def)
  qed
  have u: "weights r = map (\<lambda>i. w ! i / S) [0..<n]"
  proof -
    have "weights r = row_means n (norm_matrix n (tab n g) cs)"
      using compute_weights_raw [OF n cs_big] by (simp only: r_def cs_def)
    also have "\<dots> = row_means n (tab n (\<lambda>i j. w ! i / S))"
      by (simp only: norm)
    also have "\<dots> = map (\<lambda>i. (\<Sum>j<n. w ! i / S) / real n) [0..<n]"
      by (rule row_means_tab)
    also have "\<dots> = map (\<lambda>i. w ! i / S) [0..<n]"
      using n by simp
    finally show ?thesis .
  qed
  have v: "wsv r = map (\<lambda>i. real n * (weights r ! i)) [0..<n]"
  proof -
    have "wsv r = mat_vec n (tab n g) (weights r)"
      by (simp only: r_def compute_weights_fields)
    also have "\<dots> = map (\<lambda>i. \<Sum>j<n. w ! i / S) [0..<n]"
      unfolding mat_vec_tab
    proof (rule map_cong [OF refl])
      fix i assume "i \<in> set [0..<n]"
      have "\<And>j. j \<in> {..<n} \<Longrightarrow> g i j * (weights r ! j) = w ! i / S"
      proof -
        fix j assume "j \<in> {..<n}"
        then have "w ! j \<noteq> 0" using wpos by fastforce
        with \<open>j \<in> {..<n}\<close> show "g i j * (weights r ! j) = w ! i / S"
          by (simp add: u g_def)
      qed
      then show "(\<Sum>j<n. g i j * weights r ! j) = (\<Sum>j<n. w ! i / S)"
        by (rule sum.cong [OF refl])
    qed
    also have "\<dots> = map (\<lambda>i. real n * (weights r ! i)) [0..<n]"
      by (simp add: u)
    finally show ?thesis .
  qed
  have lam: "lambdaMax r = real n"
  proof -
    have "lambdaMax r = lambda_max n (weights r) (consistency_vector n (weights r) (wsv r))"
      by (simp only: r_def compute_weights_fields)
    also have "\<dots> = real n"
      using consistency_vector_eigen [of "weights r" n] by (simp add: v u lambda_max_eigen)
    finally show ?thesis .
  qed
  have rest: "ci r = 0 \<and> CR r = PFin 0 \<and> is_consistent r"
    using lam by (simp add: r_def compute_weights_fields consistency_of_eigen)
  have "map (\<lambda>i. w ! i / S) [0..<n] = map (\<lambda>x. x / S) w"
    by (simp add: n_def map_conv_upt [of _ w])
  with ok u v rest lam show ?thesis
    by (intro exI [of _ r]) (simp add: r_def cs_def S_def n_def map_conv_upt [of _ w])
qed

lemma entry_of_square:
  assumes "square n M" "i < n" "j < n"
  shows "map (map pf_val) M ! i ! j = pf_val (M ! i ! j)"
proof -
  have "length M = n" using assms(1) by (simp add: square_def)
  moreover have "length (M ! i) = n" using assms(1,2) by simp
  ultimately show ?thesis using assms(2,3) by simp
qed

lemma calc_example_3x3:
  "calculate_ahp [[PFin 1, PFin 3, PFin 5], [PFin (1/3), PFin 1, PFin 2], [PFin (1/5), PFin (1/2), PFin 1]] =
   Inr \<lparr>res_n = 3, weights = [1073 / 1656, 571 / 2484, 607 / 4968],
        wsv = [1210 / 621, 127 / 184, 9109 / 24840], cv = [9680 / 3219, 3429 / 1142, 9109 / 3035],
        lambdaMax = 100536347567 / 33470872290, ci = 123730697 / 66941744580, RI = 29 / 50,
        CR = PFin (618653485 / 194131059282), is_consistent = True,
        colSums = [23 / 15, 9 / 2, 8],
        normMatrix = [[15 / 23, 2 / 3, 5 / 8], [5 / 23, 2 / 9, 1 / 4], [3 / 23, 1 / 9, 1 / 8]]\<rparr>"
  by code_simp

section \<open>Properties of the engine\<close>

text \<open>Claim C1. On success, the weight vector has one entry per row and sums to 1.\<close>

theorem calculate_ahp_weights_sum:
  assumes "calculate_ahp M = Inr r"
  shows "res_n r = length M \<and> length (weights r) = res_n r \<and> sum_list (weights r) = 1"
proof -
  obtain g n where n: "0 < n" "n = length M"
    and r: "r = compute_weights n (tab n g) (col_sums n (tab n g))"
    using calculate_ahp_InrE [OF assms] by metis
  have "length (row_means n (norm_matrix n (tab n g) (col_sums n (tab n g)))) = n"
    by simp
  then show ?thesis
    using n sum_normalize_weights [OF n(1)]
    by (simp add: r compute_weights_fields)
qed

theorem calculate_ahp_weights_sum_witness:
  "calculate_ahp [[PFin 1, PFin 3], [PFin (1/3), PFin 1]] =
     Inr (compute_weights 2 [[1, 3], [1/3, 1]] [4/3, 4])
   \<and> sum_list (weights (compute_weights 2 [[1, 3], [1/3, 1]] [4/3, 4])) = 1"
proof -
  have e: "calculate_ahp [[PFin 1, PFin 3], [PFin (1/3), PFin 1]] =
     Inr (compute_weights 2 [[1, 3], [1/3, 1]] [4/3, 4])"
    by code_simp
  show ?thesis using calculate_ahp_weights_sum [OF e] e by simp
qed

text \<open>Claim C8. The renormalisation \<open>weights / weights.sum()\<close> is the identity:
  the row means of the column-normalised matrix already sum to 1, so the
  weights are the row means and the uniform fallback is never taken.\<close>

theorem calculate_ahp_renormalisation_identity:
  assumes "calculate_ahp M = Inr r"
  shows "sum_list (row_means (res_n r) (normMatrix r)) = 1
       \<and> weights r = row_means (res_n r) (normMatrix r)"
proof -
  obtain g n where n: "0 < n" and big: "\<forall>j<n. tolerance < (\<Sum>i<n. g i j)"
    and r: "r = compute_weights n (tab n g) (col_sums n (tab n g))"
    using calculate_ahp_InrE [OF assms] by metis
  have "\<forall>j<n. (\<Sum>i<n. g i j) \<noteq> 0"
    using big tolerance_pos by (metis less_trans less_irrefl)
  from sum_row_means_norm [OF n this] compute_weights_raw [OF n big]
  show ?thesis by (simp add: r compute_weights_fields)
qed

theorem calculate_ahp_renormalisation_identity_witness:
  "calculate_ahp [[PFin 1, PFin 3], [PFin (1/3), PFin 1]] =
     Inr (compute_weights 2 [[1, 3], [1/3, 1]] [4/3, 4])
   \<and> weights (compute_weights 2 [[1, 3], [1/3, 1]] [4/3, 4])
     = row_means 2 (normMatrix (compute_weights 2 [[1, 3], [1/3, 1]] [4/3, 4]))"
proof -
  have e: "calculate_ahp [[PFin 1, PFin 3], [PFin (1/3), PFin 1]] =
     Inr (compute_weights 2 [[1, 3], [1/3, 1]] [4/3, 4])"
    by code_simp
  show ?thesis
    using calculate_ahp_renormalisation_identity [OF e] e by (simp add: compute_weights_fields)
qed


text \<open>Claim C24. A validated matrix with a column summing to at most the tolerance is rejected with \<open>DegenerateColumns\<close> naming that column (1-based), and no weights are produced.\<close>

theorem calculate_ahp_rejects_degenerate_column:
  assumes sq: "square n M" and n: "0 < n" and fin: "list_all (list_all pf_finite) M"
    and diag: "\<forall>i<n. isclose (pf_val (M ! i ! i)) 1 tolerance"
    and j: "j < n" and col: "(\<Sum>i<n. pf_val (M ! i ! j)) \<le> tolerance"
  shows "\<exists>cols. calculate_ahp M = Inl (DegenerateColumns cols) \<and> Suc j \<in> set cols"
proof -
  define A where "A = map (map pf_val) M"
  have len: "length M = n" using sq by (simp add: square_def)
  have fb: "first_bad_diagonal n A = None"
    using diag sq by (simp add: first_bad_diagonal_def find_None_iff A_def entry_of_square)
  have "col_sums n A ! j = (\<Sum>i<n. pf_val (M ! i ! j))"
    using j sq len by (simp add: col_sums_def A_def sum_list_map_nth square_def)
  then have "Suc j \<in> set (degenerate_columns (col_sums n A))"
    using j col by (auto simp: degenerate_columns_def)
  moreover have "calculate_ahp M = Inl (DegenerateColumns (degenerate_columns (col_sums n A)))"
    using calculation n sq fin fb by (auto simp: calculate_ahp_def Let_def len A_def [symmetric])
  ultimately show ?thesis by blast
qed

text \<open>Claim C25. The first diagonal entry that is not \<open>math.isclose\<close> to 1 is reported as \<open>BadDiagonal\<close>.\<close>

theorem calculate_ahp_rejects_bad_diagonal:
  assumes sq: "square n M" and n: "0 < n" and fin: "list_all (list_all pf_finite) M"
    and i: "i < n" and bad: "\<not> isclose (pf_val (M ! i ! i)) 1 tolerance"
    and before: "\<forall>k<i. isclose (pf_val (M ! k ! k)) 1 tolerance"
  shows "calculate_ahp M = Inl (BadDiagonal i)"
proof -
  define A where "A = map (map pf_val) M"
  have len: "length M = n" using sq by (simp add: square_def)
  have "first_bad_diagonal n A = Some i"
    unfolding first_bad_diagonal_def find_Some_iff
    using i bad before sq by (auto simp: A_def entry_of_square intro!: exI [of _ i])
  then show ?thesis
    using n sq fin by (simp add: calculate_ahp_def Let_def len A_def [symmetric])
qed

text \<open>A square matrix with an infinite or NaN entry is rejected before any arithmetic.\<close>

theorem calculate_ahp_rejects_non_finite:
  assumes sq: "square n M" and n: "0 < n" and ij: "i < n" "j < n"
    and inf: "\<not> pf_finite (M ! i ! j)"
  shows "calculate_ahp M = Inl NonFiniteEntry"
proof -
  have len: "length M = n" using sq by (simp add: square_def)
  have "\<not> list_all (list_all pf_finite) M"
    using ij inf sq len by (auto simp: list_all_length)
  with n sq show ?thesis by (simp add: calculate_ahp_def Let_def len)
qed

text \<open>Claim C2. Refinement of the AHP contract: for a ratio matrix \<open>a\<^sub>i\<^sub>j = w\<^sub>i / w\<^sub>j\<close> of positive priorities the engine returns the priorities normalised to sum 1, \<open>\<lambda>max = n\<close>, CI = 0, CR = 0, and flags the matrix consistent.\<close>

theorem calculate_ahp_perfectly_consistent:
  assumes "w \<noteq> []" and "list_all (\<lambda>x. 0 < x) w"
  shows "\<exists>r. calculate_ahp (ratio_matrix w) = Inr r
           \<and> weights r = map (\<lambda>x. x / sum_list w) w
           \<and> lambdaMax r = real (length w) \<and> ci r = 0 \<and> CR r = PFin 0 \<and> is_consistent r"
  using ratio_matrix_result [of w] assms by (auto simp: list_all_iff)

theorem calculate_ahp_perfectly_consistent_witness:
  "[2, 1, 1 :: real] \<noteq> [] \<and> list_all (\<lambda>x. 0 < x) [2, 1, 1 :: real] \<and>
   (\<exists>r. calculate_ahp (ratio_matrix [2, 1, 1]) = Inr r
        \<and> weights r = [1 / 2, 1 / 4, 1 / 4] \<and> lambdaMax r = 3 \<and> CR r = PFin 0 \<and> is_consistent r)"
proof -
  have h: "[2, 1, 1 :: real] \<noteq> []" "list_all (\<lambda>x. 0 < x) [2, 1, 1 :: real]" by simp_all
  obtain r where r: "calculate_ahp (ratio_matrix [2, 1, 1]) = Inr r"
    "weights r = map (\<lambda>x. x / sum_list [2, 1, 1 :: real]) [2, 1, 1]"
    "lambdaMax r = real (length [2, 1, 1 :: real])" "CR r = PFin 0" "is_consistent r"
    using calculate_ahp_perfectly_consistent [OF h] by blast
  have "map (\<lambda>x. x / sum_list [2, 1, 1 :: real]) [2, 1, 1] = [1 / 2, 1 / 4, 1 / 4]"
    by simp
  moreover have "real (length [2, 1, 1 :: real]) = 3" by simp
  ultimately show ?thesis
    using h r by metis
qed

text \<open>The matrix of ones of any size n yields uniform weights, \<open>\<lambda>max = n\<close>, CI = 0, CR = 0 and consistency (the spec's boundary example).\<close>

theorem calculate_ahp_all_ones:
  assumes "0 < n"
  shows "\<exists>r. calculate_ahp (replicate n (replicate n (PFin 1))) = Inr r
           \<and> weights r = replicate n (1 / real n)
           \<and> lambdaMax r = real n \<and> ci r = 0 \<and> CR r = PFin 0 \<and> is_consistent r"
proof -
  have "ratio_matrix (replicate n 1) = tab n (\<lambda>i j. PFin 1)"
    unfolding ratio_matrix_def length_replicate by (rule tab_cong) simp
  then have m: "ratio_matrix (replicate n 1) = replicate n (replicate n (PFin 1))"
    by (simp add: tab_const)
  show ?thesis
    using ratio_matrix_result [of "replicate n 1"] assms by (simp add: m map_replicate_const) blast
qed

theorem calculate_ahp_all_ones_witness:
  "0 < (4::nat) \<and> (\<exists>r. calculate_ahp (replicate 4 (replicate 4 (PFin 1))) = Inr r
     \<and> weights r = replicate 4 (1 / 4) \<and> lambdaMax r = 4 \<and> CR r = PFin 0 \<and> is_consistent r)"
proof -
  obtain r where "calculate_ahp (replicate 4 (replicate 4 (PFin 1))) = Inr r"
    "weights r = replicate 4 (1 / real (4::nat))" "lambdaMax r = real (4::nat)" "CR r = PFin 0"
    "is_consistent r"
    using calculate_ahp_all_ones [of 4] by auto
  then show ?thesis by (intro conjI exI [of _ r]) simp_all
qed

text \<open>Every reciprocal 2\<times>2 matrix is perfectly consistent: weights \<open>a/(a+1), 1/(a+1)\<close> and CR = 0.\<close>

theorem calculate_ahp_reciprocal_2x2:
  assumes "0 < a"
  shows "\<exists>r. calculate_ahp [[PFin 1, PFin a], [PFin (1 / a), PFin 1]] = Inr r
           \<and> weights r = [a / (a + 1), 1 / (a + 1)] \<and> ci r = 0 \<and> CR r = PFin 0 \<and> is_consistent r"
proof -
  have m: "ratio_matrix [a, 1] = [[PFin 1, PFin a], [PFin (1 / a), PFin 1]]"
    using assms by (simp add: ratio_matrix_def tab_def upt_rec)
  show ?thesis
    using ratio_matrix_result [of "[a, 1]"] assms by (simp add: m) blast
qed

theorem calculate_ahp_reciprocal_2x2_witness:
  "0 < (5::real) \<and> (\<exists>r. calculate_ahp [[PFin 1, PFin 5], [PFin (1 / 5), PFin 1]] = Inr r
     \<and> weights r = [5 / 6, 1 / 6] \<and> CR r = PFin 0 \<and> is_consistent r)"
proof -
  obtain r where "calculate_ahp [[PFin 1, PFin 5], [PFin (1 / 5), PFin 1]] = Inr r"
    "weights r = [5 / (5 + 1), 1 / (5 + 1)]" "CR r = PFin 0" "is_consistent r"
    using calculate_ahp_reciprocal_2x2 [of 5] by auto
  then show ?thesis by (intro conjI exI [of _ r]) simp_all
qed

text \<open>The spec's worked example [[1,3,5],[1/3,1,2],[1/5,1/2,1]] gives weights within 0.01 of [0.648, 0.230, 0.122] and a consistency ratio below 0.01.\<close>

theorem calculate_ahp_spec_example:
  "\<exists>r. calculate_ahp [[PFin 1, PFin 3, PFin 5], [PFin (1/3), PFin 1, PFin 2],
                      [PFin (1/5), PFin (1/2), PFin 1]] = Inr r
     \<and> weights r = [1073 / 1656, 571 / 2484, 607 / 4968]
     \<and> \<bar>weights r ! 0 - 0.648\<bar> < 0.01 \<and> \<bar>weights r ! 1 - 0.230\<bar> < 0.01
     \<and> \<bar>weights r ! 2 - 0.122\<bar> < 0.01
     \<and> pf_le (CR r) 0.01 \<and> is_consistent r"
  using calc_example_3x3 by simp

text \<open>A non-reciprocal 2\<times>2 matrix: RI is 0 for n \<le> 2 and CI = 1, so CR is \<open>float("inf")\<close> and the matrix is flagged inconsistent.\<close>

theorem calculate_ahp_inconsistent_2x2:
  "\<exists>r. calculate_ahp [[PFin 1, PFin 2], [PFin 2, PFin 1]] = Inr r
     \<and> weights r = [1 / 2, 1 / 2] \<and> lambdaMax r = 3 \<and> ci r = 1 \<and> RI r = 0
     \<and> CR r = PInf \<and> \<not> is_consistent r"
proof -
  have "calculate_ahp [[PFin 1, PFin 2], [PFin 2, PFin 1]] =
    Inr \<lparr>res_n = 2, weights = [1 / 2, 1 / 2], wsv = [3 / 2, 3 / 2], cv = [3, 3],
         lambdaMax = 3, ci = 1, RI = 0, CR = PInf, is_consistent = False,
         colSums = [3, 3], normMatrix = [[1 / 3, 2 / 3], [2 / 3, 1 / 3]]\<rparr>"
    by code_simp
  then show ?thesis by simp
qed


theorem calculate_ahp_rejects_degenerate_column_witness:
  "\<exists>cols. calculate_ahp [[PFin 1, PFin (-2)], [PFin 1, PFin 1]] = Inl (DegenerateColumns cols)
     \<and> Suc 1 \<in> set cols"
proof (rule calculate_ahp_rejects_degenerate_column [of 2])
  show "\<forall>i<2. isclose (pf_val ([[PFin 1, PFin (-2)], [PFin 1, PFin 1]] ! i ! i)) 1 tolerance"
    by (simp add: isclose_def py_isclose_def tolerance_def less_2_cases_iff)
  show "(\<Sum>i<2. pf_val ([[PFin 1, PFin (-2)], [PFin 1, PFin 1]] ! i ! 1)) \<le> tolerance"
    by (simp add: tolerance_def numeral_2_eq_2 lessThan_Suc)
qed (simp_all add: square_def)

theorem calculate_ahp_rejects_bad_diagonal_witness:
  "calculate_ahp [[PFin 1, PFin 2], [PFin (1/2), PFin 3]] = Inl (BadDiagonal 1)"
proof (rule calculate_ahp_rejects_bad_diagonal [of 2])
  show "\<not> isclose (pf_val ([[PFin 1, PFin 2], [PFin (1/2), PFin 3]] ! 1 ! 1)) 1 tolerance"
    by (simp add: isclose_def py_isclose_def tolerance_def)
  show "\<forall>k<1. isclose (pf_val ([[PFin 1, PFin 2], [PFin (1/2), PFin 3]] ! k ! k)) 1 tolerance"
    by (simp add: isclose_def py_isclose_def tolerance_def)
qed (simp_all add: square_def)

theorem calculate_ahp_rejects_non_finite_witness:
  "calculate_ahp [[PFin 1, PInf], [PFin 0, PFin 1]] = Inl NonFiniteEntry"
  by (rule calculate_ahp_rejects_non_finite [of 2 _ 0 1]) (simp_all add: square_def)

end
