(* ===== verification/Matrix_Build.thy ===== *)
theory Matrix_Build
  imports Saaty
begin

text \<open>
  The cell loops of \<open>src/Quyhoachdat2_1/app.py\<close> that turn the textual
  judgments of one comparison matrix into the numeric matrix handed to
  \<open>calculate_ahp\<close>: rows and columns in order, the diagonal parsed with
  \<open>is_diagonal=True\<close>, each upper cell parsed and mirrored as its
  reciprocal (\<open>np.inf\<close> when the value is within \<open>1e-9\<close> of 0), lower
  cells never read. The same loop appears in \<open>calculate_criteria_route\<close>
  (form and re-import paths), in \<open>calculate_final_route\<close> (one matrix per
  criterion) and in the Excel readers \<open>parse_matrix_from_sheet\<close> and
  \<open>parse_single_matrix_block\<close>, where every cell is present (an empty
  spreadsheet cell reads as \<open>"1"\<close>); the readers' header and label
  checks are in \<open>Excel_Import\<close>.
\<close>

section \<open>Data\<close>

text \<open>The submitted cells: \<open>form i j\<close> is \<open>request.form.get(f"matrix[{i}][{j}]")\<close>.\<close>

type_synonym cells = "nat \<Rightarrow> nat \<Rightarrow> string option"

text \<open>Why the loop stops: a missing upper cell (the route's own
  \<open>ValueError\<close>) or a cell the parser refuses.\<close>

datatype build_error =
    MissingCell nat nat
  | BadCell nat nat saaty_error

text \<open>\<open>M[i, j] = v\<close> on a list of rows.\<close>

definition upd2 :: "'a list list \<Rightarrow> nat \<Rightarrow> nat \<Rightarrow> 'a \<Rightarrow> 'a list list" where
  "upd2 M i j v = M[i := (M ! i)[j := v]]"

text \<open>\<open>form.get(key, "1" if i == j else None)\<close>.\<close>

definition cell_value :: "cells \<Rightarrow> nat \<Rightarrow> nat \<Rightarrow> string option" where
  "cell_value form i j = (case form i j of Some s \<Rightarrow> Some s | None \<Rightarrow> if i = j then Some ''1'' else None)"

text \<open>\<open>1.0 / pv if abs(pv) > 1e-9 else np.inf\<close>.\<close>

definition mirror_value :: "real \<Rightarrow> pyfloat" where
  "mirror_value pv = (if 1 / 10 ^ 9 < \<bar>pv\<bar> then PFin (1 / pv) else PInf)"

text \<open>One iteration of the inner loop, at row \<open>i\<close> and column \<open>j\<close>.\<close>

fun build_cell :: "cells \<Rightarrow> pymatrix \<Rightarrow> nat \<times> nat \<Rightarrow> build_error + pymatrix" where
  "build_cell form M (i, j) =
     (case cell_value form i j of
        None \<Rightarrow> (if i < j then Inl (MissingCell i j) else Inr M)
      | Some s \<Rightarrow>
          (if i = j then
             (case parse_saaty_value (py_strip s) True of
                Inl e \<Rightarrow> Inl (BadCell i j e)
              | Inr v \<Rightarrow> Inr (upd2 M i j (PFin v)))
           else if i < j then
             (case parse_saaty_value (py_strip s) False of
                Inl e \<Rightarrow> Inl (BadCell i j e)
              | Inr pv \<Rightarrow> Inr (upd2 (upd2 M i j (PFin pv)) j i (mirror_value pv)))
           else Inr M))"

text \<open>The two nested \<open>for\<close> loops; the first exception ends them.\<close>

fun build_loop :: "cells \<Rightarrow> (nat \<times> nat) list \<Rightarrow> pymatrix \<Rightarrow> build_error + pymatrix" where
  "build_loop form [] M = Inr M"
| "build_loop form (p # ps) M =
     (case build_cell form M p of Inl e \<Rightarrow> Inl e | Inr M' \<Rightarrow> build_loop form ps M')"

text \<open>\<open>np.ones((n, n))\<close> filled by the loops over \<open>range(n)\<close>.\<close>

definition build_matrix :: "cells \<Rightarrow> nat \<Rightarrow> build_error + pymatrix" where
  "build_matrix form n =
     build_loop form (List.product [0..<n] [0..<n]) (replicate n (replicate n (PFin 1)))"

text \<open>The Excel readers: \<open>matrix_str\<close> holds \<open>str(cell)\<close>, or \<open>"1"\<close> for an
  empty cell, at every position; the parse loop is the same.\<close>

definition parse_sheet_matrix :: "(nat \<Rightarrow> nat \<Rightarrow> string) \<Rightarrow> nat \<Rightarrow> build_error + pymatrix" where
  "parse_sheet_matrix cell_str n = build_matrix (\<lambda>i j. Some (cell_str i j)) n"

text \<open>The same loop at its other call sites: the criteria matrix restored
  from \<open>form_data_criteria_temp\<close> after a criteria-sheet import, one
  alternatives matrix per criterion \<open>c\<close> from the keys
  \<open>alt_matrix[c][i][j]\<close> (where the loop breaks out with a flag instead of
  raising), and the alternatives blocks of the \<open>TatCaMaTranPA\<close> sheet.\<close>

definition build_criteria_matrix_reimport :: "cells \<Rightarrow> nat \<Rightarrow> build_error + pymatrix" where
  "build_criteria_matrix_reimport saved n = build_matrix saved n"

definition build_alt_matrix :: "(nat \<Rightarrow> cells) \<Rightarrow> nat \<Rightarrow> nat \<Rightarrow> build_error + pymatrix" where
  "build_alt_matrix alt_form crit_idx n = build_matrix (alt_form crit_idx) n"

definition parse_single_block_matrix :: "(nat \<Rightarrow> nat \<Rightarrow> string) \<Rightarrow> nat \<Rightarrow> build_error + pymatrix" where
  "parse_single_block_matrix cell_str n = build_matrix (\<lambda>i j. Some (cell_str i j)) n"

section \<open>The comparison-matrix invariant\<close>

text \<open>
  The spec's \<open>ComparisonMatrix\<close>: square, unit diagonal, every upper entry a
  finite value of the Saaty range \<open>(1/10, 9]\<close> and the entry below it its
  exact reciprocal.
\<close>

text \<open>An upper entry and the entry mirrored below it.\<close>

definition saaty_pair :: "pyfloat \<Rightarrow> pyfloat \<Rightarrow> bool" where
  "saaty_pair x y \<longleftrightarrow> pf_finite x \<and> 1 / 10 < pf_val x \<and> pf_val x \<le> 9 \<and> y = PFin (1 / pf_val x)"

definition comparison_matrix :: "nat \<Rightarrow> pymatrix \<Rightarrow> bool" where
  "comparison_matrix n M \<longleftrightarrow>
     square n M \<and>
     list_all (\<lambda>i. M ! i ! i = PFin 1) [0..<n] \<and>
     list_all (\<lambda>i. list_all (\<lambda>j. i < j \<longrightarrow> saaty_pair (M ! i ! j) (M ! j ! i)) [0..<n]) [0..<n]"

section \<open>A declarative description of the loop\<close>

text \<open>What the loop raises at cell \<open>(i, j)\<close>, independently of the
  matrix built so far.\<close>

fun cell_check :: "cells \<Rightarrow> nat \<times> nat \<Rightarrow> build_error option" where
  "cell_check form (i, j) =
     (case cell_value form i j of
        None \<Rightarrow> (if i < j then Some (MissingCell i j) else None)
      | Some s \<Rightarrow>
          (if i \<le> j then
             (case parse_saaty_value (py_strip s) (i = j) of
                Inl e \<Rightarrow> Some (BadCell i j e)
              | Inr _ \<Rightarrow> None)
           else None))"

text \<open>The first error in row-major order.\<close>

fun first_error :: "cells \<Rightarrow> (nat \<times> nat) list \<Rightarrow> build_error option" where
  "first_error form [] = None"
| "first_error form (p # ps) = (case cell_check form p of Some e \<Rightarrow> Some e | None \<Rightarrow> first_error form ps)"

text \<open>The judgment read from an upper cell (0 where the cell is refused).\<close>

definition upper_val :: "cells \<Rightarrow> nat \<Rightarrow> nat \<Rightarrow> real" where
  "upper_val form i j =
     (case cell_value form i j of
        Some s \<Rightarrow> (case parse_saaty_value (py_strip s) False of Inr v \<Rightarrow> v | Inl _ \<Rightarrow> 0)
      | None \<Rightarrow> 0)"

text \<open>The matrix the judgments describe: unit diagonal, the upper cells as
  read, the lower cells their mirrors.\<close>

definition target_entry :: "cells \<Rightarrow> nat \<Rightarrow> nat \<Rightarrow> pyfloat" where
  "target_entry form a b =
     (if a = b then PFin 1
      else if a < b then PFin (upper_val form a b)
      else mirror_value (upper_val form b a))"

definition matrix_of_cells :: "cells \<Rightarrow> nat \<Rightarrow> pymatrix" where
  "matrix_of_cells form n = tab n (target_entry form)"

section \<open>Lemmas\<close>

lemma comparison_matrix_iff:
  "comparison_matrix n M \<longleftrightarrow>
     square n M \<and> (\<forall>i<n. M ! i ! i = PFin 1) \<and>
     (\<forall>i j. i < j \<and> j < n \<longrightarrow> saaty_pair (M ! i ! j) (M ! j ! i))"
  by (auto simp: comparison_matrix_def list_all_iff)

lemma parse_diagonal_one: "parse_saaty_value s True = Inr v \<Longrightarrow> v = 1"
  by (simp add: parse_saaty_value_def Let_def split: if_splits)

lemma cell_value_diag [simp]: "cell_value form i i \<noteq> None"
  by (simp add: cell_value_def split: option.split)

lemma mirror_value_scale: "1 / 10 < v \<Longrightarrow> mirror_value v = PFin (1 / v)"
  by (simp add: mirror_value_def)

lemma upd2_tab:
  "i < n \<Longrightarrow> j < n \<Longrightarrow> upd2 (tab n g) i j v = tab n (\<lambda>a b. if a = i \<and> b = j then v else g a b)"
  by (auto simp: upd2_def tab_def nth_list_update intro!: nth_equalityI)

lemma build_cell_error:
  "cell_check form p = Some e \<Longrightarrow> build_cell form M p = Inl e"
  by (cases p) (auto simp: split: option.splits if_splits sum.splits)

lemma build_cell_ok:
  assumes "cell_check form (i, j) = None" "i < n" "j < n"
  shows "build_cell form (tab n g) (i, j) =
           Inr (tab n (\<lambda>a b. if (min a b, max a b) = (i, j) then target_entry form a b else g a b))"
proof (cases "i < j")
  case True
  then show ?thesis using assms
    by (auto simp: upd2_tab target_entry_def upper_val_def split: option.splits sum.splits
             intro!: tab_cong)
next
  case False
  then show ?thesis using assms
    by (auto simp: upd2_tab target_entry_def min_def max_def split: option.splits sum.splits
             dest: parse_diagonal_one intro!: tab_cong)
qed

lemma first_error_None: "first_error form ps = None \<longleftrightarrow> (\<forall>p\<in>set ps. cell_check form p = None)"
  by (induction ps) (auto split: option.splits)

lemma first_error_Some: "first_error form ps = Some e \<Longrightarrow> \<exists>p\<in>set ps. cell_check form p = Some e"
  by (induction ps) (auto split: option.splits)

lemma build_loop_spec:
  "set ps \<subseteq> {..<n} \<times> {..<n} \<Longrightarrow>
   build_loop form ps (tab n g) =
     (case first_error form ps of
        Some e \<Rightarrow> Inl e
      | None \<Rightarrow> Inr (tab n (\<lambda>a b. if (min a b, max a b) \<in> set ps then target_entry form a b else g a b)))"
proof (induction ps arbitrary: g)
  case Nil
  then show ?case by simp
next
  case (Cons p ps)
  obtain i j where p: "p = (i, j)" by fastforce
  show ?case
  proof (cases "cell_check form p")
    case (Some e)
    then show ?thesis by (simp add: build_cell_error)
  next
    case None
    have ij: "i < n" "j < n" using Cons.prems p by auto
    have "build_loop form (p # ps) (tab n g) =
            build_loop form ps (tab n (\<lambda>a b. if (min a b, max a b) = p then target_entry form a b else g a b))"
      using None build_cell_ok [OF _ ij] p by simp
    also have "\<dots> = (case first_error form ps of
        Some e \<Rightarrow> Inl e
      | None \<Rightarrow> Inr (tab n (\<lambda>a b. if (min a b, max a b) \<in> set (p # ps) then target_entry form a b else g a b)))"
      using Cons by (auto split: option.split intro!: tab_cong)
    finally show ?thesis using None by simp
  qed
qed

lemma product_upt_pairs: "(min a b, max a b) \<in> set (List.product [0..<n] [0..<n]) \<longleftrightarrow> a < n \<and> b < n"
  by (auto simp: min_def max_def)

lemma upper_cell_ok:
  assumes "cell_check form (i, j) = None" "i < j"
  obtains s where "form i j = Some s" "parse_saaty_value (py_strip s) False = Inr (upper_val form i j)"
  using assms by (auto simp: cell_value_def upper_val_def split: option.splits sum.splits)

lemma all_cells_ok:
  "first_error form (List.product [0..<n] [0..<n]) = None \<longleftrightarrow>
     (\<forall>i<n. \<forall>j<n. cell_check form (i, j) = None)"
  by (auto simp: first_error_None)

lemma matrix_of_cells_comparison:
  assumes "\<forall>i<n. \<forall>j<n. cell_check form (i, j) = None"
  shows "comparison_matrix n (matrix_of_cells form n)"
proof -
  have up: "1 / 10 < upper_val form i j \<and> upper_val form i j \<le> 9" if "i < j" "j < n" for i j
  proof -
    from assms that have "cell_check form (i, j) = None" by simp
    from upper_cell_ok [OF this \<open>i < j\<close>] obtain s
      where "parse_saaty_value (py_strip s) False = Inr (upper_val form i j)" .
    then show ?thesis by (rule parse_saaty_value_bounds)
  qed
  show ?thesis
    using up by (auto simp: comparison_matrix_iff matrix_of_cells_def target_entry_def
        saaty_pair_def mirror_value_scale)
qed

lemma build_matrix_loop:
  "build_matrix form n =
     (case first_error form (List.product [0..<n] [0..<n]) of
        Some e \<Rightarrow> Inl e
      | None \<Rightarrow> Inr (tab n (\<lambda>a b. if (min a b, max a b) \<in> set (List.product [0..<n] [0..<n])
                               then target_entry form a b else PFin 1)))"
proof -
  have "build_matrix form n = build_loop form (List.product [0..<n] [0..<n]) (tab n (\<lambda>_ _. PFin 1))"
    by (simp add: build_matrix_def tab_const)
  also have "\<dots> = (case first_error form (List.product [0..<n] [0..<n]) of
        Some e \<Rightarrow> Inl e
      | None \<Rightarrow> Inr (tab n (\<lambda>a b. if (min a b, max a b) \<in> set (List.product [0..<n] [0..<n])
                               then target_entry form a b else PFin 1)))"
    by (rule build_loop_spec) auto
  finally show ?thesis .
qed

lemma build_matrix_InrD:
  assumes "build_matrix form n = Inr M"
  shows "M = matrix_of_cells form n" "\<forall>i<n. \<forall>j<n. cell_check form (i, j) = None"
proof -
  from assms have "first_error form (List.product [0..<n] [0..<n]) = None"
    and "M = tab n (\<lambda>a b. if (min a b, max a b) \<in> set (List.product [0..<n] [0..<n])
                          then target_entry form a b else PFin 1)"
    by (auto simp: build_matrix_loop split: option.splits)
  then show "M = matrix_of_cells form n" "\<forall>i<n. \<forall>j<n. cell_check form (i, j) = None"
    by (auto simp: matrix_of_cells_def product_upt_pairs all_cells_ok intro!: tab_cong)
qed

lemma build_matrix_InlD:
  assumes "build_matrix form n = Inl e"
  shows "\<exists>i<n. \<exists>j<n. cell_check form (i, j) = Some e"
proof -
  from assms have "first_error form (List.product [0..<n] [0..<n]) = Some e"
    by (auto simp: build_matrix_loop split: option.splits)
  then obtain p where "p \<in> set (List.product [0..<n] [0..<n])" "cell_check form p = Some e"
    by (blast dest: first_error_Some)
  moreover obtain i j where "p = (i, j)" by fastforce
  ultimately have "i < n" "j < n" "cell_check form (i, j) = Some e"
    by (simp_all only: set_product set_upt) auto
  then show ?thesis by blast
qed

lemma cell_check_Some:
  "cell_check form (i, j) = Some e \<Longrightarrow>
     (i < j \<and> form i j = None \<and> e = MissingCell i j) \<or>
     (\<exists>s err. i \<le> j \<and> cell_value form i j = Some s \<and>
        parse_saaty_value (py_strip s) (i = j) = Inl err \<and> e = BadCell i j err)"
  by (auto simp: cell_value_def split: option.splits if_splits sum.splits)

lemma target_entry_upper:
  assumes "cell_check form (i, j) = None" "i < j"
  shows "target_entry form i j = PFin (upper_val form i j)"
    "target_entry form j i = PFin (1 / upper_val form i j)"
    "1 / 10 < upper_val form i j" "upper_val form i j \<le> 9"
proof -
  from upper_cell_ok [OF assms] obtain s
    where "parse_saaty_value (py_strip s) False = Inr (upper_val form i j)" .
  from parse_saaty_value_bounds [OF this]
  show "1 / 10 < upper_val form i j" "upper_val form i j \<le> 9" by simp_all
  then show "target_entry form i j = PFin (upper_val form i j)"
    "target_entry form j i = PFin (1 / upper_val form i j)"
    using assms(2) by (simp_all add: target_entry_def mirror_value_scale)
qed

lemma cell_check_lower: "j < i \<Longrightarrow> cell_check form (i, j) = None"
  by (simp split: option.split)

lemma cell_check_cong:
  assumes "\<forall>i j. i \<le> j \<longrightarrow> form' i j = form i j"
  shows "cell_check form' = cell_check form" "target_entry form' a b = target_entry form a b"
proof -
  have cv: "cell_value form' i j = cell_value form i j" if "i \<le> j" for i j
    using assms that by (simp add: cell_value_def)
  show "cell_check form' = cell_check form"
  proof
    fix p :: "nat \<times> nat"
    obtain i j where p: "p = (i, j)" by fastforce
    show "cell_check form' p = cell_check form p"
    proof (cases "i \<le> j")
      case True
      then show ?thesis by (simp only: p cv cell_check.simps)
    next
      case False
      then show ?thesis by (simp add: p cell_check_lower del: cell_check.simps)
    qed
  qed
  show "target_entry form' a b = target_entry form a b"
    by (simp add: target_entry_def upper_val_def cv)
qed

lemma first_error_cong:
  "cell_check form' = cell_check form \<Longrightarrow> first_error form' ps = first_error form ps"
  by (induction ps) (simp_all split: option.split)

lemma comparison_matrix_entry:
  assumes "comparison_matrix n M" "i < n" "j < n"
  shows "pf_finite (M ! i ! j) \<and> 0 < pf_val (M ! i ! j)"
proof -
  have pos: "0 < pf_val x" if "saaty_pair x y" for x y :: pyfloat
    using that by (simp add: saaty_pair_def)
  have inv: "pf_finite y \<and> 0 < pf_val y" if "saaty_pair x y" for x y :: pyfloat
    using that by (simp add: saaty_pair_def)
  consider "i < j" | "i = j" | "j < i" by linarith
  then show ?thesis
  proof cases
    case 1
    with assms have "saaty_pair (M ! i ! j) (M ! j ! i)" by (simp add: comparison_matrix_iff)
    then show ?thesis by (simp add: saaty_pair_def)
  next
    case 2
    with assms show ?thesis by (simp add: comparison_matrix_iff)
  next
    case 3
    with assms have "saaty_pair (M ! j ! i) (M ! i ! j)" by (simp add: comparison_matrix_iff)
    then show ?thesis by (rule inv)
  qed
qed

section \<open>Properties of the matrix construction\<close>

text \<open>Claim C9. The cell loop is the declarative construction: it raises
  the first error in row-major order, and otherwise returns the matrix with
  unit diagonal, the parsed upper judgments and their mirrors below.\<close>

theorem build_matrix_eq:
  "build_matrix form n =
     (case first_error form (List.product [0..<n] [0..<n]) of
        Some e \<Rightarrow> Inl e
      | None \<Rightarrow> Inr (matrix_of_cells form n))"
  by (auto simp: build_matrix_loop matrix_of_cells_def product_upt_pairs split: option.split
      intro!: tab_cong)

text \<open>Claim C5. Every matrix the cell loop returns is a comparison matrix:
  square, unit diagonal, upper entries finite in \<open>(1/10, 9]\<close> with their
  exact reciprocals below (the \<open>np.inf\<close> mirror never occurs).\<close>

theorem build_matrix_comparison_matrix:
  assumes "build_matrix form n = Inr M"
  shows "comparison_matrix n M"
  using matrix_of_cells_comparison build_matrix_InrD [OF assms] by simp

text \<open>Claim C10. One iteration of the loop, at any cell of the matrix,
  preserves the comparison-matrix invariant.\<close>

theorem build_cell_preserves_comparison:
  assumes "comparison_matrix n M" "i < n" "j < n" "build_cell form M (i, j) = Inr M'"
  shows "comparison_matrix n M'"
proof -
  have sq: "square n M" using assms(1) by (simp add: comparison_matrix_def)
  have M: "M = tab n (\<lambda>a b. M ! a ! b)" by (rule tab_square_eq [OF sq])
  have ok: "cell_check form (i, j) = None"
    using assms(4) build_cell_error by (cases "cell_check form (i, j)") auto
  define g where "g = (\<lambda>a b. if (min a b, max a b) = (i, j) then target_entry form a b else M ! a ! b)"
  have M': "M' = tab n g"
    using assms(4) build_cell_ok [OF ok assms(2,3), of "\<lambda>a b. M ! a ! b"] M by (simp add: g_def)
  have "g a a = PFin 1" if "a < n" for a
    using assms(1) that by (simp add: g_def comparison_matrix_iff target_entry_def)
  moreover have "saaty_pair (g a b) (g b a)" if "a < b" "b < n" for a b
  proof (cases "(a, b) = (i, j)")
    case True
    with target_entry_upper [OF ok] that show ?thesis
      by (simp add: g_def saaty_pair_def)
  next
    case False
    with that have "g a b = M ! a ! b" "g b a = M ! b ! a"
      by (auto simp: g_def min_def max_def)
    with assms(1) that show ?thesis
      by (simp add: comparison_matrix_iff)
  qed
  ultimately show ?thesis
    by (simp add: M' comparison_matrix_iff)
qed

text \<open>Claim C31. In a matrix the loop returns, every upper entry is the
  parsed value of its submitted cell and the entry below it is its
  reciprocal.\<close>

theorem build_matrix_upper_cells:
  assumes "build_matrix form n = Inr M" "i < j" "j < n"
  shows "\<exists>s v. form i j = Some s \<and> parse_saaty_value (py_strip s) False = Inr v \<and>
           M ! i ! j = PFin v \<and> M ! j ! i = PFin (1 / v)"
proof -
  note D = build_matrix_InrD [OF assms(1)]
  have ok: "cell_check form (i, j) = None" using D(2) assms(2,3) by simp
  from upper_cell_ok [OF ok assms(2)] obtain s where
    "form i j = Some s" "parse_saaty_value (py_strip s) False = Inr (upper_val form i j)" .
  moreover have "M ! i ! j = PFin (upper_val form i j)" "M ! j ! i = PFin (1 / upper_val form i j)"
    using target_entry_upper [OF ok assms(2)] assms(2,3) by (simp_all add: D(1) matrix_of_cells_def)
  ultimately show ?thesis by blast
qed

text \<open>Claim C32. When the loop stops, it names a cell of the matrix on or
  above the diagonal: an upper cell that was not submitted, or a cell whose
  text the parser refuses, with the parser's error.\<close>

theorem build_matrix_error_cell:
  assumes "build_matrix form n = Inl e"
  shows "(\<exists>i j. i < j \<and> j < n \<and> form i j = None \<and> e = MissingCell i j) \<or>
         (\<exists>i j s err. i \<le> j \<and> j < n \<and> cell_value form i j = Some s \<and>
            parse_saaty_value (py_strip s) (i = j) = Inl err \<and> e = BadCell i j err)"
proof -
  from build_matrix_InlD [OF assms] obtain i j where
    jn: "j < n" and c: "cell_check form (i, j) = Some e" by blast
  from cell_check_Some [OF c] show ?thesis
  proof (elim disjE conjE exE)
    assume "i < j" "form i j = None" "e = MissingCell i j"
    with jn show ?thesis by blast
  next
    fix s err assume "i \<le> j" "cell_value form i j = Some s"
      "parse_saaty_value (py_strip s) (i = j) = Inl err" "e = BadCell i j err"
    with jn show ?thesis by blast
  qed
qed

text \<open>Cells below the diagonal are never read: two forms that
  agree on and above the diagonal give the same outcome.\<close>

theorem build_matrix_ignores_lower:
  assumes "\<forall>i j. i \<le> j \<longrightarrow> form' i j = form i j"
  shows "build_matrix form' n = build_matrix form n"
  unfolding build_matrix_loop first_error_cong [OF cell_check_cong(1) [OF assms]]
    cell_check_cong(2) [OF assms] ..

text \<open>The spreadsheet readers never report a missing cell: an
  empty cell reads as \<open>"1"\<close>.\<close>

theorem parse_sheet_matrix_no_missing:
  "parse_sheet_matrix cell_str n \<noteq> Inl (MissingCell i j) \<and>
   parse_single_block_matrix cell_str n \<noteq> Inl (MissingCell i j)"
proof -
  have "build_matrix (\<lambda>i j. Some (cell_str i j)) n \<noteq> Inl (MissingCell i j)"
  proof
    assume "build_matrix (\<lambda>i j. Some (cell_str i j)) n = Inl (MissingCell i j)"
    from build_matrix_InlD [OF this] obtain a b where
      "cell_check (\<lambda>i j. Some (cell_str i j)) (a, b) = Some (MissingCell i j)" by blast
    from cell_check_Some [OF this] show False by simp
  qed
  then show ?thesis by (simp add: parse_sheet_matrix_def parse_single_block_matrix_def)
qed

text \<open>The specification's round trip on a 2x2 form: \<open>"4"\<close> above
  the diagonal gives 0.25 below it, \<open>"0.25"\<close> gives 4; a missing upper cell,
  an out-of-scale judgment and a diagonal typed as \<open>"1.0"\<close> stop the loop.\<close>

theorem build_matrix_examples:
  "build_matrix (\<lambda>i j. if (i, j) = (0, 1) then Some ''4'' else None) 2 =
     Inr [[PFin 1, PFin 4], [PFin (1 / 4), PFin 1]] \<and>
   build_matrix (\<lambda>i j. if (i, j) = (0, 1) then Some '' 0.25'' else None) 2 =
     Inr [[PFin 1, PFin (1 / 4)], [PFin 4, PFin 1]] \<and>
   build_matrix (\<lambda>i j. None) 2 = Inl (MissingCell 0 1) \<and>
   build_matrix (\<lambda>i j. if (i, j) = (0, 1) then Some ''10'' else None) 2 =
     Inl (BadCell 0 1 IntegerOutOfScale) \<and>
   build_matrix (\<lambda>i j. if i = j then Some ''1.0'' else Some ''3'') 2 =
     Inl (BadCell 0 0 InvalidDiagonal)"
  by code_simp

section \<open>Witnesses\<close>

theorem build_matrix_comparison_matrix_witness:
  "build_matrix (\<lambda>i j. if (i, j) = (0, 1) then Some ''4'' else None) 2 =
     Inr [[PFin 1, PFin 4], [PFin (1 / 4), PFin 1]] \<and>
   comparison_matrix 2 [[PFin 1, PFin 4], [PFin (1 / 4), PFin 1]]"
proof -
  have h: "build_matrix (\<lambda>i j. if (i, j) = (0, 1) then Some ''4'' else None) 2 =
     Inr [[PFin 1, PFin 4], [PFin (1 / 4), PFin 1]]" by code_simp
  show ?thesis using h build_matrix_comparison_matrix [OF h] by blast
qed

theorem build_cell_preserves_comparison_witness:
  "comparison_matrix 2 [[PFin 1, PFin 1], [PFin 1, PFin 1]] \<and> (0::nat) < 2 \<and> (1::nat) < 2 \<and>
   build_cell (\<lambda>i j. Some ''1/3'') [[PFin 1, PFin 1], [PFin 1, PFin 1]] (0, 1) =
     Inr [[PFin 1, PFin (1 / 3)], [PFin 3, PFin 1]] \<and>
   comparison_matrix 2 [[PFin 1, PFin (1 / 3)], [PFin 3, PFin 1]]"
proof -
  have c: "comparison_matrix 2 [[PFin 1, PFin 1], [PFin 1, PFin 1]]" by code_simp
  have h: "build_cell (\<lambda>i j. Some ''1/3'') [[PFin 1, PFin 1], [PFin 1, PFin 1]] (0, 1) =
     Inr [[PFin 1, PFin (1 / 3)], [PFin 3, PFin 1]]" by code_simp
  show ?thesis using c h build_cell_preserves_comparison [OF c _ _ h] by simp
qed

theorem build_matrix_upper_cells_witness:
  "build_matrix (\<lambda>i j. if (i, j) = (0, 1) then Some ''4'' else None) 2 =
     Inr [[PFin 1, PFin 4], [PFin (1 / 4), PFin 1]] \<and> (0::nat) < 1 \<and> (1::nat) < 2 \<and>
   (\<exists>s v. (if ((0::nat), (1::nat)) = (0, 1) then Some ''4'' else None) = Some s \<and>
      parse_saaty_value (py_strip s) False = Inr v \<and>
      [[PFin 1, PFin 4], [PFin (1 / 4), PFin 1]] ! 0 ! 1 = PFin v \<and>
      [[PFin 1, PFin 4], [PFin (1 / 4), PFin 1]] ! 1 ! 0 = PFin (1 / v))"
proof -
  have h: "build_matrix (\<lambda>i j. if (i, j) = (0, 1) then Some ''4'' else None) 2 =
     Inr [[PFin 1, PFin 4], [PFin (1 / 4), PFin 1]]" by code_simp
  from build_matrix_upper_cells [OF h, of 0 1] show ?thesis using h by simp
qed

theorem build_matrix_error_cell_witness:
  "build_matrix (\<lambda>i j. if (i, j) = (0, 1) then Some ''1/10'' else None) 2 =
     Inl (BadCell 0 1 InvalidFraction) \<and>
   ((\<exists>i j. i < j \<and> j < 2 \<and> (if (i, j) = (0::nat, 1::nat) then Some ''1/10'' else None) = None \<and>
       BadCell 0 1 InvalidFraction = MissingCell i j) \<or>
    (\<exists>i j s err. i \<le> j \<and> j < 2 \<and>
       cell_value (\<lambda>i j. if (i, j) = (0, 1) then Some ''1/10'' else None) i j = Some s \<and>
       parse_saaty_value (py_strip s) (i = j) = Inl err \<and> BadCell 0 1 InvalidFraction = BadCell i j err))"
proof -
  have h: "build_matrix (\<lambda>i j. if (i, j) = (0, 1) then Some ''1/10'' else None) 2 =
     Inl (BadCell 0 1 InvalidFraction)" by code_simp
  show ?thesis using h build_matrix_error_cell [OF h] by blast
qed

theorem build_matrix_ignores_lower_witness:
  "build_matrix (\<lambda>i j. if (i, j) = (1, 0) then Some ''x'' else if (i, j) = (0, 1) then Some ''5'' else None) 2 =
   build_matrix (\<lambda>i j. if (i, j) = (0, 1) then Some ''5'' else None) 2"
proof -
  let ?f' = "\<lambda>i j. if (i, j) = (1, 0) then Some ''x'' else if (i, j) = (0, 1) then Some ''5'' else None"
  let ?f = "\<lambda>i j. if (i, j) = (0::nat, 1::nat) then Some ''5'' else None"
  have h: "\<forall>i j. i \<le> j \<longrightarrow> ?f' i j = ?f i j" by simp
  show "build_matrix ?f' 2 = build_matrix ?f 2"
    by (rule build_matrix_ignores_lower [OF h])
qed

end
