(* ===== verification/Ranking.thy ===== *)
theory Ranking
  imports Engine Matrix_Build
begin

text \<open>
  The ranking side of the application: \<open>get_sorted_criteria_with_weights\<close>
  (\<open>controller/ahp.py\<close> 239--254) and the aggregation of
  \<open>calculate_final_route\<close> (\<open>app.py\<close> 653--808): the gate on the criteria
  result, one engine run per criterion on the alternatives matrix (built from
  form cells or taken from an Excel import), the critical and inconsistency
  flags, the local-weight matrix, the weighted scores with their guarded
  renormalisation, and the stable descending ranking. Exceptions raised inside
  the route's \<open>try\<close> block end in its \<open>except Exception\<close> handler, the
  \<open>ServerError\<close> outcome. The saves and the session updates around this
  computation are in \<open>Session\<close>; charts and templates are not modelled;
  nor is \<open>convert_numpy_matrix_to_form_data\<close> on the import path, which only
  prepares form data for redisplay (it raises on an array that is not 2-D,
  where the engine's \<open>MalformedMatrix\<close> result leads to the same
  \<open>ServerError\<close>).
\<close>

section \<open>The criteria result in the session\<close>

text \<open>\<open>session["criteria_ahp_results"]\<close>: the engine's result dictionary, or
  the dictionary written by \<open>calculate_criteria_route\<close> when building the
  criteria matrix raised (\<open>except ValueError\<close>): an error, \<open>is_consistent\<close>
  false and the uniform weights \<open>[1/n_criteria]*n_criteria\<close>.\<close>

datatype crit_results =
    CritAhp "ahp_error + ahp_result"
  | CritInputError build_error nat

text \<open>\<open>criteria_results.get("weights")\<close>, \<open>[]\<close> standing for \<open>None\<close>.\<close>

fun crit_weights :: "crit_results \<Rightarrow> real list" where
  "crit_weights (CritAhp (Inr r)) = weights r"
| "crit_weights (CritAhp (Inl _)) = []"
| "crit_weights (CritInputError _ n) = replicate n (1 / real n)"

section \<open>Sorted criteria\<close>

text \<open>Python's \<open>sorted(..., key=lambda item: item[0], reverse=True)\<close> is a
  stable sort on the descending key: \<open>sort_key\<close> on the negated weight.\<close>

definition get_sorted_criteria_with_weights ::
  "crit_results \<Rightarrow> 'c list \<Rightarrow> (real \<times> 'c) list" where
  "get_sorted_criteria_with_weights criteria_results db_criteria_tuples =
     (let w = crit_weights criteria_results
      in if w \<noteq> [] \<and> db_criteria_tuples \<noteq> [] \<and> length w = length db_criteria_tuples
         then sort_key (\<lambda>item. - fst item) (zip w db_criteria_tuples)
         else [])"

section \<open>Per-criterion alternative results\<close>

text \<open>What \<open>alternative_ahp_results_by_crit_idx[c]\<close> holds: the input-error
  dictionary of the form path, or the engine's result dictionary.\<close>

datatype alt_outcome =
    AltInputError build_error
  | AltAhp "ahp_error + ahp_result"

text \<open>\<open>alt_ahp_res.get("error")\<close>.\<close>

fun alt_is_error :: "alt_outcome \<Rightarrow> bool" where
  "alt_is_error (AltInputError _) = True"
| "alt_is_error (AltAhp (Inl _)) = True"
| "alt_is_error (AltAhp (Inr _)) = False"

text \<open>\<open>alt_ahp_res.get("is_consistent", False)\<close>.\<close>

fun alt_consistent :: "alt_outcome \<Rightarrow> bool" where
  "alt_consistent (AltAhp (Inr r)) = is_consistent r"
| "alt_consistent _ = False"

text \<open>\<open>alt_ahp_res.get("weights")\<close>, \<open>[]\<close> standing for \<open>None\<close>.\<close>

fun alt_weights :: "alt_outcome \<Rightarrow> real list" where
  "alt_weights (AltAhp (Inr r)) = weights r"
| "alt_weights _ = []"

text \<open>The form path for criterion \<open>c\<close>: build the matrix from the keys
  \<open>alt_matrix[c][i][j]\<close>, then run the engine on it.\<close>

definition alt_result_form :: "(nat \<Rightarrow> cells) \<Rightarrow> nat \<Rightarrow> nat \<Rightarrow> alt_outcome" where
  "alt_result_form alt_form n_alternatives crit_idx =
     (case build_alt_matrix alt_form crit_idx n_alternatives of
        Inl e \<Rightarrow> AltInputError e
      | Inr M \<Rightarrow> AltAhp (calculate_ahp M))"

text \<open>Where the alternatives matrices come from: the submitted form, or the
  dictionary \<open>imported_alternative_matrices\<close> of an Excel import (its items
  in order, keyed by criterion index).\<close>

datatype alt_source =
    FormCells "nat \<Rightarrow> cells"
  | Imported "(nat \<times> pymatrix) list"

fun alt_results :: "alt_source \<Rightarrow> nat \<Rightarrow> nat \<Rightarrow> (nat \<times> alt_outcome) list" where
  "alt_results (FormCells f) n_criteria n_alternatives =
     map (\<lambda>c. (c, alt_result_form f n_alternatives c)) [0..<n_criteria]"
| "alt_results (Imported ms) n_criteria n_alternatives =
     map (\<lambda>(c, M). (c, AltAhp (calculate_ahp M))) ms"

section \<open>The local-weight matrix\<close>

text \<open>\<open>alternative_local_scores_matrix_np[:, crit_idx] = v\<close> on the matrix
  stored by columns: an index past the last column raises \<open>IndexError\<close>; a
  vector of the column's length is copied, a one-element vector is
  broadcast, any other length raises \<open>ValueError\<close>.\<close>

definition set_column :: "nat \<Rightarrow> real list list \<Rightarrow> nat \<Rightarrow> real list \<Rightarrow> unit + real list list" where
  "set_column n_alternatives cols c v =
     (if length cols \<le> c then Inl ()
      else if length v = n_alternatives then Inr (cols[c := v])
      else if length v = 1 then Inr (cols[c := replicate n_alternatives (hd v)])
      else Inl ())"

text \<open>The body of the per-criterion loop after the engine run: the two
  flags and the column written (the weights, or zeros when there are none).\<close>

record acc =
  cols :: "real list list"
  critical :: bool
  inconsistent :: bool

text \<open>The column written for one result: its weights, or zeros.\<close>

definition local_column :: "nat \<Rightarrow> alt_outcome \<Rightarrow> real list" where
  "local_column n_alternatives r =
     (if alt_weights r \<noteq> [] then alt_weights r else replicate n_alternatives 0)"

fun accumulate :: "nat \<Rightarrow> (nat \<times> alt_outcome) list \<Rightarrow> acc \<Rightarrow> unit + acc" where
  "accumulate n_alternatives [] a = Inr a"
| "accumulate n_alternatives ((c, r) # rs) a =
     (let a1 = (if alt_is_error r then a\<lparr>critical := True\<rparr>
                else if \<not> alt_consistent r then a\<lparr>inconsistent := True\<rparr> else a)
      in if alt_weights r \<noteq> []
         then (case set_column n_alternatives (cols a1) c (alt_weights r) of
                 Inl u \<Rightarrow> Inl u
               | Inr cs \<Rightarrow> accumulate n_alternatives rs (a1\<lparr>cols := cs\<rparr>))
         else (case set_column n_alternatives (cols a1) c [0] of
                 Inl u \<Rightarrow> Inl u
               | Inr cs \<Rightarrow> accumulate n_alternatives rs (a1\<lparr>cols := cs, critical := True\<rparr>)))"

text \<open>The flash loop run when a critical error was seen: for every result
  that is not consistent it formats \<open>lambdaMax\<close>, \<open>ci\<close>, \<open>RI\<close> and \<open>CR\<close>
  with \<open>:.4f\<close>/\<open>:.2f\<close>. An engine error result holds \<open>None\<close> there and an
  input-error result lacks the keys (\<open>"N/A"\<close>): both raise, ending the
  route in its exception handler. Otherwise it returns the flashed criteria.\<close>

fun flash_inconsistent :: "(nat \<times> alt_outcome) list \<Rightarrow> unit + nat list" where
  "flash_inconsistent [] = Inr []"
| "flash_inconsistent ((c, r) # rs) =
     (if alt_consistent r then flash_inconsistent rs
      else if alt_is_error r then Inl ()
      else (case flash_inconsistent rs of Inl u \<Rightarrow> Inl u | Inr cs \<Rightarrow> Inr (c # cs)))"

section \<open>Scores and ranking\<close>

text \<open>\<open>np.dot(alternative_local_scores_matrix_np, criteria_weights_vector)\<close>
  with the local matrix given by its columns.\<close>

definition final_scores :: "nat \<Rightarrow> real list list \<Rightarrow> real list \<Rightarrow> real list" where
  "final_scores n_alternatives cs cw =
     map (\<lambda>a. sum_list (map (\<lambda>c. cs ! c ! a * cw ! c) [0..<length cw])) [0..<n_alternatives]"

text \<open>Division by the total unless it is negligible or already
  \<open>math.isclose(total, 1.0, abs_tol=1e-6)\<close>.\<close>

definition renormalize_scores :: "real list \<Rightarrow> real list" where
  "renormalize_scores s =
     (let total = sum_list s
      in if 1 / 10 ^ 9 < \<bar>total\<bar> \<and> \<not> isclose total 1 (1 / 10 ^ 6) then map (\<lambda>x. x / total) s else s)"

text \<open>\<open>sorted(zip(names, scores), key=lambda x: x[1], reverse=True)\<close>.\<close>

definition rank_alternatives :: "string list \<Rightarrow> real list \<Rightarrow> (string \<times> real) list" where
  "rank_alternatives names scores = sort_key (\<lambda>x. - snd x) (zip names scores)"

section \<open>The route\<close>

text \<open>What \<open>calculate_final_route\<close> reads from the session.\<close>

record final_input =
  session_db_id :: "nat option"
  criteria_tuples :: "(nat \<times> string) list"
  alternatives_tuples :: "(nat \<times> string) list"
  criteria_ahp_results :: "crit_results option"
  alternatives_source :: alt_source

text \<open>The pages the route ends on: back home, the criteria step again, the
  alternatives warning (with the per-criterion results), the exception
  handler's page, or the result page with the final scores and ranking.\<close>

datatype final_outcome =
    RedirectHome
  | CriteriaNotReady
  | AltWarning "(nat \<times> alt_outcome) list"
  | ServerError
  | Ranked "real list list" "real list" "(string \<times> real) list"

fun crit_ready :: "crit_results \<Rightarrow> bool" where
  "crit_ready (CritAhp (Inr r)) = (is_consistent r \<and> weights r \<noteq> [])"
| "crit_ready _ = False"

definition calculate_final_route :: "final_input \<Rightarrow> final_outcome" where
  "calculate_final_route inp =
     (case (session_db_id inp, criteria_ahp_results inp) of
        (Some _, Some cres) \<Rightarrow>
          (if criteria_tuples inp = [] \<or> alternatives_tuples inp = [] then RedirectHome
           else if \<not> crit_ready cres then CriteriaNotReady
           else
             (let cw = crit_weights cres;
                  n_criteria = length (criteria_tuples inp);
                  n_alternatives = length (alternatives_tuples inp);
                  rs = alt_results (alternatives_source inp) n_criteria n_alternatives
              in case accumulate n_alternatives rs
                        \<lparr>cols = replicate n_criteria (replicate n_alternatives 0),
                         critical = False, inconsistent = False\<rparr> of
                   Inl _ \<Rightarrow> ServerError
                 | Inr a \<Rightarrow>
                     (if critical a \<and> flash_inconsistent rs = Inl () then ServerError
                      else if inconsistent a then AltWarning rs
                      else if length cw \<noteq> n_criteria then ServerError
                      else
                        (let s = renormalize_scores (final_scores n_alternatives (cols a) cw)
                         in Ranked (cols a) s (rank_alternatives (map snd (alternatives_tuples inp)) s)))))
      | _ \<Rightarrow> RedirectHome)"


section \<open>Lemmas\<close>

lemma sort_key_desc:
  "sorted_wrt (\<lambda>x y. g y \<le> g x) (sort_key (\<lambda>x. - (g x :: real)) xs)"
proof -
  have "sorted (map (\<lambda>x. - g x) (sort_key (\<lambda>x. - g x) xs))" by (rule sorted_sort_key)
  then show ?thesis by (simp add: sorted_map)
qed

lemma sort_key_desc_stable:
  "filter (\<lambda>x. g x = w) (sort_key (\<lambda>x. - (g x :: real)) xs) = filter (\<lambda>x. g x = w) xs"
proof -
  have "filter (\<lambda>x. - g x = - w) (sort_key (\<lambda>x. - g x) xs) = filter (\<lambda>x. - g x = - w) xs"
    by (rule sort_key_stable)
  then show ?thesis by simp
qed

lemma set_column_write:
  "c < length cs \<Longrightarrow> length v = n \<Longrightarrow> set_column n cs c v = Inr (cs[c := v])"
  by (simp add: set_column_def)

lemma set_column_zero:
  "c < length cs \<Longrightarrow> set_column n cs c [0] = Inr (cs[c := replicate n 0])"
  by (auto simp: set_column_def)

lemma flash_inconsistent_Inl:
  "flash_inconsistent rs = Inl u \<longleftrightarrow> (\<exists>(c, r)\<in>set rs. alt_is_error r)"
proof (induction rs)
  case Nil
  then show ?case by simp
next
  case (Cons p rs)
  obtain c r where p: "p = (c, r)" by fastforce
  have "alt_is_error r \<Longrightarrow> \<not> alt_consistent r"
    by (cases r rule: alt_is_error.cases) auto
  with Cons show ?case by (auto simp: p split: sum.splits)
qed

lemma accumulate_flags:
  "accumulate n rs a = Inr a' \<Longrightarrow>
     (critical a' \<longleftrightarrow> critical a \<or> (\<exists>(c, r)\<in>set rs. alt_is_error r \<or> alt_weights r = [])) \<and>
     (inconsistent a' \<longleftrightarrow> inconsistent a \<or> (\<exists>(c, r)\<in>set rs. \<not> alt_is_error r \<and> \<not> alt_consistent r))"
proof (induction n rs a rule: accumulate.induct)
  case (1 n a)
  then show ?case by simp
next
  case (2 n c r rs a)
  then show ?case
    by (auto simp: Let_def split: if_splits sum.splits)
qed

lemma accumulate_ok:
  assumes "\<forall>(c, r)\<in>set rs. c < length (cols a) \<and> (alt_weights r = [] \<or> length (alt_weights r) = n)"
  shows "accumulate n rs a =
    Inr (a\<lparr>cols := foldl (\<lambda>cs (c, r). cs[c := local_column n r]) (cols a) rs,
           critical := critical a \<or> (\<exists>(c, r)\<in>set rs. alt_is_error r \<or> alt_weights r = []),
           inconsistent := inconsistent a \<or> (\<exists>(c, r)\<in>set rs. \<not> alt_is_error r \<and> \<not> alt_consistent r)\<rparr>)"
  using assms
proof (induction rs arbitrary: a)
  case Nil
  then show ?case by simp
next
  case (Cons p rs)
  obtain c r where p: "p = (c, r)" by fastforce
  have c: "c < length (cols a)" and w: "alt_weights r = [] \<or> length (alt_weights r) = n"
    using Cons.prems p by auto
  let ?a1 = "if alt_is_error r then a\<lparr>critical := True\<rparr>
             else if \<not> alt_consistent r then a\<lparr>inconsistent := True\<rparr> else a"
  have c1: "c < length (cols ?a1)" using c by simp
  have step: "accumulate n (p # rs) a =
      accumulate n rs (?a1\<lparr>cols := (cols a)[c := local_column n r],
                           critical := critical ?a1 \<or> alt_weights r = []\<rparr>)"
  proof (cases "alt_weights r = []")
    case True
    then show ?thesis
      using set_column_zero [OF c1, of n] by (simp add: p Let_def local_column_def)
  next
    case False
    from False w have len: "length (alt_weights r) = n" by simp
    have "set_column n (cols ?a1) c (alt_weights r) = Inr ((cols a)[c := alt_weights r])"
      using set_column_write [OF c1 len] by simp
    with False show ?thesis
      by (simp only: p accumulate.simps Let_def local_column_def if_False sum.case) simp
  qed
  have prems: "\<forall>(c, r)\<in>set rs. c < length (cols a) \<and> (alt_weights r = [] \<or> length (alt_weights r) = n)"
    using Cons.prems by simp
  show ?case
    unfolding step
    by (subst Cons.IH) (use prems in \<open>auto simp: p\<close>)
qed

lemma alt_error_not_consistent: "alt_is_error r \<Longrightarrow> \<not> alt_consistent r"
  by (cases r rule: alt_is_error.cases) auto

lemma calculate_final_route_cases:
  assumes "session_db_id inp = Some i" "criteria_ahp_results inp = Some (CritAhp (Inr r))"
    "criteria_tuples inp \<noteq> []" "alternatives_tuples inp \<noteq> []"
    "is_consistent r" "weights r \<noteq> []"
  shows "calculate_final_route inp =
     (let n_criteria = length (criteria_tuples inp);
          n_alternatives = length (alternatives_tuples inp);
          rs = alt_results (alternatives_source inp) n_criteria n_alternatives
      in case accumulate n_alternatives rs
                \<lparr>cols = replicate n_criteria (replicate n_alternatives 0),
                 critical = False, inconsistent = False\<rparr> of
           Inl _ \<Rightarrow> ServerError
         | Inr a \<Rightarrow>
             (if critical a \<and> flash_inconsistent rs = Inl () then ServerError
              else if inconsistent a then AltWarning rs
              else if length (weights r) \<noteq> n_criteria then ServerError
              else
                (let s = renormalize_scores (final_scores n_alternatives (cols a) (weights r))
                 in Ranked (cols a) s (rank_alternatives (map snd (alternatives_tuples inp)) s))))"
  using assms by (simp add: calculate_final_route_def Let_def)

lemma calculate_final_route_RankedD:
  assumes "calculate_final_route inp = Ranked L s rk"
  obtains i r a where "session_db_id inp = Some i" "criteria_ahp_results inp = Some (CritAhp (Inr r))"
    "criteria_tuples inp \<noteq> []" "alternatives_tuples inp \<noteq> []"
    "is_consistent r" "weights r \<noteq> []" "length (weights r) = length (criteria_tuples inp)"
    "accumulate (length (alternatives_tuples inp))
        (alt_results (alternatives_source inp) (length (criteria_tuples inp)) (length (alternatives_tuples inp)))
        \<lparr>cols = replicate (length (criteria_tuples inp)) (replicate (length (alternatives_tuples inp)) 0),
         critical = False, inconsistent = False\<rparr> = Inr a"
    "\<not> (critical a \<and> flash_inconsistent (alt_results (alternatives_source inp) (length (criteria_tuples inp))
                         (length (alternatives_tuples inp))) = Inl ())"
    "\<not> inconsistent a"
    "L = cols a" "s = renormalize_scores (final_scores (length (alternatives_tuples inp)) (cols a) (weights r))"
    "rk = rank_alternatives (map snd (alternatives_tuples inp)) s"
proof -
  obtain i cres where ids: "session_db_id inp = Some i" "criteria_ahp_results inp = Some cres"
    using assms by (auto simp: calculate_final_route_def split: option.splits)
  have ne: "criteria_tuples inp \<noteq> []" "alternatives_tuples inp \<noteq> []" and ready: "crit_ready cres"
    using assms ids by (auto simp: calculate_final_route_def split: if_splits)
  then obtain r where r: "cres = CritAhp (Inr r)" "is_consistent r" "weights r \<noteq> []"
    by (cases cres rule: crit_ready.cases) auto
  note route = calculate_final_route_cases [OF ids(1) ids(2) [unfolded r(1)] ne r(2,3)]
  show ?thesis
    using assms ids r ne
    by (auto simp: route Let_def intro!: that split: sum.splits if_splits)
qed

lemma calculate_ahp_weights_total:
  assumes "calculate_ahp M = Inr r"
  shows "length (weights r) = length M \<and> sum_list (weights r) = 1"
proof -
  obtain g n where n: "0 < n" "n = length M"
    and r: "r = compute_weights n (tab n g) (col_sums n (tab n g))"
    using calculate_ahp_InrE [OF assms] by metis
  have "length (row_means n (norm_matrix n (tab n g) (col_sums n (tab n g)))) = n"
    by simp
  then show ?thesis
    using n sum_normalize_weights [OF n(1)] by (simp add: r compute_weights_fields)
qed

lemma alt_result_form_weights:
  assumes "alt_result_form f n c = AltAhp (Inr res)"
  shows "length (weights res) = n \<and> sum_list (weights res) = 1"
proof -
  obtain M where b: "build_alt_matrix f c n = Inr M" and e: "calculate_ahp M = Inr res"
    using assms by (auto simp: alt_result_form_def split: sum.splits)
  have "M = matrix_of_cells (f c) n"
    using b by (simp add: build_alt_matrix_def build_matrix_InrD)
  then have "length M = n" by (simp add: matrix_of_cells_def)
  with calculate_ahp_weights_total [OF e] show ?thesis by simp
qed

lemma foldl_update_upt:
  "k \<le> length cs \<Longrightarrow>
   foldl (\<lambda>cs (c, r). cs[c := h r]) cs (map (\<lambda>c. (c, q c)) [0..<k]) =
   map (\<lambda>c. h (q c)) [0..<k] @ drop k cs"
proof (induction k)
  case 0
  then show ?case by simp
next
  case (Suc k)
  then have "k < length cs" by simp
  with Suc show ?case
    by (simp add: list_update_append Cons_nth_drop_Suc [symmetric])
qed

lemma sum_final_scores:
  assumes "length cw = k" "\<forall>c<k. length (w c) = n \<and> sum_list (w c) = 1"
  shows "sum_list (final_scores n (map w [0..<k]) cw) = sum_list cw"
proof -
  have "sum_list (final_scores n (map w [0..<k]) cw) = (\<Sum>a<n. \<Sum>c<k. w c ! a * cw ! c)"
    using assms(1) by (simp add: final_scores_def sum_list_map_upt)
  also have "\<dots> = (\<Sum>c<k. cw ! c * (\<Sum>a<n. w c ! a))"
    by (simp add: sum.swap [of _ "{..<n}"] sum_distrib_left mult.commute)
  also have "\<dots> = (\<Sum>c<k. cw ! c)"
  proof (rule sum.cong)
    fix c assume "c \<in> {..<k}"
    with assms(2) have "(\<Sum>a<n. w c ! a) = 1"
      using sum_list_map_nth [of "\<lambda>x. x" "w c"] by simp
    then show "cw ! c * (\<Sum>a<n. w c ! a) = cw ! c" by simp
  qed simp
  also have "\<dots> = sum_list cw"
    using assms(1) sum_list_map_nth [of "\<lambda>x. x" cw] by simp
  finally show ?thesis .
qed

lemma renormalize_scores_one: "sum_list s = 1 \<Longrightarrow> renormalize_scores s = s"
  by (simp add: renormalize_scores_def isclose_def py_isclose_def)


section \<open>Properties of the aggregation\<close>

lemma ranked_alt_results_ok:
  assumes "calculate_final_route inp = Ranked L s rk"
  shows "\<forall>(c, q)\<in>set (alt_results (alternatives_source inp) (length (criteria_tuples inp))
                                  (length (alternatives_tuples inp))).
           \<not> alt_is_error q \<and> alt_consistent q"
proof -
  obtain a where
    acc: "accumulate (length (alternatives_tuples inp))
        (alt_results (alternatives_source inp) (length (criteria_tuples inp)) (length (alternatives_tuples inp)))
        \<lparr>cols = replicate (length (criteria_tuples inp)) (replicate (length (alternatives_tuples inp)) 0),
         critical = False, inconsistent = False\<rparr> = Inr a"
    and nocrash: "\<not> (critical a \<and> flash_inconsistent (alt_results (alternatives_source inp)
                     (length (criteria_tuples inp)) (length (alternatives_tuples inp))) = Inl ())"
    and cons: "\<not> inconsistent a"
    by (rule calculate_final_route_RankedD [OF assms]) blast
  let ?rs = "alt_results (alternatives_source inp) (length (criteria_tuples inp)) (length (alternatives_tuples inp))"
  note flags = accumulate_flags [OF acc]
  have "\<not> alt_is_error q" if "(c, q) \<in> set ?rs" for c q
  proof
    assume err: "alt_is_error q"
    with that flags have "critical a" by auto
    moreover from err that have "flash_inconsistent ?rs = Inl ()"
      by (auto simp: flash_inconsistent_Inl)
    ultimately show False using nocrash by simp
  qed
  moreover have "alt_consistent q" if "(c, q) \<in> set ?rs" "\<not> alt_is_error q" for c q
    using that flags cons by auto
  ultimately show ?thesis by blast
qed

lemma form_path_columns:
  assumes ok: "\<forall>c<nc. \<not> alt_is_error (alt_result_form f na c)" and ne: "0 < na"
    and acc: "accumulate na (map (\<lambda>c. (c, alt_result_form f na c)) [0..<nc])
                \<lparr>cols = replicate nc (replicate na 0), critical = False, inconsistent = False\<rparr> = Inr a"
  shows "cols a = map (\<lambda>c. alt_weights (alt_result_form f na c)) [0..<nc] \<and>
         (\<forall>c<nc. length (alt_weights (alt_result_form f na c)) = na \<and>
                 sum_list (alt_weights (alt_result_form f na c)) = 1)"
proof -
  let ?q = "\<lambda>c. alt_result_form f na c"
  have w: "length (alt_weights (?q c)) = na \<and> sum_list (alt_weights (?q c)) = 1" if cn: "c < nc" for c
  proof -
    obtain res where "?q c = AltAhp (Inr res)"
      using ok [rule_format, OF cn] by (cases "?q c" rule: alt_is_error.cases) auto
    with alt_result_form_weights [OF this] show ?thesis by simp
  qed
  have H: "\<forall>(c, q)\<in>set (map (\<lambda>c. (c, ?q c)) [0..<nc]).
      c < length (cols \<lparr>cols = replicate nc (replicate na 0), critical = False, inconsistent = False\<rparr>) \<and>
      (alt_weights q = [] \<or> length (alt_weights q) = na)"
    using w by auto
  have "cols a = foldl (\<lambda>cs (c, r). cs[c := local_column na r]) (replicate nc (replicate na 0))
                   (map (\<lambda>c. (c, ?q c)) [0..<nc])"
    using arg_cong [OF trans [OF acc [symmetric] accumulate_ok [OF H]],
        of "\<lambda>x. case x of Inr b \<Rightarrow> cols b | Inl _ \<Rightarrow> []"]
    by simp
  also have "\<dots> = map (\<lambda>c. local_column na (?q c)) [0..<nc]"
    by (simp add: foldl_update_upt)
  also have "\<dots> = map (\<lambda>c. alt_weights (?q c)) [0..<nc]"
  proof -
    have "local_column na (?q c) = alt_weights (?q c)" if "c < nc" for c
      using w [OF that] ne by (auto simp: local_column_def)
    then show ?thesis by simp
  qed
  finally show ?thesis using w by blast
qed

text \<open>Claim C4. The result page is reached only through a consistent
  criteria result with one weight per criterion, and only when every
  per-criterion alternatives result is free of errors and consistent.\<close>

theorem final_route_ranked_safe:
  assumes "calculate_final_route inp = Ranked L s rk"
  shows "\<exists>r. criteria_ahp_results inp = Some (CritAhp (Inr r)) \<and> is_consistent r \<and>
             length (weights r) = length (criteria_tuples inp) \<and>
             (\<forall>(c, q)\<in>set (alt_results (alternatives_source inp) (length (criteria_tuples inp))
                                         (length (alternatives_tuples inp))).
                \<not> alt_is_error q \<and> alt_consistent q)"
proof -
  obtain i r a where r: "criteria_ahp_results inp = Some (CritAhp (Inr r))" "is_consistent r"
      "length (weights r) = length (criteria_tuples inp)"
    by (rule calculate_final_route_RankedD [OF assms]) blast
  with ranked_alt_results_ok [OF assms] show ?thesis by blast
qed

text \<open>Claim C7. On the form path, with the criteria result coming from the
  engine, the final scores of a ranking sum to exactly 1 and are the plain
  weighted sums: the route's renormalisation never changes them.\<close>

theorem final_route_form_scores_sum:
  assumes "calculate_final_route inp = Ranked L s rk"
    and "alternatives_source inp = FormCells f"
    and "criteria_ahp_results inp = Some (CritAhp (calculate_ahp Mc))"
  shows "sum_list s = 1 \<and> length s = length (alternatives_tuples inp) \<and>
         s = final_scores (length (alternatives_tuples inp)) L
               (case calculate_ahp Mc of Inr r \<Rightarrow> weights r | Inl _ \<Rightarrow> [])"
proof -
  let ?nc = "length (criteria_tuples inp)" and ?na = "length (alternatives_tuples inp)"
  obtain i r a where r: "criteria_ahp_results inp = Some (CritAhp (Inr r))"
      "length (weights r) = ?nc" "alternatives_tuples inp \<noteq> []"
    and acc: "accumulate ?na (alt_results (alternatives_source inp) ?nc ?na)
        \<lparr>cols = replicate ?nc (replicate ?na 0), critical = False, inconsistent = False\<rparr> = Inr a"
    and L: "L = cols a" and s: "s = renormalize_scores (final_scores ?na (cols a) (weights r))"
    by (rule calculate_final_route_RankedD [OF assms(1)]) blast
  have cr: "calculate_ahp Mc = Inr r" using r(1) assms(3) by simp
  have rs: "alt_results (alternatives_source inp) ?nc ?na = map (\<lambda>c. (c, alt_result_form f ?na c)) [0..<?nc]"
    using assms(2) by simp
  have "\<forall>c<?nc. \<not> alt_is_error (alt_result_form f ?na c)"
    using ranked_alt_results_ok [OF assms(1)] by (auto simp: rs)
  from form_path_columns [OF this _ acc [unfolded rs]] r(3)
  have ca: "cols a = map (\<lambda>c. alt_weights (alt_result_form f ?na c)) [0..<?nc]"
    and wall: "\<forall>c<?nc. length (alt_weights (alt_result_form f ?na c)) = ?na \<and>
                       sum_list (alt_weights (alt_result_form f ?na c)) = 1"
    by auto
  have sum1: "sum_list (weights r) = 1"
    using calculate_ahp_weights_total [OF cr] by simp
  have one: "sum_list (final_scores ?na (cols a) (weights r)) = 1"
    unfolding ca using sum_final_scores [OF r(2) wall] sum1 by simp
  then have "s = final_scores ?na (cols a) (weights r)"
    by (simp add: s renormalize_scores_one)
  moreover have "length (final_scores ?na (cols a) (weights r)) = ?na"
    by (simp add: final_scores_def)
  ultimately show ?thesis using one by (simp add: L cr)
qed


text \<open>Claim C26. Once the criteria step is ready, any per-criterion
  alternatives result carrying an error (an input error of the form, or an
  engine error) ends the route in its exception handler: the flash loop
  formats the missing \<open>lambdaMax\<close> with \<open>:.4f\<close>. No degraded ranking is
  produced.\<close>

theorem final_route_alt_error_server_error:
  assumes "session_db_id inp = Some i" "criteria_ahp_results inp = Some (CritAhp (Inr r))"
    "criteria_tuples inp \<noteq> []" "alternatives_tuples inp \<noteq> []"
    "is_consistent r" "weights r \<noteq> []"
    and err: "(c, q) \<in> set (alt_results (alternatives_source inp) (length (criteria_tuples inp))
                                        (length (alternatives_tuples inp)))" "alt_is_error q"
  shows "calculate_final_route inp = ServerError"
proof -
  let ?rs = "alt_results (alternatives_source inp) (length (criteria_tuples inp)) (length (alternatives_tuples inp))"
  have crash: "flash_inconsistent ?rs = Inl ()"
    using err by (auto simp: flash_inconsistent_Inl)
  have "critical a" if "accumulate (length (alternatives_tuples inp)) ?rs
          \<lparr>cols = replicate (length (criteria_tuples inp)) (replicate (length (alternatives_tuples inp)) 0),
           critical = False, inconsistent = False\<rparr> = Inr a" for a
    using accumulate_flags [OF that] err by auto
  then show ?thesis
    using crash by (simp add: calculate_final_route_cases [OF assms(1-6)] Let_def split: sum.split)
qed

text \<open>Claim C27. On the form path, when no alternatives result has an
  error but one is inconsistent, the route stops on the warning page with the
  per-criterion results and shows no ranking.\<close>

theorem final_route_alt_inconsistent_warning:
  assumes "session_db_id inp = Some i" "criteria_ahp_results inp = Some (CritAhp (Inr r))"
    "criteria_tuples inp \<noteq> []" "alternatives_tuples inp \<noteq> []"
    "is_consistent r" "weights r \<noteq> []" "alternatives_source inp = FormCells f"
    and noerr: "\<forall>c<length (criteria_tuples inp). \<not> alt_is_error (alt_result_form f (length (alternatives_tuples inp)) c)"
    and incons: "c < length (criteria_tuples inp)"
      "\<not> alt_consistent (alt_result_form f (length (alternatives_tuples inp)) c)"
  shows "calculate_final_route inp =
           AltWarning (alt_results (alternatives_source inp) (length (criteria_tuples inp))
                                   (length (alternatives_tuples inp)))"
proof -
  let ?nc = "length (criteria_tuples inp)" and ?na = "length (alternatives_tuples inp)"
  let ?q = "\<lambda>c. alt_result_form f ?na c"
  let ?a0 = "\<lparr>cols = replicate ?nc (replicate ?na 0), critical = False, inconsistent = False\<rparr>"
  have rs: "alt_results (alternatives_source inp) ?nc ?na = map (\<lambda>c. (c, ?q c)) [0..<?nc]"
    using assms(7) by simp
  have w: "length (alt_weights (?q c)) = ?na" if "c < ?nc" for c
  proof -
    from noerr that obtain res where "?q c = AltAhp (Inr res)"
      by (cases "?q c" rule: alt_is_error.cases) auto
    with alt_result_form_weights [OF this] show ?thesis by simp
  qed
  have ne: "alt_weights (?q c) \<noteq> []" if "c < ?nc" for c
    using w [OF that] assms(4) by auto
  have H: "\<forall>(c, q)\<in>set (alt_results (alternatives_source inp) ?nc ?na).
      c < length (cols ?a0) \<and> (alt_weights q = [] \<or> length (alt_weights q) = ?na)"
    using w by (auto simp: rs)
  have "\<not> (\<exists>(c, q)\<in>set (alt_results (alternatives_source inp) ?nc ?na). alt_is_error q \<or> alt_weights q = [])"
    using noerr ne by (auto simp: rs)
  moreover have "\<exists>(c, q)\<in>set (alt_results (alternatives_source inp) ?nc ?na).
                   \<not> alt_is_error q \<and> \<not> alt_consistent q"
    using noerr incons by (auto simp: rs)
  ultimately show ?thesis
    by (simp add: calculate_final_route_cases [OF assms(1-6)] accumulate_ok [OF H] Let_def)
qed



text \<open>Claim C30. \<open>get_sorted_criteria_with_weights\<close> pairs each weight with
  its criterion and sorts by weight, descending and stable, when the criteria
  result has one weight per criterion, and returns the empty list otherwise
  and for an engine error; for the input-error result of the criteria step it
  lists the criteria in their order, each with weight \<open>1/n\<close>.\<close>

theorem get_sorted_criteria_with_weights_spec:
  "get_sorted_criteria_with_weights (CritAhp (Inl e)) t = [] \<and>
   get_sorted_criteria_with_weights (CritInputError b n) t =
     (if 0 < n \<and> n = length t then zip (replicate n (1 / real n)) t else []) \<and>
   sorted_wrt (\<lambda>x y. fst y \<le> fst x) (get_sorted_criteria_with_weights (CritAhp (Inr r)) t) \<and>
   mset (get_sorted_criteria_with_weights (CritAhp (Inr r)) t) =
     (if length (weights r) = length t then mset (zip (weights r) t) else {#}) \<and>
   (\<forall>w. filter (\<lambda>p. fst p = w) (get_sorted_criteria_with_weights (CritAhp (Inr r)) t) =
     (if length (weights r) = length t then filter (\<lambda>p. fst p = w) (zip (weights r) t) else []))"
proof -
  have err: "get_sorted_criteria_with_weights (CritInputError b n) t =
     (if 0 < n \<and> n = length t then zip (replicate n (1 / real n)) t else [])"
  proof (cases "0 < n \<and> n = length t")
    case True
    let ?z = "zip (replicate n (1 / real n)) t"
    have "filter (\<lambda>p. fst p = 1 / real n) (sort_key (\<lambda>p. - fst p) ?z) =
          filter (\<lambda>p. fst p = 1 / real n) ?z"
      by (rule sort_key_desc_stable)
    moreover have "\<forall>p\<in>set ?z. fst p = 1 / real n"
      by (auto dest: set_zip_leftD)
    moreover have "\<forall>p\<in>set (sort_key (\<lambda>p. - fst p) ?z). fst p = 1 / real n"
      using calculation(2) by simp
    ultimately have "sort_key (\<lambda>p. - fst p) ?z = ?z"
      by (simp add: filter_id_conv [THEN iffD2])
    with True show ?thesis
      by (simp add: get_sorted_criteria_with_weights_def Let_def)
  next
    case False
    then show ?thesis
      by (auto simp: get_sorted_criteria_with_weights_def Let_def)
  qed
  have ok: "sorted_wrt (\<lambda>x y. fst y \<le> fst x) (get_sorted_criteria_with_weights (CritAhp (Inr r)) t) \<and>
   mset (get_sorted_criteria_with_weights (CritAhp (Inr r)) t) =
     (if length (weights r) = length t then mset (zip (weights r) t) else {#}) \<and>
   (\<forall>w. filter (\<lambda>p. fst p = w) (get_sorted_criteria_with_weights (CritAhp (Inr r)) t) =
     (if length (weights r) = length t then filter (\<lambda>p. fst p = w) (zip (weights r) t) else []))"
  proof (cases "weights r \<noteq> [] \<and> t \<noteq> [] \<and> length (weights r) = length t")
    case True
    then show ?thesis
      by (simp add: get_sorted_criteria_with_weights_def Let_def sort_key_desc sort_key_desc_stable)
  next
    case False
    then have "length (weights r) = length t \<Longrightarrow> zip (weights r) t = []" by auto
    with False show ?thesis
      by (auto simp: get_sorted_criteria_with_weights_def Let_def)
  qed
  show ?thesis
    using err ok by (simp add: get_sorted_criteria_with_weights_def Let_def)
qed

text \<open>The specification's aggregation scenario, through the Excel
  import path: criteria weights 0.7 and 0.3 (from \<open>[[1, 7/3], [3/7, 1]]\<close>),
  local weights (0.6, 0.4) and (0.2, 0.8); the final scores are 0.48 and
  0.52 and the second alternative is ranked first.\<close>

theorem final_route_spec_scenario:
  "calculate_final_route
     \<lparr>session_db_id = Some 1, criteria_tuples = [(1, ''C1''), (2, ''C2'')],
      alternatives_tuples = [(1, ''A1''), (2, ''A2'')],
      criteria_ahp_results = Some (CritAhp (calculate_ahp [[PFin 1, PFin (7/3)], [PFin (3/7), PFin 1]])),
      alternatives_source = Imported [(0, [[PFin 1, PFin (3/2)], [PFin (2/3), PFin 1]]),
                                      (1, [[PFin 1, PFin (1/4)], [PFin 4, PFin 1]])]\<rparr> =
   Ranked [[3/5, 2/5], [1/5, 4/5]] [12/25, 13/25] [(''A2'', 13/25), (''A1'', 12/25)]"
  by code_simp



section \<open>Witnesses\<close>

theorem final_route_ranked_safe_witness:
  "calculate_final_route
     \<lparr>session_db_id = Some 1, criteria_tuples = [(1, ''C1'')], alternatives_tuples = [(1, ''A1'')],
      criteria_ahp_results = Some (CritAhp (calculate_ahp [[PFin 1]])),
      alternatives_source = Imported [(0, [[PFin 1]])]\<rparr> = Ranked [[1]] [1] [(''A1'', 1)] \<and>
   (\<exists>r. Some (CritAhp (calculate_ahp [[PFin 1]])) = Some (CritAhp (Inr r)) \<and> is_consistent r \<and> length (weights r) = 1 \<and>
     (\<forall>(c, q)\<in>set (alt_results (Imported [(0, [[PFin 1]])]) 1 1). \<not> alt_is_error q \<and> alt_consistent q))"
proof -
  have h: "calculate_final_route
     \<lparr>session_db_id = Some 1, criteria_tuples = [(1, ''C1'')], alternatives_tuples = [(1, ''A1'')],
      criteria_ahp_results = Some (CritAhp (calculate_ahp [[PFin 1]])),
      alternatives_source = Imported [(0, [[PFin 1]])]\<rparr> = Ranked [[1]] [1] [(''A1'', 1)]"
    by code_simp
  show ?thesis using final_route_ranked_safe [OF h] h by simp
qed

theorem final_route_form_scores_sum_witness:
  "calculate_final_route
     \<lparr>session_db_id = Some 1, criteria_tuples = [(1, ''C1'')], alternatives_tuples = [(1, ''A1'')],
      criteria_ahp_results = Some (CritAhp (calculate_ahp [[PFin 1]])),
      alternatives_source = FormCells (\<lambda>c i j. None)\<rparr> = Ranked [[1]] [1] [(''A1'', 1)] \<and>
   sum_list [1::real] = 1"
proof -
  have h: "calculate_final_route
     \<lparr>session_db_id = Some 1, criteria_tuples = [(1, ''C1'')], alternatives_tuples = [(1, ''A1'')],
      criteria_ahp_results = Some (CritAhp (calculate_ahp [[PFin 1]])),
      alternatives_source = FormCells (\<lambda>c i j. None)\<rparr> = Ranked [[1]] [1] [(''A1'', 1)]"
    by code_simp
  show ?thesis using final_route_form_scores_sum [OF h] h by simp
qed

theorem final_route_alt_error_server_error_witness:
  "calculate_final_route
     \<lparr>session_db_id = Some 1, criteria_tuples = [(1, ''C1'')], alternatives_tuples = [(1, ''A1''), (2, ''A2'')],
      criteria_ahp_results = Some (CritAhp (calculate_ahp [[PFin 1]])),
      alternatives_source = FormCells (\<lambda>c i j. None)\<rparr> = ServerError"
proof -
  let ?inp = "\<lparr>session_db_id = Some 1, criteria_tuples = [(1::nat, ''C1'')],
      alternatives_tuples = [(1::nat, ''A1''), (2, ''A2'')],
      criteria_ahp_results = Some (CritAhp (calculate_ahp [[PFin 1]])),
      alternatives_source = FormCells (\<lambda>c i j. None)\<rparr>"
  have r: "calculate_ahp [[PFin 1]] = Inr \<lparr>res_n = 1, weights = [1], wsv = [1], cv = [1], lambdaMax = 1,
      ci = 0, RI = 0, CR = PFin 0, is_consistent = True, colSums = [1], normMatrix = [[1]]\<rparr>"
    by code_simp
  have q: "(0, AltInputError (MissingCell 0 1)) \<in> set (alt_results (alternatives_source ?inp)
             (length (criteria_tuples ?inp)) (length (alternatives_tuples ?inp)))"
    by code_simp
  show "calculate_final_route ?inp = ServerError"
    by (rule final_route_alt_error_server_error [OF _ _ _ _ _ _ q]) (simp add: r)+
qed


theorem final_route_alt_inconsistent_warning_witness:
  "calculate_final_route
     \<lparr>session_db_id = Some 1, criteria_tuples = [(1, ''C1'')],
      alternatives_tuples = [(1, ''A1''), (2, ''A2''), (3, ''A3'')],
      criteria_ahp_results = Some (CritAhp (calculate_ahp [[PFin 1]])),
      alternatives_source = FormCells (\<lambda>c i j. if i = j then None else if (i, j) = (0, 2) then Some ''1/9'' else Some ''9'')\<rparr> =
   AltWarning (alt_results (FormCells (\<lambda>c i j. if i = j then None else if (i, j) = (0, 2) then Some ''1/9'' else Some ''9'')) 1 3)"
proof -
  let ?f = "\<lambda>c i j. if i = j then None else if (i, j) = (0::nat, 2::nat) then Some ''1/9'' else Some ''9''"
  let ?inp = "\<lparr>session_db_id = Some 1, criteria_tuples = [(1::nat, ''C1'')],
      alternatives_tuples = [(1::nat, ''A1''), (2, ''A2''), (3, ''A3'')],
      criteria_ahp_results = Some (CritAhp (calculate_ahp [[PFin 1]])),
      alternatives_source = FormCells ?f\<rparr>"
  have r: "calculate_ahp [[PFin 1]] = Inr \<lparr>res_n = 1, weights = [1], wsv = [1], cv = [1], lambdaMax = 1,
      ci = 0, RI = 0, CR = PFin 0, is_consistent = True, colSums = [1], normMatrix = [[1]]\<rparr>"
    by code_simp
  have q: "\<not> alt_is_error (alt_result_form ?f 3 0) \<and> \<not> alt_consistent (alt_result_form ?f 3 0)"
    by code_simp
  have "calculate_final_route ?inp =
          AltWarning (alt_results (alternatives_source ?inp) (length (criteria_tuples ?inp))
                                  (length (alternatives_tuples ?inp)))"
  proof (rule final_route_alt_inconsistent_warning [where c = 0])
    show "\<forall>c<length (criteria_tuples ?inp). \<not> alt_is_error (alt_result_form ?f (length (alternatives_tuples ?inp)) c)"
      using q by (simp add: less_Suc_eq eval_nat_numeral)
    show "\<not> alt_consistent (alt_result_form ?f (length (alternatives_tuples ?inp)) 0)"
      using q by (simp add: eval_nat_numeral)
  qed (simp add: r)+
  then show ?thesis by (simp add: eval_nat_numeral)
qed

end
