(* ===== verification/Persistence.thy ===== *)
theory Persistence
  imports Ranking
begin

text \<open>
  The data layer \<open>src/Quyhoachdat2_1/model/model.py\<close> over an explicit store:
  one list of rows per SQL Server table the module reads and writes, and
  one identity counter per table with an \<open>IDENTITY\<close> column. Every function
  takes the store and returns its result with the new store; a transaction
  that the code rolls back returns the store unchanged. \<open>json.dumps\<close> and
  \<open>json.loads\<close> are the identity on the values stored (lists of strings and
  floats; JSON turns the ranking's tuples into two-element lists, which is
  not modelled). Connection failures (\<open>pyodbc.Error\<close> from
  \<open>get_db_connection\<close>) are not modelled: the database is always reachable.
\<close>

section \<open>Tables\<close>

text \<open>A row of \<open>Criteria\<close> or \<open>Alternatives\<close>: \<open>id\<close>, \<open>name\<close> (UNIQUE),
  \<open>description\<close> (NULL when empty).\<close>

type_synonym item_row = "nat \<times> string \<times> string option"

text \<open>A row of \<open>AHPAnalyses\<close>, the columns of the \<open>INSERT\<close> of
  \<open>save_ahp_analysis\<close> plus the identity \<open>analysis_id\<close> and \<open>created_at\<close>.\<close>

record analysis_row =
  an_id :: nat
  an_session :: nat
  an_name :: "string option"
  an_criteria :: "string list"
  an_alternatives :: "string list"
  an_criteria_weights :: "real list"
  an_local_matrix :: "real list list"
  an_scores :: "real list"
  an_ranked :: "(string \<times> real) list"
  an_cr :: "real option"
  an_consistent :: nat
  an_alt_crs :: "(nat \<times> alt_outcome) list"
  an_notes :: "string option"
  an_created :: nat

record db =
  criteria_tbl :: "item_row list"
  alternatives_tbl :: "item_row list"
  session_tbl :: "(nat \<times> string) list"
  criteria_weights_tbl :: "(nat \<times> real \<times> nat) list"
  alternative_scores_tbl :: "(nat \<times> nat \<times> real \<times> nat) list"
  criteria_comparison_tbl :: "(nat \<times> nat \<times> real \<times> nat) list"
  analyses_tbl :: "analysis_row list"
  next_criteria_id :: nat
  next_alternative_id :: nat
  next_session_id :: nat
  next_analysis_id :: nat
  clock :: nat

section \<open>Criteria and alternatives\<close>

text \<open>\<open>SELECT id, name FROM ... ORDER BY id\<close>.\<close>

definition select_items :: "item_row list \<Rightarrow> (nat \<times> string) list" where
  "select_items rows = map (\<lambda>(i, n, d). (i, n)) (sort_key fst rows)"

definition get_criteria_from_db :: "db \<Rightarrow> (nat \<times> string) list" where
  "get_criteria_from_db d = select_items (criteria_tbl d)"

definition get_all_alternatives :: "db \<Rightarrow> (nat \<times> string) list" where
  "get_all_alternatives d = select_items (alternatives_tbl d)"

text \<open>\<open>SELECT id, name ... WHERE id IN (?, ...) ORDER BY id\<close>; an empty id
  list returns \<open>[]\<close> before any query.\<close>

definition select_items_by_ids :: "int list \<Rightarrow> item_row list \<Rightarrow> (nat \<times> string) list" where
  "select_items_by_ids ids rows =
     (if ids = [] then [] else select_items (filter (\<lambda>(i, n, d). int i \<in> set ids) rows))"

definition get_criteria_by_ids :: "int list \<Rightarrow> db \<Rightarrow> (nat \<times> string) list" where
  "get_criteria_by_ids ids d = select_items_by_ids ids (criteria_tbl d)"

definition get_alternatives_by_ids :: "int list \<Rightarrow> db \<Rightarrow> (nat \<times> string) list" where
  "get_alternatives_by_ids ids d = select_items_by_ids ids (alternatives_tbl d)"

text \<open>\<open>INSERT INTO ... (name, description)\<close>: the UNIQUE constraint on
  \<open>name\<close> raises \<open>IntegrityError\<close> and the function returns \<open>False\<close>;
  an empty or blank description is stored as NULL.\<close>

definition insert_item :: "string \<Rightarrow> string \<Rightarrow> item_row list \<Rightarrow> nat \<Rightarrow> (item_row list \<times> nat) option" where
  "insert_item name description rows next =
     (if name \<in> set (map (\<lambda>r. fst (snd r)) rows) then None
      else Some (rows @ [(next, name, if py_strip description = [] then None else Some description)], Suc next))"

definition add_criteria :: "string \<Rightarrow> string \<Rightarrow> db \<Rightarrow> bool \<times> db" where
  "add_criteria name description d =
     (case insert_item name description (criteria_tbl d) (next_criteria_id d) of
        None \<Rightarrow> (False, d)
      | Some (rows, nxt) \<Rightarrow> (True, d\<lparr>criteria_tbl := rows, next_criteria_id := nxt\<rparr>))"

definition add_alternative :: "string \<Rightarrow> string \<Rightarrow> db \<Rightarrow> bool \<times> db" where
  "add_alternative name description d =
     (case insert_item name description (alternatives_tbl d) (next_alternative_id d) of
        None \<Rightarrow> (False, d)
      | Some (rows, nxt) \<Rightarrow> (True, d\<lparr>alternatives_tbl := rows, next_alternative_id := nxt\<rparr>))"

section \<open>Sessions\<close>

text \<open>\<open>get_or_create_session_db_id\<close>: \<open>None\<close> for a missing or empty Flask
  session id; the id of the existing row; otherwise a new row.\<close>

definition get_or_create_session_db_id :: "string option \<Rightarrow> db \<Rightarrow> nat option \<times> db" where
  "get_or_create_session_db_id flask_sid d =
     (case flask_sid of
        None \<Rightarrow> (None, d)
      | Some sid \<Rightarrow>
          (if sid = [] then (None, d)
           else case find (\<lambda>(i, s). s = sid) (session_tbl d) of
                  Some (i, s) \<Rightarrow> (Some i, d)
                | None \<Rightarrow> (Some (next_session_id d),
                           d\<lparr>session_tbl := session_tbl d @ [(next_session_id d, sid)],
                             next_session_id := Suc (next_session_id d)\<rparr>)))"

section \<open>Intermediate results\<close>

text \<open>Python's truth value of \<open>session_db_id\<close>: \<open>None\<close> and \<open>0\<close> are false.\<close>

definition py_id_true :: "nat option \<Rightarrow> bool" where
  "py_id_true x = (case x of None \<Rightarrow> False | Some i \<Rightarrow> 0 < i)"

text \<open>\<open>save_criteria_weights\<close>: delete the session's rows, then insert one
  row per criterion; a length mismatch raises \<open>ValueError\<close> after the delete
  and the rollback restores the table.\<close>

definition save_criteria_weights ::
  "nat option \<Rightarrow> (nat \<times> string) list \<Rightarrow> real list option \<Rightarrow> db \<Rightarrow> bool \<times> db" where
  "save_criteria_weights sdb crits ws d =
     (case (sdb, ws) of
        (Some s, Some w) \<Rightarrow>
          (if \<not> py_id_true sdb \<or> crits = [] then (False, d)
           else if length crits \<noteq> length w then (False, d)
           else (True, d\<lparr>criteria_weights_tbl :=
                   filter (\<lambda>(c, x, s'). s' \<noteq> s) (criteria_weights_tbl d) @
                   map (\<lambda>((c, _), x). (c, x, s)) (zip crits w)\<rparr>))
      | _ \<Rightarrow> (False, d))"

text \<open>\<open>save_alternative_scores\<close>: the matrix must have one row per
  alternative and, judged by its first row, one column per criterion;
  otherwise \<open>ValueError\<close> and rollback. Rows are inserted alternative by
  alternative, criterion by criterion.\<close>

definition matrix_shape :: "nat \<Rightarrow> real list list \<Rightarrow> (nat \<times> nat) option" where
  "matrix_shape rows m = (if 0 < rows \<and> m \<noteq> [] then Some (length m, length (hd m)) else None)"

definition save_alternative_scores ::
  "nat option \<Rightarrow> (nat \<times> string) list \<Rightarrow> (nat \<times> string) list \<Rightarrow> real list list \<Rightarrow> db \<Rightarrow> bool \<times> db" where
  "save_alternative_scores sdb alts crits m d =
     (case sdb of
        None \<Rightarrow> (False, d)
      | Some s \<Rightarrow>
          (if \<not> py_id_true sdb \<or> alts = [] \<or> crits = [] then (False, d)
           else if matrix_shape (length alts) m \<noteq> Some (length alts, length crits) then (False, d)
           else (True, d\<lparr>alternative_scores_tbl :=
                   filter (\<lambda>(a, c, x, s'). s' \<noteq> s) (alternative_scores_tbl d) @
                   concat (map (\<lambda>k. map (\<lambda>l. (fst (alts ! k), fst (crits ! l), m ! k ! l, s))
                                         [0..<length crits]) [0..<length alts])\<rparr>)))"

text \<open>\<open>save_criteria_comparison_matrix\<close>: the same for the \<open>n \<times> n\<close>
  criteria matrix, stored cell by cell.\<close>

definition save_criteria_comparison_matrix ::
  "nat option \<Rightarrow> (nat \<times> string) list \<Rightarrow> real list list \<Rightarrow> db \<Rightarrow> bool \<times> db" where
  "save_criteria_comparison_matrix sdb crits m d =
     (case sdb of
        None \<Rightarrow> (False, d)
      | Some s \<Rightarrow>
          (if \<not> py_id_true sdb \<or> crits = [] then (False, d)
           else if matrix_shape (length crits) m \<noteq> Some (length crits, length crits) then (False, d)
           else (True, d\<lparr>criteria_comparison_tbl :=
                   filter (\<lambda>(a, b, x, s'). s' \<noteq> s) (criteria_comparison_tbl d) @
                   concat (map (\<lambda>i. map (\<lambda>j. (fst (crits ! i), fst (crits ! j), m ! i ! j, s))
                                        [0..<length crits]) [0..<length crits])\<rparr>)))"

section \<open>Analyses\<close>

text \<open>The dictionary \<open>result_data\<close> that \<open>calculate_final_route\<close> passes to
  \<open>save_ahp_analysis\<close> (\<open>analysis_name\<close> and \<open>notes\<close> are read with
  \<open>.get\<close> and are \<open>None\<close> there).\<close>

record analysis_data =
  ad_name :: "string option"
  ad_criteria_names :: "string list"
  ad_alternatives :: "string list"
  ad_criteria_weights :: "real list"
  ad_local_matrix :: "real list list"
  ad_scores :: "real list"
  ad_ranked :: "(string \<times> real) list"
  ad_cr :: "pyfloat option"
  ad_is_consistent :: bool
  ad_alt_crs :: "(nat \<times> alt_outcome) list"
  ad_notes :: "string option"

text \<open>\<open>save_ahp_analysis\<close>: \<open>None\<close> for a false session id; the insert
  fails (the float column takes no infinity or NaN, \<open>pyodbc.Error\<close>,
  rollback, \<open>None\<close>) when \<open>cr_criteria\<close> is not finite; otherwise the new
  \<open>analysis_id\<close>.\<close>

definition save_ahp_analysis :: "nat option \<Rightarrow> analysis_data \<Rightarrow> db \<Rightarrow> nat option \<times> db" where
  "save_ahp_analysis sdb a d =
     (case sdb of
        None \<Rightarrow> (None, d)
      | Some s \<Rightarrow>
          (if \<not> py_id_true sdb then (None, d)
           else if (case ad_cr a of Some x \<Rightarrow> \<not> pf_finite x | None \<Rightarrow> False) then (None, d)
           else
             (let row = \<lparr>an_id = next_analysis_id d, an_session = s, an_name = ad_name a,
                         an_criteria = ad_criteria_names a, an_alternatives = ad_alternatives a,
                         an_criteria_weights = ad_criteria_weights a, an_local_matrix = ad_local_matrix a,
                         an_scores = ad_scores a, an_ranked = ad_ranked a,
                         an_cr = map_option pf_val (ad_cr a),
                         an_consistent = (if ad_is_consistent a then 1 else 0),
                         an_alt_crs = ad_alt_crs a, an_notes = ad_notes a, an_created = clock d\<rparr>
              in (Some (next_analysis_id d),
                  d\<lparr>analyses_tbl := analyses_tbl d @ [row],
                    next_analysis_id := Suc (next_analysis_id d), clock := Suc (clock d)\<rparr>))))"

text \<open>\<open>get_ahp_analyses_by_session_db_id\<close>: the session's analyses,
  newest first (\<open>ORDER BY created_at DESC\<close>).\<close>

definition get_ahp_analyses_by_session_db_id :: "nat option \<Rightarrow> db \<Rightarrow> analysis_row list" where
  "get_ahp_analyses_by_session_db_id sdb d =
     (if \<not> py_id_true sdb then []
      else rev (sort_key an_created (filter (\<lambda>r. Some (an_session r) = sdb) (analyses_tbl d))))"

text \<open>\<open>get_ahp_analysis_by_id\<close>: the first row with that id, and of that
  session when a session is given; the stored integer flag read back with
  \<open>bool(...)\<close>.\<close>

definition get_ahp_analysis_by_id :: "nat option \<Rightarrow> nat option \<Rightarrow> db \<Rightarrow> analysis_row option" where
  "get_ahp_analysis_by_id aid check d =
     (if \<not> py_id_true aid then None
      else find (\<lambda>r. Some (an_id r) = aid \<and> (case check of None \<Rightarrow> True | Some s \<Rightarrow> an_session r = s))
                (analyses_tbl d))"

definition is_consistent_criteria :: "analysis_row \<Rightarrow> bool" where
  "is_consistent_criteria r = (an_consistent r \<noteq> 0)"

section \<open>Well-formed stores\<close>

text \<open>The empty database: no rows, every identity starting at 1.\<close>

definition empty_db :: db where
  "empty_db = \<lparr>criteria_tbl = [], alternatives_tbl = [], session_tbl = [], criteria_weights_tbl = [],
     alternative_scores_tbl = [], criteria_comparison_tbl = [], analyses_tbl = [],
     next_criteria_id = 1, next_alternative_id = 1, next_session_id = 1, next_analysis_id = 1, clock = 0\<rparr>"

text \<open>Keys are unique and below their identity counter, UNIQUE columns hold
  no duplicates, identities are positive (so Python reads them as true), and
  every analysis was created before the clock.\<close>

definition items_wf :: "item_row list \<Rightarrow> nat \<Rightarrow> bool" where
  "items_wf rows nxt \<longleftrightarrow>
     distinct (map fst rows) \<and> distinct (map (\<lambda>r. fst (snd r)) rows) \<and>
     list_all (\<lambda>r. 0 < fst r \<and> fst r < nxt) rows \<and> 0 < nxt"

definition db_wf :: "db \<Rightarrow> bool" where
  "db_wf d \<longleftrightarrow>
     items_wf (criteria_tbl d) (next_criteria_id d) \<and>
     items_wf (alternatives_tbl d) (next_alternative_id d) \<and>
     distinct (map fst (session_tbl d)) \<and> distinct (map snd (session_tbl d)) \<and>
     list_all (\<lambda>r. 0 < fst r \<and> fst r < next_session_id d) (session_tbl d) \<and> 0 < next_session_id d \<and>
     distinct (map an_id (analyses_tbl d)) \<and>
     list_all (\<lambda>r. 0 < an_id r \<and> an_id r < next_analysis_id d \<and> an_created r < clock d) (analyses_tbl d) \<and>
     0 < next_analysis_id d"

text \<open>One call of the data layer on the store.\<close>

inductive db_step :: "db \<Rightarrow> db \<Rightarrow> bool" where
  "db_step d (snd (add_criteria n x d))"
| "db_step d (snd (add_alternative n x d))"
| "db_step d (snd (get_or_create_session_db_id sid d))"
| "db_step d (snd (save_criteria_weights sdb cs w d))"
| "db_step d (snd (save_alternative_scores sdb als cs m d))"
| "db_step d (snd (save_criteria_comparison_matrix sdb cs m d))"
| "db_step d (snd (save_ahp_analysis sdb a d))"

section \<open>Lemmas\<close>

lemma items_wf_insert:
  assumes "items_wf rows nxt" "insert_item name desc rows nxt = Some (rows', nxt')"
  shows "items_wf rows' nxt'"
proof -
  have fresh: "nxt \<notin> set (map fst rows)"
    using assms(1) by (auto simp: items_wf_def list_all_iff)
  have lt: "\<forall>r\<in>set rows. 0 < fst r \<and> fst r < Suc nxt"
    using assms(1) by (auto simp: items_wf_def list_all_iff less_SucI)
  show ?thesis
    using assms fresh lt by (auto simp: items_wf_def insert_item_def list_all_iff split: if_splits)
qed

lemma add_criteria_wf: "db_wf d \<Longrightarrow> db_wf (snd (add_criteria n x d))"
  by (auto simp: add_criteria_def db_wf_def split: option.splits dest: items_wf_insert)

lemma add_alternative_wf: "db_wf d \<Longrightarrow> db_wf (snd (add_alternative n x d))"
  by (auto simp: add_alternative_def db_wf_def split: option.splits dest: items_wf_insert)

lemma get_or_create_wf: "db_wf d \<Longrightarrow> db_wf (snd (get_or_create_session_db_id sid d))"
proof -
  assume wf: "db_wf d"
  have "next_session_id d \<notin> set (map fst (session_tbl d))"
    using wf by (auto simp: db_wf_def list_all_iff)
  moreover have "s \<notin> set (map snd (session_tbl d))" if "find (\<lambda>(i, s'). s' = s) (session_tbl d) = None" for s
    using that by (auto simp: find_None_iff)
  ultimately show ?thesis
    using wf by (auto simp: get_or_create_session_db_id_def db_wf_def list_all_iff split: option.splits)
qed

lemma save_criteria_weights_wf: "db_wf d \<Longrightarrow> db_wf (snd (save_criteria_weights s c w d))"
  by (auto simp: save_criteria_weights_def db_wf_def split: option.splits)

lemma save_alternative_scores_wf: "db_wf d \<Longrightarrow> db_wf (snd (save_alternative_scores s a c m d))"
  by (auto simp: save_alternative_scores_def db_wf_def split: option.splits)

lemma save_criteria_comparison_matrix_wf: "db_wf d \<Longrightarrow> db_wf (snd (save_criteria_comparison_matrix s c m d))"
  by (auto simp: save_criteria_comparison_matrix_def db_wf_def split: option.splits)

lemma save_ahp_analysis_wf: "db_wf d \<Longrightarrow> db_wf (snd (save_ahp_analysis s a d))"
proof -
  assume wf: "db_wf d"
  have "next_analysis_id d \<notin> set (map an_id (analyses_tbl d))"
    using wf by (auto simp: db_wf_def list_all_iff)
  with wf show ?thesis
    by (auto simp: save_ahp_analysis_def db_wf_def list_all_iff Let_def split: option.splits)
qed

lemma db_wf_empty: "db_wf empty_db"
  by (simp add: db_wf_def empty_db_def items_wf_def)

lemma insort_key_append_max:
  "f y < f x \<Longrightarrow> insort_key f y (ys @ [x]) = insort_key f y ys @ [x]"
  by (induction ys) auto

lemma sort_key_append_max:
  "\<forall>y\<in>set xs. f y < (f x :: nat) \<Longrightarrow> sort_key f (xs @ [x]) = sort_key f xs @ [x]"
  by (induction xs) (auto simp: insort_key_append_max)

lemma save_ahp_analysis_SomeD:
  assumes "save_ahp_analysis sdb a d = (Some aid, d')"
  obtains s where "sdb = Some s" "0 < s" "aid = next_analysis_id d"
    "analyses_tbl d' = analyses_tbl d @
       [\<lparr>an_id = next_analysis_id d, an_session = s, an_name = ad_name a,
         an_criteria = ad_criteria_names a, an_alternatives = ad_alternatives a,
         an_criteria_weights = ad_criteria_weights a, an_local_matrix = ad_local_matrix a,
         an_scores = ad_scores a, an_ranked = ad_ranked a,
         an_cr = map_option pf_val (ad_cr a),
         an_consistent = (if ad_is_consistent a then 1 else 0),
         an_alt_crs = ad_alt_crs a, an_notes = ad_notes a, an_created = clock d\<rparr>]"
  using assms
  by (auto simp: save_ahp_analysis_def py_id_true_def Let_def split: option.splits if_splits)

lemma find_append_None: "find P xs = None \<Longrightarrow> find P (xs @ ys) = find P ys"
  by (induction xs) (auto split: if_splits)

lemma get_or_create_again:
  assumes wf: "db_wf d" and sid: "sid \<noteq> []"
    and r: "get_or_create_session_db_id (Some sid) d = (i, d')"
  shows "\<exists>k. i = Some k \<and> 0 < k \<and> get_or_create_session_db_id (Some sid) d' = (Some k, d')"
proof (cases "find (\<lambda>(i, s). s = sid) (session_tbl d)")
  case None
  have "0 < next_session_id d" using wf by (simp add: db_wf_def)
  moreover have "find (\<lambda>(i, s). s = sid) (session_tbl d @ [(next_session_id d, sid)]) =
                 Some (next_session_id d, sid)"
    using None by (simp add: find_append_None)
  ultimately show ?thesis
    using None r sid by (auto simp: get_or_create_session_db_id_def)
next
  case (Some p)
  obtain k s where p: "p = (k, s)" by fastforce
  have "(k, s) \<in> set (session_tbl d)" using Some p by (metis find_Some_iff nth_mem)
  hence "0 < k" using wf by (auto simp: db_wf_def list_all_iff)
  thus ?thesis
    using Some p r sid by (auto simp: get_or_create_session_db_id_def)
qed

lemma db_step_wf: "db_step d d' \<Longrightarrow> db_wf d \<Longrightarrow> db_wf d'"
  by (induction rule: db_step.induct)
    (simp_all add: add_criteria_wf add_alternative_wf get_or_create_wf save_criteria_weights_wf
      save_alternative_scores_wf save_criteria_comparison_matrix_wf save_ahp_analysis_wf)

section \<open>Properties of the data layer\<close>

text \<open>Claim C14. Every store reached from the empty database by any
  sequence of the data layer's operations is well formed.\<close>

theorem db_reachable_wf:
  assumes "db_step\<^sup>*\<^sup>* empty_db d"
  shows "db_wf d"
  using assms by (induction rule: rtranclp_induct) (auto simp: db_wf_empty db_step_wf)

text \<open>Claim C13. Saving an analysis and reading it back: the new id
  retrieves, for its own session, a row holding exactly the saved lists,
  ratio, flag and notes, and it heads that session's history.\<close>

theorem save_ahp_analysis_roundtrip:
  assumes wf: "db_wf d" and sv: "save_ahp_analysis sdb a d = (Some aid, d')"
  shows "\<exists>r. get_ahp_analysis_by_id (Some aid) sdb d' = Some r \<and> an_id r = aid \<and>
           Some (an_session r) = sdb \<and> an_name r = ad_name a \<and>
           an_criteria r = ad_criteria_names a \<and> an_alternatives r = ad_alternatives a \<and>
           an_criteria_weights r = ad_criteria_weights a \<and> an_local_matrix r = ad_local_matrix a \<and>
           an_scores r = ad_scores a \<and> an_ranked r = ad_ranked a \<and>
           an_cr r = map_option pf_val (ad_cr a) \<and> is_consistent_criteria r = ad_is_consistent a \<and>
           an_alt_crs r = ad_alt_crs a \<and> an_notes r = ad_notes a \<and>
           get_ahp_analyses_by_session_db_id sdb d' \<noteq> [] \<and>
           hd (get_ahp_analyses_by_session_db_id sdb d') = r"
proof -
  obtain s where s: "sdb = Some s" "0 < s" and aid: "aid = next_analysis_id d"
    and tbl: "analyses_tbl d' = analyses_tbl d @
       [\<lparr>an_id = next_analysis_id d, an_session = s, an_name = ad_name a,
         an_criteria = ad_criteria_names a, an_alternatives = ad_alternatives a,
         an_criteria_weights = ad_criteria_weights a, an_local_matrix = ad_local_matrix a,
         an_scores = ad_scores a, an_ranked = ad_ranked a,
         an_cr = map_option pf_val (ad_cr a),
         an_consistent = (if ad_is_consistent a then 1 else 0),
         an_alt_crs = ad_alt_crs a, an_notes = ad_notes a, an_created = clock d\<rparr>]"
    by (rule save_ahp_analysis_SomeD [OF sv])
  define row where "row = \<lparr>an_id = next_analysis_id d, an_session = s, an_name = ad_name a,
         an_criteria = ad_criteria_names a, an_alternatives = ad_alternatives a,
         an_criteria_weights = ad_criteria_weights a, an_local_matrix = ad_local_matrix a,
         an_scores = ad_scores a, an_ranked = ad_ranked a,
         an_cr = map_option pf_val (ad_cr a),
         an_consistent = (if ad_is_consistent a then 1 else 0),
         an_alt_crs = ad_alt_crs a, an_notes = ad_notes a, an_created = clock d\<rparr>"
  have old: "\<forall>r\<in>set (analyses_tbl d). an_id r < next_analysis_id d \<and> an_created r < clock d"
    and pos: "0 < next_analysis_id d"
    using wf by (auto simp: db_wf_def list_all_iff)
  have tbl': "analyses_tbl d' = analyses_tbl d @ [row]"
    by (simp only: tbl row_def)
  have rid: "an_id row = aid" "an_session row = s" "an_created row = clock d"
    by (simp_all add: row_def aid)
  have "find (\<lambda>r. Some (an_id r) = Some aid \<and> (case sdb of None \<Rightarrow> True | Some s \<Rightarrow> an_session r = s))
          (analyses_tbl d) = None"
    using old by (auto simp: find_None_iff aid)
  hence get: "get_ahp_analysis_by_id (Some aid) sdb d' = Some row"
    using pos by (simp add: get_ahp_analysis_by_id_def py_id_true_def tbl' find_append_None rid s aid)
  have "filter (\<lambda>r. Some (an_session r) = sdb) (analyses_tbl d') =
        filter (\<lambda>r. Some (an_session r) = sdb) (analyses_tbl d) @ [row]"
    by (simp add: tbl' rid s)
  moreover have "\<forall>y\<in>set (filter (\<lambda>r. Some (an_session r) = sdb) (analyses_tbl d)). an_created y < an_created row"
    using old by (simp add: rid)
  ultimately have "get_ahp_analyses_by_session_db_id sdb d' =
      row # rev (sort_key an_created (filter (\<lambda>r. Some (an_session r) = sdb) (analyses_tbl d)))"
    using s by (simp add: get_ahp_analyses_by_session_db_id_def py_id_true_def sort_key_append_max)
  with get show ?thesis
    by (simp add: row_def aid s is_consistent_criteria_def)
qed

text \<open>Claim C40. Saving criteria weights for a session replaces that
  session's rows by one row per criterion, in order, and leaves the other
  sessions' rows as they were; when the numbers of criteria and weights
  differ, the delete is rolled back and the store is unchanged.\<close>

theorem save_criteria_weights_replaces:
  assumes "0 < s" "crits \<noteq> []" "save_criteria_weights (Some s) crits (Some w) d = (ok, d')"
  shows "(ok \<longleftrightarrow> length crits = length w) \<and>
         (ok \<longrightarrow> [r \<leftarrow> criteria_weights_tbl d'. snd (snd r) = s] =
                   map (\<lambda>(c, x). (c, x, s)) (zip (map fst crits) w) \<and>
                 [r \<leftarrow> criteria_weights_tbl d'. snd (snd r) \<noteq> s] =
                   [r \<leftarrow> criteria_weights_tbl d. snd (snd r) \<noteq> s]) \<and>
         (\<not> ok \<longrightarrow> d' = d)"
proof -
  have sel: "[r \<leftarrow> map (\<lambda>(c, x). (c, x, s)) zs. snd (snd r) = s] = map (\<lambda>(c, x). (c, x, s)) zs"
    "[r \<leftarrow> map (\<lambda>(c, x). (c, x, s)) zs. snd (snd r) \<noteq> s] = []" for zs :: "(nat \<times> real) list"
    by (induction zs) auto
  show ?thesis
    using assms sel
    by (auto simp: save_criteria_weights_def py_id_true_def zip_map1 case_prod_beta
        filter_filter split: if_splits)
qed

text \<open>A non-empty Flask session id gets a positive database id
  in a store that stays well formed, and asking again for the same session
  id returns the same id and leaves the store unchanged.\<close>

theorem get_or_create_session_idempotent:
  assumes wf: "db_wf d" and sid: "sid \<noteq> []"
    and r: "get_or_create_session_db_id (Some sid) d = (i, d')"
  shows "\<exists>k. i = Some k \<and> 0 < k \<and> db_wf d' \<and> get_or_create_session_db_id (Some sid) d' = (Some k, d')"
  using get_or_create_again [OF wf sid r] get_or_create_wf [OF wf, of "Some sid"] r by simp

section \<open>Witnesses\<close>

theorem db_reachable_wf_witness:
  "db_wf (snd (get_or_create_session_db_id (Some ''abc'') (snd (add_criteria ''Cost'' [] empty_db))))"
proof -
  have "db_step\<^sup>*\<^sup>* empty_db (snd (add_criteria ''Cost'' [] empty_db))"
    by (rule r_into_rtranclp) (rule db_step.intros(1))
  hence "db_step\<^sup>*\<^sup>* empty_db (snd (get_or_create_session_db_id (Some ''abc'') (snd (add_criteria ''Cost'' [] empty_db))))"
    by (rule rtranclp.rtrancl_into_rtrancl) (rule db_step.intros(3))
  thus ?thesis by (rule db_reachable_wf)
qed

theorem save_ahp_analysis_roundtrip_witness:
  "\<exists>r. get_ahp_analysis_by_id (Some 1) (Some 1)
         (snd (save_ahp_analysis (Some 1) \<lparr>ad_name = None, ad_criteria_names = [''Cost''],
            ad_alternatives = [''A''], ad_criteria_weights = [1], ad_local_matrix = [[1]],
            ad_scores = [1], ad_ranked = [(''A'', 1)], ad_cr = Some (PFin 0),
            ad_is_consistent = True, ad_alt_crs = [], ad_notes = None\<rparr> empty_db)) = Some r \<and>
       an_scores r = [1] \<and> an_cr r = Some 0 \<and> is_consistent_criteria r"
proof -
  let ?a = "\<lparr>ad_name = None, ad_criteria_names = [''Cost''],
            ad_alternatives = [''A''], ad_criteria_weights = [1::real], ad_local_matrix = [[1::real]],
            ad_scores = [1::real], ad_ranked = [(''A'', 1::real)], ad_cr = Some (PFin 0),
            ad_is_consistent = True, ad_alt_crs = [], ad_notes = None\<rparr>"
  have "save_ahp_analysis (Some 1) ?a empty_db = (Some 1, snd (save_ahp_analysis (Some 1) ?a empty_db))"
    by (simp add: save_ahp_analysis_def empty_db_def py_id_true_def)
  from save_ahp_analysis_roundtrip [OF db_wf_empty this] show ?thesis by auto
qed

theorem save_criteria_weights_replaces_witness:
  "[r \<leftarrow> criteria_weights_tbl (snd (save_criteria_weights (Some 1) [(7, ''Cost''), (9, ''Area'')]
        (Some [3 / 4, 1 / 4]) (empty_db\<lparr>criteria_weights_tbl := [(7, 1 / 2, 1), (7, 1, 2)]\<rparr>))).
      snd (snd r) = 1] = [(7, 3 / 4, 1), (9, 1 / 4, 1)] \<and>
   snd (save_criteria_weights (Some 1) [(7, ''Cost'')] (Some [3 / 4, 1 / 4]) empty_db) = empty_db"
proof -
  have a: "save_criteria_weights (Some 1) [(7, ''Cost''), (9, ''Area'')] (Some [3 / 4, 1 / 4])
      (empty_db\<lparr>criteria_weights_tbl := [(7, 1 / 2, 1), (7, 1, 2)]\<rparr>) =
      (True, snd (save_criteria_weights (Some 1) [(7, ''Cost''), (9, ''Area'')] (Some [3 / 4, 1 / 4])
      (empty_db\<lparr>criteria_weights_tbl := [(7, 1 / 2, 1), (7, 1, 2)]\<rparr>)))"
    by (simp add: save_criteria_weights_def py_id_true_def)
  have b: "save_criteria_weights (Some 1) [(7, ''Cost'')] (Some [3 / 4, 1 / 4]) empty_db =
      (False, snd (save_criteria_weights (Some 1) [(7, ''Cost'')] (Some [3 / 4, 1 / 4]) empty_db))"
    by (simp add: save_criteria_weights_def py_id_true_def)
  show ?thesis
    using save_criteria_weights_replaces [OF _ _ a] save_criteria_weights_replaces [OF _ _ b]
    by simp
qed

theorem get_or_create_session_idempotent_witness:
  "get_or_create_session_db_id (Some ''abc'') empty_db = (Some 1, snd (get_or_create_session_db_id (Some ''abc'') empty_db)) \<and>
   get_or_create_session_db_id (Some ''abc'') (snd (get_or_create_session_db_id (Some ''abc'') empty_db)) =
     (Some 1, snd (get_or_create_session_db_id (Some ''abc'') empty_db))"
proof -
  have r: "get_or_create_session_db_id (Some ''abc'') empty_db =
           (Some 1, snd (get_or_create_session_db_id (Some ''abc'') empty_db))"
    by (simp add: get_or_create_session_db_id_def empty_db_def)
  from get_or_create_session_idempotent [OF db_wf_empty _ r] r show ?thesis by auto
qed

end
