(* ===== verification/Excel_Import.thy ===== *)
theory Excel_Import
  imports Matrix_Build "HOL-Library.List_Lexorder" "HOL-Library.Char_ord" "HOL-Library.AList" "HOL-Library.While_Combinator"
begin

text \<open>
  Reading an Excel workbook (\<open>app.py\<close> 135--264 and the parsing part of
  \<open>import_excel_route\<close>, 416--473). A worksheet is the function from a
  1-based row and column to the text of the cell (\<open>None\<close> for an empty
  cell), with \<open>max_row\<close> and \<open>max_column\<close> as openpyxl reports them. Strings
  are UTF-8 byte strings: \<open>startswith\<close>, slicing off a prefix, equality and
  the order of \<open>sorted\<close> agree with Python's on code points.
\<close>

section \<open>Worksheets\<close>

record sheet =
  sh_cell :: "nat \<Rightarrow> nat \<Rightarrow> string option"
  sh_max_row :: nat
  sh_max_column :: nat

text \<open>The sheet reader's errors: each \<open>flash(...); return None\<close> of the
  two readers.\<close>

datatype sheet_error =
    MissingHeaders
  | HeaderMismatch
  | RowLabelMismatch
  | HeaderCount nat
  | RowLabelCount nat
  | InternalLabel string
  | SaatyCellError build_error

text \<open>\<open>{name: i for i, name in enumerate(xs)}\<close>: a later duplicate
  overrides an earlier one.\<close>

definition enum_map :: "'a list \<Rightarrow> 'a \<Rightarrow> nat option" where
  "enum_map xs = map_of (rev (zip xs [0..<length xs]))"

text \<open>The lookups of the nested loops that fill \<open>matrix_str\<close>: each
  row \<open>r\<close> looks up its label, then every header; the first name not found
  ends the reader with an internal error, unreachable once the sorted
  name lists agree).\<close>

fun lookup_rows ::
  "('a \<Rightarrow> nat option) \<Rightarrow> ('a \<Rightarrow> nat option) \<Rightarrow> 'a list \<Rightarrow> 'a list \<Rightarrow> 'a option" where
  "lookup_rows row_map header_map expected [] = None"
| "lookup_rows row_map header_map expected (r # rs) =
     (if row_map r = None then Some r
      else case find (\<lambda>c. header_map c = None) expected of
             Some c \<Rightarrow> Some c
           | None \<Rightarrow> lookup_rows row_map header_map expected rs)"

text \<open>\<open>str(cell_value) if cell_value is not None else "1"\<close>.\<close>

definition cell_text :: "string option \<Rightarrow> string" where
  "cell_text v = (case v of Some s \<Rightarrow> s | None \<Rightarrow> ''1'')"

section \<open>The criteria sheet\<close>

text \<open>\<open>headers_excel\<close>: row 1 from column B on; \<open>row_labels_excel\<close>:
  column A from row 2 on; empty cells are skipped.\<close>

definition sheet_headers :: "sheet \<Rightarrow> string list" where
  "sheet_headers sh = List.map_filter id (map (\<lambda>c. sh_cell sh 1 c) [2..<Suc (sh_max_column sh)])"

definition sheet_row_labels :: "sheet \<Rightarrow> string list" where
  "sheet_row_labels sh = List.map_filter id (map (\<lambda>r. sh_cell sh r 1) [2..<Suc (sh_max_row sh)])"

definition parse_matrix_from_sheet :: "sheet \<Rightarrow> string list \<Rightarrow> string list \<Rightarrow> sheet_error + pymatrix" where
  "parse_matrix_from_sheet sh expected_headers expected_row_labels =
     (let hs = sheet_headers sh; ls = sheet_row_labels sh
      in if hs = [] \<or> ls = [] then Inl MissingHeaders
         else if sort hs \<noteq> sort expected_headers then Inl HeaderMismatch
         else if sort ls \<noteq> sort expected_row_labels then Inl RowLabelMismatch
         else case lookup_rows (enum_map ls) (enum_map hs) expected_headers expected_headers of
                Some nm \<Rightarrow> Inl (InternalLabel nm)
              | None \<Rightarrow>
                  (case parse_sheet_matrix
                          (\<lambda>i j. cell_text (sh_cell sh (the (enum_map ls (expected_headers ! i)) + 2)
                                                     (the (enum_map hs (expected_headers ! j)) + 2)))
                          (length expected_headers) of
                     Inl e \<Rightarrow> Inl (SaatyCellError e)
                   | Inr M \<Rightarrow> Inr M))"

section \<open>A block of the alternatives sheet\<close>

text \<open>The block whose header row is \<open>start\<close>: \<open>num\<close> headers from column
  B, \<open>num\<close> row labels below it in column A.\<close>

definition block_headers :: "sheet \<Rightarrow> nat \<Rightarrow> nat \<Rightarrow> string list" where
  "block_headers sh start num = List.map_filter id (map (\<lambda>j. sh_cell sh start (j + 2)) [0..<num])"

definition block_row_labels :: "sheet \<Rightarrow> nat \<Rightarrow> nat \<Rightarrow> string list" where
  "block_row_labels sh start num = List.map_filter id (map (\<lambda>i. sh_cell sh (start + 1 + i) 1) [0..<num])"

definition parse_single_matrix_block :: "sheet \<Rightarrow> nat \<Rightarrow> nat \<Rightarrow> string list \<Rightarrow> sheet_error + pymatrix" where
  "parse_single_matrix_block sh start num names =
     (let hs = block_headers sh start num; ls = block_row_labels sh start num
      in if length hs \<noteq> num then Inl (HeaderCount (length hs))
         else if length ls \<noteq> num then Inl (RowLabelCount (length ls))
         else if sort hs \<noteq> sort names then Inl HeaderMismatch
         else if sort ls \<noteq> sort names then Inl RowLabelMismatch
         else case lookup_rows (enum_map ls) (enum_map hs) names names of
                Some nm \<Rightarrow> Inl (InternalLabel nm)
              | None \<Rightarrow>
                  (case parse_single_block_matrix
                          (\<lambda>i j. cell_text (sh_cell sh (start + 1 + the (enum_map ls (names ! i)))
                                                     (2 + the (enum_map hs (names ! j)))))
                          num of
                     Inl e \<Rightarrow> Inl (SaatyCellError e)
                   | Inr M \<Rightarrow> Inr M))"

section \<open>The workbook\<close>

text \<open>\<open>allowed_file\<close>: a dot, and the text after the last dot is
  \<open>xlsx\<close> in lower case.\<close>

definition ascii_lower :: "char \<Rightarrow> char" where
  "ascii_lower c = (if CHR ''A'' \<le> c \<and> c \<le> CHR ''Z'' then char_of (of_char c + (32::nat)) else c)"

definition allowed_file :: "string \<Rightarrow> bool" where
  "allowed_file filename =
     (CHR ''.'' \<in> set filename \<and>
      map ascii_lower (rev (takeWhile (\<lambda>c. c \<noteq> CHR ''.'') (rev filename))) = ''xlsx'')"

text \<open>The names of sheet \<open>DanhSach\<close>: the truthy cells of one column from
  row 2 on (\<open>iter_rows(min_row=2, min_col=c, max_col=c)\<close>).\<close>

definition list_column :: "sheet \<Rightarrow> nat \<Rightarrow> string list" where
  "list_column sh c =
     filter (\<lambda>s. s \<noteq> []) (List.map_filter id (map (\<lambda>r. sh_cell sh r c) [2..<Suc (sh_max_row sh)]))"

text \<open>\<open>CRITERION_BLOCK_MARKER = "Ti\<^bold>eu ch\<^bold>i: "\<close> in UTF-8.\<close>

definition criterion_block_marker :: string where
  "criterion_block_marker =
     ''Ti'' @ [char_of (195::nat), char_of (170::nat)] @ ''u ch'' @ [char_of (195::nat), char_of (173::nat)] @ '': ''"

text \<open>\<open>criteria_names.index(name)\<close>, for a name of the list.\<close>

definition py_index :: "'a list \<Rightarrow> 'a \<Rightarrow> nat" where
  "py_index xs x = length (takeWhile (\<lambda>y. y \<noteq> x) xs)"

datatype scan_error =
    UnknownCriterion string nat
  | BlockError nat sheet_error

text \<open>The \<open>while current_row <= sheet_all_pa.max_row\<close> loop over sheet
  \<open>TatCaMaTranPA\<close>: a marker cell in column A names a criterion and opens
  a block whose header row follows; the block is read, stored under the
  criterion's index (a dictionary assignment: a repeated criterion
  overwrites its matrix in place), and skipped. The loop ends because the
  row grows on every pass.\<close>

function scan_blocks ::
  "sheet \<Rightarrow> string list \<Rightarrow> string list \<Rightarrow> nat \<Rightarrow> (nat \<times> pymatrix) list \<Rightarrow> string list \<Rightarrow>
   scan_error + (nat \<times> pymatrix) list \<times> string list" where
  "scan_blocks sh criteria_names alternative_names current_row imported found =
     (if sh_max_row sh < current_row then Inr (imported, found)
      else case sh_cell sh current_row 1 of
        Some v \<Rightarrow>
          (if v \<noteq> [] \<and> take (length criterion_block_marker) v = criterion_block_marker then
             (let nm = py_strip (drop (length criterion_block_marker) v)
              in if nm \<notin> set criteria_names then Inl (UnknownCriterion nm current_row)
                 else case parse_single_matrix_block sh (current_row + 1) (length alternative_names)
                             alternative_names of
                        Inl e \<Rightarrow> Inl (BlockError current_row e)
                      | Inr M \<Rightarrow>
                          scan_blocks sh criteria_names alternative_names
                            (current_row + 1 + length alternative_names + 1)
                            (AList.update (py_index criteria_names nm) M imported) (List.insert nm found))
           else scan_blocks sh criteria_names alternative_names (Suc current_row) imported found)
      | None \<Rightarrow> scan_blocks sh criteria_names alternative_names (Suc current_row) imported found)"
  by pat_completeness auto
termination
  by (relation "measure (\<lambda>(sh, _, _, r, _, _). Suc (sh_max_row sh) - r)") auto

text \<open>The same loop as the source writes it, for \<open>while_option\<close>: the
  state is \<open>(current_row, imported_alternative_matrices,
  found_criteria_in_pa_sheet)\<close> with the error that leaves the loop through
  a \<open>return redirect\<close>; \<open>scan_cond\<close> is the \<open>while\<close> test (and no
  return taken), \<open>scan_body\<close> one pass of the body, 454--467.\<close>

type_synonym scan_state = "nat \<times> (nat \<times> pymatrix) list \<times> string list \<times> scan_error option"

definition scan_cond :: "sheet \<Rightarrow> scan_state \<Rightarrow> bool" where
  "scan_cond sh st = (case st of (current_row, _, _, err) \<Rightarrow> current_row \<le> sh_max_row sh \<and> err = None)"

definition scan_body :: "sheet \<Rightarrow> string list \<Rightarrow> string list \<Rightarrow> scan_state \<Rightarrow> scan_state" where
  "scan_body sh criteria_names alternative_names st =
     (case st of (current_row, imported, found, _) \<Rightarrow>
       (case sh_cell sh current_row 1 of
          Some v \<Rightarrow>
            (if v \<noteq> [] \<and> take (length criterion_block_marker) v = criterion_block_marker then
               (let nm = py_strip (drop (length criterion_block_marker) v)
                in if nm \<notin> set criteria_names
                   then (current_row, imported, found, Some (UnknownCriterion nm current_row))
                   else
                     (let found' = List.insert nm found
                      in case parse_single_matrix_block sh (current_row + 1) (length alternative_names)
                                alternative_names of
                           Inl e \<Rightarrow> (current_row, imported, found', Some (BlockError current_row e))
                         | Inr M \<Rightarrow> (current_row + (1 + length alternative_names) + 1,
                                     AList.update (py_index criteria_names nm) M imported, found', None)))
             else (current_row + 1, imported, found, None))
        | None \<Rightarrow> (current_row + 1, imported, found, None)))"

definition scan_loop :: "sheet \<Rightarrow> string list \<Rightarrow> string list \<Rightarrow> scan_state option" where
  "scan_loop sh criteria_names alternative_names =
     while_option (scan_cond sh) (scan_body sh criteria_names alternative_names) (1, [], [], None)"

text \<open>What the loop leaves for the rest of the route: the error it returned
  with, or the dictionary and the set of criteria found.\<close>

definition scan_outcome :: "scan_state \<Rightarrow> scan_error + (nat \<times> pymatrix) list \<times> string list" where
  "scan_outcome st = (case st of (_, imported, found, err) \<Rightarrow>
     (case err of Some e \<Rightarrow> Inl e | None \<Rightarrow> Inr (imported, found)))"

text \<open>The rows left, plus one while no return has been taken: the measure
  every pass decreases.\<close>

definition scan_measure :: "sheet \<Rightarrow> scan_state \<Rightarrow> nat" where
  "scan_measure sh st = (case st of (current_row, _, _, err) \<Rightarrow>
     Suc (sh_max_row sh) - current_row + (if err = None then 1 else 0))"

text \<open>The outcome the recursive reading predicts from a loop state.\<close>

definition scan_resume :: "sheet \<Rightarrow> string list \<Rightarrow> string list \<Rightarrow> scan_state \<Rightarrow>
    scan_error + (nat \<times> pymatrix) list \<times> string list" where
  "scan_resume sh criteria_names alternative_names st = (case st of (current_row, imported, found, err) \<Rightarrow>
     (case err of Some e \<Rightarrow> Inl e
      | None \<Rightarrow> scan_blocks sh criteria_names alternative_names current_row imported found))"

section \<open>Lemmas\<close>

lemma sort_eq_iff_mset: "sort xs = sort ys \<longleftrightarrow> mset xs = mset ys"
  by (metis mset_sort properties_for_sort sorted_sort)

lemma enum_map_Some: "enum_map xs x = Some k \<Longrightarrow> k < length xs \<and> xs ! k = x"
  unfolding enum_map_def by (auto dest!: map_of_SomeD simp: set_zip)

lemma enum_map_None: "enum_map xs x = None \<longleftrightarrow> x \<notin> set xs"
proof -
  have "fst ` set (rev (zip xs [0..<length xs])) = set xs"
    by (simp flip: set_map)
  thus ?thesis by (simp add: enum_map_def map_of_eq_None_iff)
qed

lemma lookup_rows_None:
  "set rs \<subseteq> set e \<Longrightarrow> \<forall>x\<in>set e. rm x \<noteq> None \<and> hm x \<noteq> None \<Longrightarrow> lookup_rows rm hm e rs = None"
proof (induction rs)
  case (Cons r rs)
  have "find (\<lambda>c. hm c = None) e = None" using Cons.prems(2) by (auto simp: find_None_iff)
  with Cons show ?case by auto
qed simp

lemma lookup_rows_NoneD:
  "lookup_rows rm hm e rs = None \<Longrightarrow> r \<in> set rs \<Longrightarrow> rm r \<noteq> None \<and> (\<forall>c\<in>set e. hm c \<noteq> None)"
  by (induction rs) (auto simp: find_None_iff split: if_splits option.splits)

lemma map_filter_id_all:
  "\<forall>x\<in>set xs. f x \<noteq> None \<Longrightarrow> List.map_filter id (map f xs) = map (\<lambda>x. the (f x)) xs"
  by (induction xs) (auto simp: List.map_filter_simps split: option.split)

text \<open>What the criteria-sheet reader computes when it succeeds: the matrix
  the Saaty loop builds from the text at row \<open>k + 2\<close> and column
  \<open>l + 2\<close>, where \<open>k\<close> and \<open>l\<close> are the positions of the expected names in
  the lists of labels and headers that were read.\<close>

lemma parse_matrix_from_sheet_InrD:
  assumes "parse_matrix_from_sheet sh es ls0 = Inr M"
  obtains f where "parse_sheet_matrix f (length es) = Inr M"
    "\<And>i j. i < length es \<Longrightarrow> j < length es \<Longrightarrow>
       \<exists>k l. enum_map (sheet_row_labels sh) (es ! i) = Some k \<and>
             enum_map (sheet_headers sh) (es ! j) = Some l \<and>
             f i j = cell_text (sh_cell sh (k + 2) (l + 2))"
proof -
  let ?hs = "sheet_headers sh" and ?ls = "sheet_row_labels sh"
  from assms have ok: "mset ?hs = mset es" "mset ?ls = mset ls0"
    by (auto simp: parse_matrix_from_sheet_def Let_def sort_eq_iff_mset split: if_splits)
  from assms have lk: "lookup_rows (enum_map ?ls) (enum_map ?hs) es es = None"
    by (auto simp: parse_matrix_from_sheet_def Let_def split: if_splits option.splits)
  define f where "f = (\<lambda>i j. cell_text (sh_cell sh (the (enum_map ?ls (es ! i)) + 2)
                                             (the (enum_map ?hs (es ! j)) + 2)))"
  from assms lk have "parse_sheet_matrix f (length es) = Inr M"
    by (auto simp: parse_matrix_from_sheet_def Let_def f_def split: if_splits sum.splits)
  moreover have "\<exists>k l. enum_map ?ls (es ! i) = Some k \<and> enum_map ?hs (es ! j) = Some l \<and>
                   f i j = cell_text (sh_cell sh (k + 2) (l + 2))"
    if "i < length es" "j < length es" for i j
  proof -
    have "enum_map ?ls (es ! i) \<noteq> None \<and> enum_map ?hs (es ! j) \<noteq> None"
      using lookup_rows_NoneD [OF lk, of "es ! i"] that by simp
    thus ?thesis by (auto simp: f_def)
  qed
  ultimately show ?thesis using that by blast
qed

lemma build_matrix_upper_entry:
  assumes "build_matrix form n = Inr M" "i < j" "j < n"
  shows "\<exists>s v. form i j = Some s \<and> parse_saaty_value (py_strip s) False = Inr v \<and>
           M ! i ! j = PFin v \<and> M ! j ! i = PFin (1 / v)"
proof -
  note D = build_matrix_InrD [OF assms(1)]
  have ok: "cell_check form (i, j) = None" using D(2) assms(2,3) by simp
  from upper_cell_ok [OF ok assms(2)] obtain s where
    "form i j = Some s" "parse_saaty_value (py_strip s) False = Inr (upper_val form i j)" .
  moreover have "M ! i ! j = PFin (upper_val form i j)" "M ! j ! i = PFin (1 / upper_val form i j)"
    using target_entry_upper [OF ok assms(2)] assms(2,3) by (simp_all add: D(1) matrix_of_cells_def)
  ultimately show ?thesis by blast
qed

lemma parse_sheet_matrix_upper:
  assumes "parse_sheet_matrix f n = Inr M" "i < j" "j < n"
  shows "\<exists>v. parse_saaty_value (py_strip (f i j)) False = Inr v \<and>
           M ! i ! j = PFin v \<and> M ! j ! i = PFin (1 / v)"
  using build_matrix_upper_entry [OF assms(1) [unfolded parse_sheet_matrix_def] assms(2,3)] by auto

lemma gap_free_nth:
  assumes "\<forall>x\<in>{2..m}. g x \<noteq> None" "k < length (List.map_filter id (map g [2..<Suc m]))"
  shows "g (k + 2) = Some (List.map_filter id (map g [2..<Suc m]) ! k)"
proof -
  have eq: "List.map_filter id (map g [2..<Suc m]) = map (\<lambda>x. the (g x)) [2..<Suc m]"
    using assms(1) by (intro map_filter_id_all) auto
  have k: "k + 2 \<le> m" using assms(2) unfolding eq by (simp del: upt_Suc)
  hence "g (k + 2) \<noteq> None" using assms(1) by simp
  moreover have "List.map_filter id (map g [2..<Suc m]) ! k = the (g (k + 2))"
    using k nth_upt [of 2 k "Suc m"] by (simp add: eq del: upt_Suc)
  ultimately show ?thesis by simp
qed

lemma set_update_cases: "x \<in> set (AList.update k v al) \<Longrightarrow> x = (k, v) \<or> x \<in> set al"
  by (induction al) (auto split: if_splits)

lemma parse_single_matrix_block_comparison:
  assumes "parse_single_matrix_block sh start num names = Inr M"
  shows "comparison_matrix num M"
proof -
  obtain f where "build_matrix (\<lambda>i j. Some (f i j)) num = Inr M"
    using assms by (auto simp: parse_single_matrix_block_def parse_single_block_matrix_def Let_def
        split: if_splits option.splits sum.splits)
  from build_matrix_InrD [OF this] show ?thesis by (simp add: matrix_of_cells_comparison)
qed

lemma py_index_less: "x \<in> set xs \<Longrightarrow> py_index xs x < length xs"
  by (induction xs) (auto simp: py_index_def)

section \<open>Properties of the readers\<close>

text \<open>Claim C17. When the header row and the label column of the criteria
  sheet have no empty cell, a successful read is indexed by the expected
  names: entry \<open>(i, j)\<close> above the diagonal is the Saaty value of the cell in
  the row labelled with the \<open>i\<close>-th name and the column headed with the
  \<open>j\<close>-th, and entry \<open>(j, i)\<close> its reciprocal, whatever order the sheet
  lists the names in.\<close>

theorem parse_matrix_from_sheet_by_names:
  assumes rd: "parse_matrix_from_sheet sh es ls0 = Inr M" and ij: "i < j" "j < length es"
    and hd: "\<forall>c\<in>{2..sh_max_column sh}. sh_cell sh 1 c \<noteq> None"
    and lb: "\<forall>r\<in>{2..sh_max_row sh}. sh_cell sh r 1 \<noteq> None"
  shows "\<exists>r c v. sh_cell sh r 1 = Some (es ! i) \<and> sh_cell sh 1 c = Some (es ! j) \<and>
           parse_saaty_value (py_strip (cell_text (sh_cell sh r c))) False = Inr v \<and>
           M ! i ! j = PFin v \<and> M ! j ! i = PFin (1 / v)"
proof -
  obtain f where f: "parse_sheet_matrix f (length es) = Inr M"
    and fij: "\<And>i j. i < length es \<Longrightarrow> j < length es \<Longrightarrow>
       \<exists>k l. enum_map (sheet_row_labels sh) (es ! i) = Some k \<and>
             enum_map (sheet_headers sh) (es ! j) = Some l \<and>
             f i j = cell_text (sh_cell sh (k + 2) (l + 2))"
    by (rule parse_matrix_from_sheet_InrD [OF rd]) blast
  obtain k l where k: "enum_map (sheet_row_labels sh) (es ! i) = Some k"
    and l: "enum_map (sheet_headers sh) (es ! j) = Some l"
    and fv: "f i j = cell_text (sh_cell sh (k + 2) (l + 2))"
    using fij [of i j] ij by auto
  have "sh_cell sh (k + 2) 1 = Some (es ! i)"
    using enum_map_Some [OF k] gap_free_nth [of "sh_max_row sh" "\<lambda>r. sh_cell sh r 1" k] lb
    by (simp add: sheet_row_labels_def)
  moreover have "sh_cell sh 1 (l + 2) = Some (es ! j)"
    using enum_map_Some [OF l] gap_free_nth [of "sh_max_column sh" "\<lambda>c. sh_cell sh 1 c" l] hd
    by (simp add: sheet_headers_def)
  moreover obtain v where "parse_saaty_value (py_strip (f i j)) False = Inr v"
    "M ! i ! j = PFin v" "M ! j ! i = PFin (1 / v)"
    using parse_sheet_matrix_upper [OF f ij] by blast
  ultimately show ?thesis
    unfolding fv by blast
qed


lemma imported_update_wf:
  assumes "distinct (map fst imp)" "distinct fnd" "set fnd \<subseteq> set cs"
    and "fst ` set imp = py_index cs ` set fnd"
    and "\<forall>p\<in>set imp. fst p < length cs \<and> comparison_matrix (length als) (snd p)"
    and "nm \<in> set cs" "comparison_matrix (length als) M"
  shows "distinct (map fst (AList.update (py_index cs nm) M imp)) \<and> distinct (List.insert nm fnd) \<and>
         set (List.insert nm fnd) \<subseteq> set cs \<and>
         fst ` set (AList.update (py_index cs nm) M imp) = py_index cs ` set (List.insert nm fnd) \<and>
         (\<forall>p\<in>set (AList.update (py_index cs nm) M imp).
            fst p < length cs \<and> comparison_matrix (length als) (snd p))"
proof (intro conjI)
  show "distinct (map fst (AList.update (py_index cs nm) M imp))"
    using assms(1) by (simp add: distinct_update)
  show "distinct (List.insert nm fnd)" using assms(2) by simp
  show "set (List.insert nm fnd) \<subseteq> set cs" using assms(3,6) by simp
  show "fst ` set (AList.update (py_index cs nm) M imp) = py_index cs ` set (List.insert nm fnd)"
    using assms(4) by (simp add: dom_update)
  show "\<forall>p\<in>set (AList.update (py_index cs nm) M imp).
          fst p < length cs \<and> comparison_matrix (length als) (snd p)"
    using assms(5,7) py_index_less [OF assms(6)] by (auto dest: set_update_cases)
qed

text \<open>Claim C18. The scan of sheet \<open>TatCaMaTranPA\<close> ends on every sheet
  (its rows strictly increase up to \<open>max_row\<close>), and it keeps the
  dictionary of imported matrices well formed: distinct keys, each the index
  of a criterion that was found, the found names distinct criteria, and
  every stored matrix a comparison matrix over the alternatives.\<close>

theorem scan_blocks_imported_wf:
  assumes "scan_blocks sh cs als row imp fnd = Inr (imp', fnd')"
    and "distinct (map fst imp)" "distinct fnd" "set fnd \<subseteq> set cs"
    and "fst ` set imp = py_index cs ` set fnd"
    and "\<forall>p\<in>set imp. fst p < length cs \<and> comparison_matrix (length als) (snd p)"
  shows "distinct (map fst imp') \<and> distinct fnd' \<and> set fnd' \<subseteq> set cs \<and>
         fst ` set imp' = py_index cs ` set fnd' \<and>
         (\<forall>p\<in>set imp'. fst p < length cs \<and> comparison_matrix (length als) (snd p))"
  using assms
proof (induction sh cs als row imp fnd rule: scan_blocks.induct)
  case (1 sh cs als row imp fnd)
  note u = "1.prems"(1) [unfolded scan_blocks.simps [of sh cs als row imp fnd]]
  consider (stop) "sh_max_row sh < row"
    | (skip) "\<not> sh_max_row sh < row" "sh_cell sh row 1 = None"
    | (plain) v where "\<not> sh_max_row sh < row" "sh_cell sh row 1 = Some v"
        "\<not> (v \<noteq> [] \<and> take (length criterion_block_marker) v = criterion_block_marker)"
    | (block) v where "\<not> sh_max_row sh < row" "sh_cell sh row 1 = Some v"
        "v \<noteq> [] \<and> take (length criterion_block_marker) v = criterion_block_marker"
    by (cases "sh_cell sh row 1") auto
  then show ?case
  proof cases
    case stop
    with u "1.prems" show ?thesis by (simp del: scan_blocks.simps)
  next
    case skip
    with u "1.prems" show ?thesis by (intro "1.IH"(1)) (simp_all del: scan_blocks.simps)
  next
    case (plain v)
    with u "1.prems" show ?thesis
      by (intro "1.IH"(3)) (simp_all add: if_not_P [OF plain(3)] del: scan_blocks.simps)
  next
    case (block v)
    define nm where "nm = py_strip (drop (length criterion_block_marker) v)"
    from block u obtain M where inc: "nm \<in> set cs"
      and M: "parse_single_matrix_block sh (row + 1) (length als) als = Inr M"
      and step: "scan_blocks sh cs als (row + 1 + length als + 1)
                   (AList.update (py_index cs nm) M imp) (List.insert nm fnd) = Inr (imp', fnd')"
      by (auto simp: nm_def [symmetric] Let_def split: if_splits sum.splits simp del: scan_blocks.simps)
    have "\<not> nm \<notin> set cs" using inc by simp
    from "1.IH"(2) [OF block nm_def this M step]
      imported_update_wf [OF "1.prems"(2-6) inc parse_single_matrix_block_comparison [OF M]]
    show ?thesis by blast
  qed
qed

lemma scan_blocks_done: "sh_max_row sh < r \<Longrightarrow> scan_blocks sh cs als r imp fnd = Inr (imp, fnd)"
  by simp

lemma scan_body_decreases:
  assumes "scan_cond sh st"
  shows "scan_measure sh (scan_body sh cs als st) < scan_measure sh st"
proof -
  obtain r imp fnd where st: "st = (r, imp, fnd, None)" and r: "r \<le> sh_max_row sh"
    using assms by (cases st) (auto simp: scan_cond_def)
  then show ?thesis
    by (auto simp: scan_body_def scan_measure_def Let_def split: option.split sum.split)
qed

lemma scan_body_resume:
  assumes "scan_cond sh st"
  shows "scan_resume sh cs als (scan_body sh cs als st) = scan_resume sh cs als st"
proof -
  obtain r imp fnd where st: "st = (r, imp, fnd, None)" and r: "r \<le> sh_max_row sh"
    using assms by (cases st) (auto simp: scan_cond_def)
  have u: "scan_blocks sh cs als r imp fnd =
     (if sh_max_row sh < r then Inr (imp, fnd)
      else case sh_cell sh r 1 of
        Some v \<Rightarrow>
          (if v \<noteq> [] \<and> take (length criterion_block_marker) v = criterion_block_marker then
             (let nm = py_strip (drop (length criterion_block_marker) v)
              in if nm \<notin> set cs then Inl (UnknownCriterion nm r)
                 else case parse_single_matrix_block sh (r + 1) (length als) als of
                        Inl e \<Rightarrow> Inl (BlockError r e)
                      | Inr M \<Rightarrow> scan_blocks sh cs als (r + 1 + length als + 1)
                                   (AList.update (py_index cs nm) M imp) (List.insert nm fnd))
           else scan_blocks sh cs als (Suc r) imp fnd)
      | None \<Rightarrow> scan_blocks sh cs als (Suc r) imp fnd)"
    by (rule scan_blocks.simps)
  show ?thesis
    using r unfolding st
    by (auto simp: u scan_body_def scan_resume_def Let_def
             split: option.split sum.split simp del: scan_blocks.simps)
qed

text \<open>Claim C19. The \<open>while current_row <= max_row\<close> loop of
  \<open>import_excel_route\<close> stops on every sheet, for every list of criteria
  and alternatives, and leaves exactly what the recursive reading
  \<open>scan_blocks\<close> computes: the same error, or the same dictionary and set
  of criteria found.\<close>

theorem scan_loop_terminates:
  "\<exists>st. scan_loop sh cs als = Some st \<and> scan_outcome st = scan_blocks sh cs als 1 [] []"
proof -
  let ?P = "\<lambda>st. scan_resume sh cs als st = scan_blocks sh cs als 1 [] []"
  have step: "?P (scan_body sh cs als st) \<and> scan_measure sh (scan_body sh cs als st) < scan_measure sh st"
    if "?P st" "scan_cond sh st" for st
    using that scan_body_resume [of sh st cs als] scan_body_decreases [of sh st cs als] by simp
  have init: "?P (1, [], [], None)"
    by (simp add: scan_resume_def del: scan_blocks.simps)
  obtain st where st: "while_option (scan_cond sh) (scan_body sh cs als) (1, [], [], None) = Some st"
    using measure_while_option_Some [of ?P "scan_cond sh" "scan_body sh cs als" "scan_measure sh", OF step init]
    by blast
  have "?P st"
    using while_option_rule [of ?P "scan_cond sh" "scan_body sh cs als", OF _ st] step init by blast
  moreover have "\<not> scan_cond sh st"
    by (rule while_option_stop [OF st])
  ultimately have "scan_outcome st = scan_blocks sh cs als 1 [] []"
    by (cases st) (auto simp: scan_outcome_def scan_resume_def scan_cond_def scan_blocks_done
                        split: option.split_asm simp del: scan_blocks.simps)
  with st show ?thesis by (simp add: scan_loop_def)
qed

section \<open>Witnesses\<close>

theorem parse_matrix_from_sheet_by_names_witness:
  "\<exists>r c v. sh_cell \<lparr>sh_cell = \<lambda>r c. map_of [((1, 2), ''B''), ((1, 3), ''A''), ((2, 1), ''A''), ((3, 1), ''B''),
        ((2, 2), ''3''), ((2, 3), ''1''), ((3, 2), ''1''), ((3, 3), ''1/3'')] (r, c),
      sh_max_row = 3, sh_max_column = 3\<rparr> r 1 = Some ''A'' \<and>
    sh_cell \<lparr>sh_cell = \<lambda>r c. map_of [((1, 2), ''B''), ((1, 3), ''A''), ((2, 1), ''A''), ((3, 1), ''B''),
        ((2, 2), ''3''), ((2, 3), ''1''), ((3, 2), ''1''), ((3, 3), ''1/3'')] (r, c),
      sh_max_row = 3, sh_max_column = 3\<rparr> 1 c = Some ''B'' \<and>
    parse_saaty_value (py_strip (cell_text (sh_cell \<lparr>sh_cell = \<lambda>r c. map_of [((1, 2), ''B''), ((1, 3), ''A''),
        ((2, 1), ''A''), ((3, 1), ''B''), ((2, 2), ''3''), ((2, 3), ''1''), ((3, 2), ''1''), ((3, 3), ''1/3'')] (r, c),
      sh_max_row = 3, sh_max_column = 3\<rparr> r c))) False = Inr v \<and>
    v = 3"
proof -
  let ?sh = "\<lparr>sh_cell = \<lambda>r c. map_of [((1, 2), ''B''), ((1, 3), ''A''), ((2, 1), ''A''), ((3, 1), ''B''),
        ((2, 2), ''3''), ((2, 3), ''1''), ((3, 2), ''1''), ((3, 3), ''1/3'')] (r, c),
      sh_max_row = 3, sh_max_column = 3\<rparr>"
  have rd: "parse_matrix_from_sheet ?sh [''A'', ''B''] [''A'', ''B''] = Inr [[PFin 1, PFin 3], [PFin (1 / 3), PFin 1]]"
    by code_simp
  have hd: "\<forall>c\<in>{2..sh_max_column ?sh}. sh_cell ?sh 1 c \<noteq> None"
    and lb: "\<forall>r\<in>{2..sh_max_row ?sh}. sh_cell ?sh r 1 \<noteq> None"
    by (auto simp: atLeastAtMost_iff le_Suc_eq numeral_3_eq_3 numeral_2_eq_2)
  obtain r c v where "sh_cell ?sh r 1 = Some ''A''" "sh_cell ?sh 1 c = Some ''B''"
    "parse_saaty_value (py_strip (cell_text (sh_cell ?sh r c))) False = Inr v"
    "[[PFin 1, PFin 3], [PFin (1 / 3), PFin (1::real)]] ! 0 ! 1 = PFin v"
    using parse_matrix_from_sheet_by_names [OF rd _ _ hd lb, of 0 1] by auto
  moreover from this(4) have "v = 3" by simp
  ultimately show ?thesis by blast
qed

theorem scan_blocks_imported_wf_witness:
  "scan_blocks \<lparr>sh_cell = \<lambda>r c. map_of [((1, 1), criterion_block_marker @ ''C1''),
        ((2, 2), ''X''), ((2, 3), ''Y''), ((3, 1), ''X''), ((3, 2), ''1''), ((3, 3), ''3''),
        ((4, 1), ''Y''), ((4, 2), ''1/3''), ((4, 3), ''1'')] (r, c),
      sh_max_row = 4, sh_max_column = 3\<rparr> [''C0'', ''C1''] [''X'', ''Y''] 1 [] [] =
     Inr ([(1, [[PFin 1, PFin 3], [PFin (1 / 3), PFin 1]])], [''C1'']) \<and>
   comparison_matrix 2 [[PFin 1, PFin 3], [PFin (1 / 3), PFin 1]]"
proof -
  let ?sh = "\<lparr>sh_cell = \<lambda>r c. map_of [((1, 1), criterion_block_marker @ ''C1''),
        ((2, 2), ''X''), ((2, 3), ''Y''), ((3, 1), ''X''), ((3, 2), ''1''), ((3, 3), ''3''),
        ((4, 1), ''Y''), ((4, 2), ''1/3''), ((4, 3), ''1'')] (r, c),
      sh_max_row = 4, sh_max_column = 3\<rparr>"
  have sc: "scan_blocks ?sh [''C0'', ''C1''] [''X'', ''Y''] 1 [] [] =
     Inr ([(1, [[PFin 1, PFin 3], [PFin (1 / 3), PFin 1]])], [''C1''])"
    by code_simp
  have "\<forall>p\<in>set [(1::nat, [[PFin 1, PFin 3], [PFin (1 / 3), PFin (1::real)]])].
          fst p < length [''C0'', ''C1''] \<and> comparison_matrix (length [''X'', ''Y'']) (snd p)"
    using scan_blocks_imported_wf [OF sc] by (simp add: py_index_def)
  hence "comparison_matrix (length [''X'', ''Y'']) [[PFin 1, PFin 3], [PFin (1 / 3), PFin (1::real)]]"
    by (simp only: list.set ball_simps fst_conv snd_conv)
  hence "comparison_matrix 2 [[PFin 1, PFin 3], [PFin (1 / 3), PFin (1::real)]]"
    by (simp add: numeral_2_eq_2)
  with sc show ?thesis by (rule conjI)
qed

end
