(* ===== verification/Session.thy ===== *)
theory Session
  imports Persistence Excel_Import
begin

text \<open>
  The Flask application of \<open>app.py\<close> as a state machine: the state is the
  Flask \<open>session\<close> dictionary together with the database of
  \<open>Persistence\<close>; each route is a function from the request's data and
  the state to the page it renders or redirects to and the new state. The
  routes are \<open>home\<close>, \<open>add_criteria_route\<close>, \<open>add_alternative_route\<close>,
  \<open>start_ahp_route\<close>, \<open>import_excel_route\<close>, \<open>calculate_criteria_route\<close>,
  \<open>calculate_final_route\<close>, \<open>history_list_route\<close> and
  \<open>view_result_route\<close>; \<open>handle\<close> dispatches a request to its route and
  \<open>reach\<close> is the set of states a sequence of requests leads to. Flash
  messages, templates, the form echo kept for re-rendering
  (\<open>form_data_*_temp\<close>, \<open>alternative_crs_temp\<close>) and charts are not
  modelled.
\<close>

section \<open>The session dictionary\<close>

text \<open>The keys the routes read back: \<open>flask_session_id\<close>,
  \<open>current_criteria_tuples\<close>, \<open>current_alternatives_tuples\<close>,
  \<open>criteria_ahp_results\<close>, \<open>data_imported_from_excel\<close>,
  \<open>imported_criteria_matrix\<close>, \<open>imported_alternative_matrices\<close>
  (\<open>None\<close> for an absent key, \<open>False\<close> for an absent flag).\<close>

record flask_session =
  s_flask_id :: "string option"
  s_criteria :: "(nat \<times> string) list option"
  s_alternatives :: "(nat \<times> string) list option"
  s_crit_results :: "crit_results option"
  s_imported :: bool
  s_imported_criteria :: "pymatrix option"
  s_imported_alternatives :: "(nat \<times> pymatrix) list option"

type_synonym app_state = "flask_session \<times> db"

definition empty_session :: flask_session where
  "empty_session = \<lparr>s_flask_id = None, s_criteria = None, s_alternatives = None, s_crit_results = None,
     s_imported = False, s_imported_criteria = None, s_imported_alternatives = None\<rparr>"

text \<open>Python's truth value of an optional string or list.\<close>

definition py_true :: "'a list option \<Rightarrow> bool" where
  "py_true x = (case x of None \<Rightarrow> False | Some v \<Rightarrow> v \<noteq> [])"

definition the_list :: "'a list option \<Rightarrow> 'a list" where
  "the_list x = (case x of None \<Rightarrow> [] | Some v \<Rightarrow> v)"

text \<open>\<open>session.pop(key, None)\<close> for the keys of an AHP run.\<close>

definition pop_run_keys :: "flask_session \<Rightarrow> flask_session" where
  "pop_run_keys s = s\<lparr>s_crit_results := None, s_imported := False, s_imported_criteria := None,
     s_imported_alternatives := None\<rparr>"

section \<open>Pages\<close>

datatype route_name = HomeRoute | HistoryRoute

datatype page =
    Redirect route_name
  | HomePage "(nat \<times> string) list" "(nat \<times> string) list"
  | StepsPage "(nat \<times> string) list" "(nat \<times> string) list"
  | CriteriaPage crit_results "(real \<times> nat \<times> string) list" bool
  | FinalPage final_outcome "nat option"
  | HistoryPage "analysis_row list"
  | ResultPage analysis_row

section \<open>Routes\<close>

text \<open>\<open>home\<close>: a fresh session id (the \<open>uuid4\<close> drawn is the argument)
  when there is none, and every key of a run popped, the criteria and
  alternatives included.\<close>

definition home :: "string \<Rightarrow> app_state \<Rightarrow> page \<times> app_state" where
  "home uuid st =
     (let (s, d) = st;
          s1 = (if s_flask_id s = None then s\<lparr>s_flask_id := Some uuid\<rparr> else s);
          s2 = (pop_run_keys s1)\<lparr>s_criteria := None, s_alternatives := None\<rparr>
      in (HomePage (get_criteria_from_db d) (get_all_alternatives d), s2, d))"

definition add_criteria_route :: "string \<Rightarrow> app_state \<Rightarrow> page \<times> app_state" where
  "add_criteria_route criteria_name st =
     (let (s, d) = st; crit_name = py_strip criteria_name
      in if crit_name = [] then (Redirect HomeRoute, s, d)
         else (Redirect HomeRoute, s, snd (add_criteria crit_name [] d)))"

definition add_alternative_route :: "string \<Rightarrow> app_state \<Rightarrow> page \<times> app_state" where
  "add_alternative_route alternative_name st =
     (let (s, d) = st; alt_name = py_strip alternative_name
      in if alt_name = [] then (Redirect HomeRoute, s, d)
         else (Redirect HomeRoute, s, snd (add_alternative alt_name [] d)))"

text \<open>\<open>start_ahp_route\<close>: the selected ids parsed with \<open>int\<close>, at least
  three criteria and two alternatives, every id found in the database.\<close>

definition start_ahp_route :: "string list \<Rightarrow> string list \<Rightarrow> app_state \<Rightarrow> page \<times> app_state" where
  "start_ahp_route selected_criteria selected_alternatives st =
     (let (s, d) = st
      in if s_flask_id s = None then (Redirect HomeRoute, s, d)
         else if None \<in> set (map py_int selected_criteria) \<or> None \<in> set (map py_int selected_alternatives)
         then (Redirect HomeRoute, s, d)
         else
           (let crit_ids = map (the \<circ> py_int) selected_criteria;
                alt_ids = map (the \<circ> py_int) selected_alternatives
            in if length crit_ids < 3 then (Redirect HomeRoute, s, d)
               else if length alt_ids < 2 then (Redirect HomeRoute, s, d)
               else
                 (let cts = get_criteria_by_ids crit_ids d; ats = get_alternatives_by_ids alt_ids d
                  in if length cts \<noteq> length crit_ids \<or> length ats \<noteq> length alt_ids
                     then (Redirect HomeRoute, s, d)
                     else (StepsPage cts ats,
                           (pop_run_keys s)\<lparr>s_criteria := Some cts, s_alternatives := Some ats\<rparr>, d))))"

text \<open>\<open>import_excel_route\<close>. The upload is \<open>None\<close> when the request has no
  \<open>excel_file\<close>, otherwise its file name and the workbook \<open>load_workbook\<close>
  returns (\<open>None\<close> when it raises, which the route's \<open>except\<close> handles by
  dropping the imported data and the current selection). The workbook maps
  sheet names to sheets. The criteria and alternatives kept are the listed
  names found in the database, in the sheet's order; the matrices are sized by
  the listed names.\<close>

type_synonym workbook = "(string \<times> sheet) list"

definition name_to_id :: "(nat \<times> string) list \<Rightarrow> string \<Rightarrow> nat option" where
  "name_to_id rows = map_of (rev (map (\<lambda>(i, n). (n, i)) rows))"

definition known_tuples :: "(string \<Rightarrow> nat option) \<Rightarrow> string list \<Rightarrow> (nat \<times> string) list" where
  "known_tuples m names = map (\<lambda>n. (the (m n), n)) (filter (\<lambda>n. m n \<noteq> None) names)"

text \<open>The sheets \<open>MaTranTieuChi\<close> and \<open>TatCaMaTranPA\<close>, read once the
  selection \<open>s1\<close> is in the session; the imported criteria matrix is stored
  as soon as it is read.\<close>

definition import_matrices ::
  "workbook \<Rightarrow> string list \<Rightarrow> string list \<Rightarrow> flask_session \<Rightarrow> page \<times> flask_session" where
  "import_matrices wb criteria_names alternative_names s1 =
     (case map_of wb ''MaTranTieuChi'' of
        None \<Rightarrow> (Redirect HomeRoute, s1)
      | Some sheet_crit_matrix \<Rightarrow>
          (case parse_matrix_from_sheet sheet_crit_matrix criteria_names criteria_names of
             Inl _ \<Rightarrow> (Redirect HomeRoute, s1)
           | Inr M \<Rightarrow>
               (let s2 = s1\<lparr>s_imported_criteria := Some M\<rparr>
                in case map_of wb ''TatCaMaTranPA'' of
                     None \<Rightarrow> (Redirect HomeRoute, s2)
                   | Some sheet_all_pa \<Rightarrow>
                       (case scan_blocks sheet_all_pa criteria_names alternative_names 1 [] [] of
                          Inl _ \<Rightarrow> (Redirect HomeRoute, s2)
                        | Inr (imported, found) \<Rightarrow>
                            (if length found \<noteq> length criteria_names then (Redirect HomeRoute, s2)
                             else (StepsPage (the_list (s_criteria s2)) (the_list (s_alternatives s2)),
                                   s2\<lparr>s_imported_alternatives := Some imported, s_imported := True\<rparr>))))))"

text \<open>The body of the \<open>try\<close> block on a loaded workbook: the lists of
  sheet \<open>DanhSach\<close> (at least four criteria and three alternatives), the
  selection of the listed names found in the database, then the matrices.\<close>

definition import_workbook :: "workbook \<Rightarrow> app_state \<Rightarrow> page \<times> app_state" where
  "import_workbook wb st =
     (let (s, d) = st
      in case map_of wb ''DanhSach'' of
           None \<Rightarrow> (Redirect HomeRoute, s, d)
         | Some sheet_lists \<Rightarrow>
             (let criteria_names = list_column sheet_lists 1;
                  alternative_names = list_column sheet_lists 2;
                  criteria_name_to_id = name_to_id (get_criteria_from_db d);
                  alternative_name_to_id = name_to_id (get_all_alternatives d)
              in if length criteria_names < 4 then (Redirect HomeRoute, s, d)
                 else if length alternative_names < 3 then (Redirect HomeRoute, s, d)
                 else
                   (let s1 = s\<lparr>s_criteria := Some (known_tuples criteria_name_to_id criteria_names),
                               s_alternatives := Some (known_tuples alternative_name_to_id alternative_names)\<rparr>;
                        (p, s') = import_matrices wb criteria_names alternative_names s1
                    in (p, s', d))))"

definition import_excel_route ::
  "(string \<times> workbook option) option \<Rightarrow> app_state \<Rightarrow> page \<times> app_state" where
  "import_excel_route upload st =
     (let (s, d) = st
      in case upload of
           None \<Rightarrow> (Redirect HomeRoute, s, d)
         | Some (filename, wbo) \<Rightarrow>
             (if filename = [] then (Redirect HomeRoute, s, d)
              else if \<not> allowed_file filename then (Redirect HomeRoute, s, d)
              else case wbo of
                None \<Rightarrow>
                  (Redirect HomeRoute,
                   s\<lparr>s_imported := False, s_imported_criteria := None, s_imported_alternatives := None,
                     s_criteria := None, s_alternatives := None\<rparr>, d)
              | Some wb \<Rightarrow> import_workbook wb (s, d)))"

text \<open>\<open>calculate_criteria_route\<close>: the criteria matrix comes from the
  import when there is one (\<open>data_imported_from_excel\<close> and
  \<open>imported_criteria_matrix\<close>), otherwise from the form cells
  \<open>matrix[i][j]\<close>. A \<open>ValueError\<close> of the cell loop stores the
  input-error dictionary; an engine run stores its result, and a consistent
  result saves the weights (when there are any) and, for a matrix that was
  not imported, the matrix. The branch on \<open>specific_criteria_matrix_imported\<close>
  is not modelled: no route sets that key. The page shows the alternatives
  form only after a consistent result.\<close>

definition calculate_criteria_route :: "cells \<Rightarrow> app_state \<Rightarrow> page \<times> app_state" where
  "calculate_criteria_route form st =
     (let (s, d) = st;
          (sid, d1) = get_or_create_session_db_id (s_flask_id s) d
      in if \<not> py_id_true sid \<or> \<not> py_true (s_criteria s) \<or> \<not> py_true (s_alternatives s)
         then (Redirect HomeRoute, s, d1)
         else
           (let cts = the_list (s_criteria s); n_criteria = length cts;
                parsed = (if s_imported s \<and> s_imported_criteria s \<noteq> None
                          then Inr (the (s_imported_criteria s)) else build_matrix form n_criteria)
            in case parsed of
                 Inl e \<Rightarrow>
                   (let cres = CritInputError e n_criteria
                    in (CriteriaPage cres (get_sorted_criteria_with_weights cres cts) False,
                        s\<lparr>s_crit_results := Some cres\<rparr>, d1))
               | Inr M \<Rightarrow>
                   (let r = calculate_ahp M; cres = CritAhp r;
                        d2 = (case r of
                                Inr res \<Rightarrow>
                                  (if is_consistent res then
                                     (let d' = (if weights res \<noteq> []
                                                then snd (save_criteria_weights sid cts (Some (weights res)) d1)
                                                else d1)
                                      in if \<not> s_imported s
                                         then snd (save_criteria_comparison_matrix sid cts (map (map pf_val) M) d')
                                         else d')
                                   else d1)
                              | Inl _ \<Rightarrow> d1);
                        show_alternatives = (case r of Inr res \<Rightarrow> is_consistent res | Inl _ \<Rightarrow> False)
                    in (CriteriaPage cres (get_sorted_criteria_with_weights cres cts) show_alternatives,
                        s\<lparr>s_crit_results := Some cres\<rparr>, d2))))"

text \<open>What \<open>calculate_final_route\<close> reads from the session, and the
  matrices and dictionary it saves on success.\<close>

definition final_input_of :: "flask_session \<Rightarrow> nat option \<Rightarrow> (nat \<Rightarrow> cells) \<Rightarrow> final_input" where
  "final_input_of s sid alt_form =
     \<lparr>session_db_id = (if py_id_true sid then sid else None),
      criteria_tuples = the_list (s_criteria s), alternatives_tuples = the_list (s_alternatives s),
      criteria_ahp_results = s_crit_results s,
      alternatives_source = (if s_imported s \<and> s_imported_alternatives s \<noteq> None
                             then Imported (the (s_imported_alternatives s)) else FormCells alt_form)\<rparr>"

text \<open>\<open>alternative_local_scores_matrix_np\<close>, one row per alternative, from
  the columns the route fills.\<close>

definition local_rows :: "nat \<Rightarrow> nat \<Rightarrow> real list list \<Rightarrow> real list list" where
  "local_rows n_alternatives n_criteria cs =
     map (\<lambda>a. map (\<lambda>c. cs ! c ! a) [0..<n_criteria]) [0..<n_alternatives]"

fun crit_cr :: "crit_results \<Rightarrow> pyfloat option" where
  "crit_cr (CritAhp (Inr r)) = Some (CR r)"
| "crit_cr _ = None"

fun crit_consistent :: "crit_results \<Rightarrow> bool" where
  "crit_consistent (CritAhp (Inr r)) = is_consistent r"
| "crit_consistent _ = False"

definition result_data ::
  "final_input \<Rightarrow> real list list \<Rightarrow> real list \<Rightarrow> (string \<times> real) list \<Rightarrow> analysis_data" where
  "result_data inp cs scores ranked =
     (let cres = the (criteria_ahp_results inp); cts = criteria_tuples inp; ats = alternatives_tuples inp
      in \<lparr>ad_name = None, ad_criteria_names = map snd cts, ad_alternatives = map snd ats,
          ad_criteria_weights = crit_weights cres,
          ad_local_matrix = local_rows (length ats) (length cts) cs,
          ad_scores = scores, ad_ranked = ranked, ad_cr = crit_cr cres,
          ad_is_consistent = crit_consistent cres,
          ad_alt_crs = alt_results (alternatives_source inp) (length cts) (length ats),
          ad_notes = None\<rparr>)"

text \<open>The whole of \<open>calculate_final_route\<close>: the computation of
  \<open>Ranking\<close>, then on the result page the saves and the popped keys.\<close>

definition calculate_final_handler :: "(nat \<Rightarrow> cells) \<Rightarrow> app_state \<Rightarrow> page \<times> app_state" where
  "calculate_final_handler alt_form st =
     (let (s, d) = st;
          (sid, d1) = get_or_create_session_db_id (s_flask_id s) d;
          inp = final_input_of s sid alt_form
      in case calculate_final_route inp of
           RedirectHome \<Rightarrow> (Redirect HomeRoute, s, d1)
         | Ranked cs scores ranked \<Rightarrow>
             (let ats = alternatives_tuples inp; cts = criteria_tuples inp;
                  d2 = snd (save_alternative_scores sid ats cts (local_rows (length ats) (length cts) cs) d1);
                  (aid, d3) = save_ahp_analysis sid (result_data inp cs scores ranked) d2
              in (FinalPage (Ranked cs scores ranked) aid, pop_run_keys s, d3))
         | out \<Rightarrow> (FinalPage out None, s, d1))"

definition history_list_route :: "app_state \<Rightarrow> page \<times> app_state" where
  "history_list_route st =
     (let (s, d) = st;
          (sid, d1) = (if py_true (s_flask_id s) then get_or_create_session_db_id (s_flask_id s) d
                       else (None, d))
      in if \<not> py_id_true sid \<and> \<not> py_true (s_flask_id s) then (Redirect HomeRoute, s, d1)
         else (HistoryPage (if py_id_true sid then get_ahp_analyses_by_session_db_id sid d1 else []), s, d1))"

definition view_result_route :: "nat \<Rightarrow> app_state \<Rightarrow> page \<times> app_state" where
  "view_result_route analysis_id st =
     (let (s, d) = st;
          (sid, d1) = (if py_true (s_flask_id s) then get_or_create_session_db_id (s_flask_id s) d
                       else (None, d))
      in if \<not> py_id_true sid then (Redirect HistoryRoute, s, d1)
         else case get_ahp_analysis_by_id (Some analysis_id) sid d1 of
                Some r \<Rightarrow> (ResultPage r, s, d1)
              | None \<Rightarrow> (Redirect HistoryRoute, s, d1))"

section \<open>Requests\<close>

datatype request =
    HomeReq string
  | AddCriteriaReq string
  | AddAlternativeReq string
  | StartAhpReq "string list" "string list"
  | ImportExcelReq "(string \<times> workbook option) option"
  | CalculateCriteriaReq cells
  | CalculateFinalReq "nat \<Rightarrow> cells"
  | HistoryReq
  | ViewResultReq nat

fun handle :: "request \<Rightarrow> app_state \<Rightarrow> page \<times> app_state" where
  "handle (HomeReq u) st = home u st"
| "handle (AddCriteriaReq n) st = add_criteria_route n st"
| "handle (AddAlternativeReq n) st = add_alternative_route n st"
| "handle (StartAhpReq cs als) st = start_ahp_route cs als st"
| "handle (ImportExcelReq up) st = import_excel_route up st"
| "handle (CalculateCriteriaReq f) st = calculate_criteria_route f st"
| "handle (CalculateFinalReq f) st = calculate_final_handler f st"
| "handle HistoryReq st = history_list_route st"
| "handle (ViewResultReq a) st = view_result_route a st"

text \<open>A run of requests, with the pages shown.\<close>

fun run :: "request list \<Rightarrow> app_state \<Rightarrow> page list \<times> app_state" where
  "run [] st = ([], st)"
| "run (rq # rqs) st = (let (p, st') = handle rq st; (ps, st'') = run rqs st' in (p # ps, st''))"

text \<open>The states a browser session reaches from a fresh session on the
  empty database.\<close>

inductive reach :: "app_state \<Rightarrow> bool" where
  reach_init: "reach (empty_session, empty_db)"
| reach_step: "reach st \<Longrightarrow> reach (snd (handle rq st))"

section \<open>Invariants\<close>

text \<open>The import keys come together: when \<open>data_imported_from_excel\<close> is
  set, both imported matrices and the current selection are in the
  session.\<close>

definition session_wf :: "flask_session \<Rightarrow> bool" where
  "session_wf s \<longleftrightarrow>
     (s_imported s \<longrightarrow> s_imported_criteria s \<noteq> None \<and> s_imported_alternatives s \<noteq> None \<and>
                       s_criteria s \<noteq> None \<and> s_alternatives s \<noteq> None)"

section \<open>Lemmas\<close>

lemma get_or_create_wf_snd:
  "db_wf d \<Longrightarrow> get_or_create_session_db_id x d = (sid, d') \<Longrightarrow> db_wf d'"
  using get_or_create_wf [of d x] by simp

lemma home_wf: "db_wf d \<Longrightarrow> session_wf s \<Longrightarrow> home u (s, d) = (p, s', d') \<Longrightarrow> db_wf d' \<and> session_wf s'"
  by (auto simp: home_def Let_def session_wf_def pop_run_keys_def)

lemma add_routes_wf:
  "db_wf d \<Longrightarrow> add_criteria_route n (s, d) = (p, s', d') \<Longrightarrow> db_wf d' \<and> s' = s"
  "db_wf d \<Longrightarrow> add_alternative_route n (s, d) = (p, s', d') \<Longrightarrow> db_wf d' \<and> s' = s"
  by (auto simp: add_criteria_route_def add_alternative_route_def Let_def add_criteria_wf add_alternative_wf
      split: if_splits)

lemma start_ahp_wf:
  "session_wf s \<Longrightarrow> start_ahp_route cs als (s, d) = (p, s', d') \<Longrightarrow> d' = d \<and> session_wf s'"
  by (auto simp: start_ahp_route_def Let_def session_wf_def pop_run_keys_def split: if_splits)

lemma import_matrices_wf:
  assumes "session_wf s1" "s_criteria s1 \<noteq> None" "s_alternatives s1 \<noteq> None"
  shows "session_wf (snd (import_matrices wb cn an s1))"
proof (cases "map_of wb ''MaTranTieuChi''")
  case (Some sh)
  show ?thesis
  proof (cases "parse_matrix_from_sheet sh cn cn")
    case (Inr M)
    have w2: "session_wf (s1\<lparr>s_imported_criteria := Some M\<rparr>)"
      using assms by (simp add: session_wf_def)
    show ?thesis
    proof (cases "map_of wb ''TatCaMaTranPA''")
      case (Some sh2)
      show ?thesis
      proof (cases "scan_blocks sh2 cn an 1 [] []")
        case (Inr res)
        then obtain imp found where "res = (imp, found)" by fastforce
        with Some \<open>map_of wb ''MaTranTieuChi'' = Some sh\<close> Inr \<open>parse_matrix_from_sheet sh cn cn = Inr M\<close>
          w2 assms(2,3)
        show ?thesis by (simp add: import_matrices_def session_wf_def Let_def)
      qed (use Some \<open>map_of wb ''MaTranTieuChi'' = Some sh\<close> Inr w2 in \<open>simp add: import_matrices_def Let_def\<close>)
    qed (use Some Inr w2 in \<open>simp add: import_matrices_def Let_def\<close>)
  qed (use Some assms(1) in \<open>simp add: import_matrices_def\<close>)
qed (use assms(1) in \<open>simp add: import_matrices_def\<close>)

lemma import_workbook_wf:
  assumes "session_wf s" "import_workbook wb (s, d) = (p, s', d')"
  shows "d' = d \<and> session_wf s'"
proof (cases "map_of wb ''DanhSach''")
  case (Some sh)
  let ?s1 = "s\<lparr>s_criteria := Some (known_tuples (name_to_id (get_criteria_from_db d)) (list_column sh 1)),
               s_alternatives := Some (known_tuples (name_to_id (get_all_alternatives d)) (list_column sh 2))\<rparr>"
  have "session_wf ?s1" using assms(1) by (simp add: session_wf_def)
  hence "session_wf (snd (import_matrices wb (list_column sh 1) (list_column sh 2) ?s1))"
    by (rule import_matrices_wf) simp_all
  with Some assms show ?thesis
    by (auto simp: import_workbook_def Let_def split: if_splits prod.splits)
qed (use assms in \<open>simp add: import_workbook_def\<close>)

lemma import_wf:
  assumes "session_wf s" "import_excel_route up (s, d) = (p, s', d')"
  shows "d' = d \<and> session_wf s'"
  using assms import_workbook_wf [OF assms(1)]
  by (auto simp: import_excel_route_def session_wf_def split: option.splits if_splits prod.splits)

lemma calculate_criteria_wf:
  assumes "db_wf d" "calculate_criteria_route f (s, d) = (p, s', d')"
  shows "db_wf d' \<and> s_imported s' = s_imported s \<and> s_imported_criteria s' = s_imported_criteria s \<and>
         s_imported_alternatives s' = s_imported_alternatives s \<and> s_criteria s' = s_criteria s \<and>
         s_alternatives s' = s_alternatives s"
proof -
  obtain sid d1 where g: "get_or_create_session_db_id (s_flask_id s) d = (sid, d1)" by fastforce
  have w1: "db_wf d1" using get_or_create_wf_snd [OF assms(1) g] .
  show ?thesis
    using assms(2) w1
    by (auto simp: calculate_criteria_route_def Let_def g save_criteria_weights_wf
        save_criteria_comparison_matrix_wf split: if_splits sum.splits)
qed

lemma calculate_final_wf:
  assumes "db_wf d" "session_wf s" "calculate_final_handler f (s, d) = (p, s', d')"
  shows "db_wf d' \<and> session_wf s'"
proof -
  obtain sid d1 where g: "get_or_create_session_db_id (s_flask_id s) d = (sid, d1)" by fastforce
  have w1: "db_wf d1" using get_or_create_wf_snd [OF assms(1) g] .
  show ?thesis
  proof (cases "calculate_final_route (final_input_of s sid f)")
    case (Ranked cs scores ranked)
    let ?inp = "final_input_of s sid f"
    let ?d2 = "snd (save_alternative_scores sid (alternatives_tuples ?inp) (criteria_tuples ?inp)
                 (local_rows (length (alternatives_tuples ?inp)) (length (criteria_tuples ?inp)) cs) d1)"
    have w2: "db_wf ?d2" using w1 by (rule save_alternative_scores_wf)
    have "db_wf (snd (save_ahp_analysis sid (result_data ?inp cs scores ranked) ?d2))"
      using w2 by (rule save_ahp_analysis_wf)
    with Ranked assms(2,3) g show ?thesis
      by (auto simp: calculate_final_handler_def Let_def session_wf_def pop_run_keys_def split: prod.splits)
  qed (use assms g w1 in \<open>auto simp: calculate_final_handler_def Let_def\<close>)
qed

lemma history_view_wf:
  "db_wf d \<Longrightarrow> history_list_route (s, d) = (p, s', d') \<Longrightarrow> db_wf d' \<and> s' = s"
  "db_wf d \<Longrightarrow> view_result_route a (s, d) = (p, s', d') \<Longrightarrow> db_wf d' \<and> s' = s"
  by (auto simp: history_list_route_def view_result_route_def Let_def get_or_create_wf_snd
      split: if_splits prod.splits option.splits)

lemma handle_wf:
  assumes "db_wf d" "session_wf s" "handle rq (s, d) = (p, s', d')"
  shows "db_wf d' \<and> session_wf s'"
proof (cases rq)
  case (HomeReq u)
  from assms(3) have "home u (s, d) = (p, s', d')" by (simp add: HomeReq)
  from home_wf [OF assms(1,2) this] show ?thesis .
next
  case (AddCriteriaReq n)
  from assms(3) have "add_criteria_route n (s, d) = (p, s', d')" by (simp add: AddCriteriaReq)
  from add_routes_wf(1) [OF assms(1) this] assms(2) show ?thesis by simp
next
  case (AddAlternativeReq n)
  from assms(3) have "add_alternative_route n (s, d) = (p, s', d')" by (simp add: AddAlternativeReq)
  from add_routes_wf(2) [OF assms(1) this] assms(2) show ?thesis by simp
next
  case (StartAhpReq cs als)
  from assms(3) have "start_ahp_route cs als (s, d) = (p, s', d')" by (simp add: StartAhpReq)
  from start_ahp_wf [OF assms(2) this] assms(1) show ?thesis by simp
next
  case (ImportExcelReq up)
  from assms(3) have "import_excel_route up (s, d) = (p, s', d')" by (simp add: ImportExcelReq)
  from import_wf [OF assms(2) this] assms(1) show ?thesis by simp
next
  case (CalculateCriteriaReq f)
  from assms(3) have "calculate_criteria_route f (s, d) = (p, s', d')" by (simp add: CalculateCriteriaReq)
  from calculate_criteria_wf [OF assms(1) this] assms(2) show ?thesis
    unfolding session_wf_def by simp
next
  case (CalculateFinalReq f)
  from assms(3) have "calculate_final_handler f (s, d) = (p, s', d')" by (simp add: CalculateFinalReq)
  from calculate_final_wf [OF assms(1,2) this] show ?thesis .
next
  case HistoryReq
  from assms(3) have "history_list_route (s, d) = (p, s', d')" by (simp add: HistoryReq)
  from history_view_wf(1) [OF assms(1) this] assms(2) show ?thesis by simp
next
  case (ViewResultReq a)
  from assms(3) have "view_result_route a (s, d) = (p, s', d')" by (simp add: ViewResultReq)
  from history_view_wf(2) [OF assms(1) this] assms(2) show ?thesis by simp
qed

subsection \<open>A complete run on judgments of equal importance\<close>

lemma parse_one_cases:
  "parse_saaty_value (py_strip ''1'') True = Inr 1" "parse_saaty_value (py_strip ''1'') False = Inr 1"
  by code_simp+

lemma parse_one: "parse_saaty_value (py_strip ''1'') b = Inr 1"
  using parse_one_cases by (cases b) simp_all

lemma build_matrix_ones: "build_matrix (\<lambda>i j. Some ''1'') n = Inr (replicate n (replicate n (PFin 1)))"
proof -
  let ?f = "\<lambda>i j::nat. Some ''1''"
  have "cell_check ?f (i, j) = None" for i j
    using parse_one by (simp add: cell_value_def)
  hence fe: "first_error ?f (List.product [0..<n] [0..<n]) = None"
    by (simp add: first_error_None)
  have te: "target_entry ?f a b = PFin 1" for a b
    by (simp add: target_entry_def upper_val_def cell_value_def parse_one mirror_value_def)
  have "tab n (\<lambda>a b. if (min a b, max a b) \<in> set (List.product [0..<n] [0..<n])
                        then target_entry ?f a b else PFin 1) = tab n (\<lambda>a b. PFin 1)"
    by (rule tab_cong) (simp add: te)
  thus ?thesis by (simp add: build_matrix_loop fe tab_const)
qed

lemma calculate_ahp_ones:
  assumes "0 < n"
  obtains r where "calculate_ahp (replicate n (replicate n (PFin 1))) = Inr r"
    "weights r = replicate n (1 / real n)" "is_consistent r" "CR r = PFin 0"
proof -
  have "ratio_matrix (replicate n 1) = tab n (\<lambda>i j. PFin 1)"
    unfolding ratio_matrix_def length_replicate by (rule tab_cong) simp
  then have m: "ratio_matrix (replicate n 1) = replicate n (replicate n (PFin 1))"
    by (simp add: tab_const)
  show ?thesis
    using ratio_matrix_result [of "replicate n 1"] assms that by (simp add: m map_replicate_const) blast
qed

lemma final_route_ones:
  assumes "session_db_id inp = Some i" "criteria_ahp_results inp = Some (CritAhp (Inr r))"
    "criteria_tuples inp \<noteq> []" "alternatives_tuples inp \<noteq> []" "is_consistent r"
    "length (weights r) = length (criteria_tuples inp)"
    "alternatives_source inp = FormCells (\<lambda>c i j. Some ''1'')"
  shows "\<exists>cs sc rk. calculate_final_route inp = Ranked cs sc rk"
proof -
  let ?n = "length (criteria_tuples inp)" and ?m = "length (alternatives_tuples inp)"
  have m: "0 < ?m" using assms(4) by simp
  obtain r' where r': "calculate_ahp (replicate ?m (replicate ?m (PFin 1))) = Inr r'"
    "weights r' = replicate ?m (1 / real ?m)" "is_consistent r'"
    using calculate_ahp_ones [OF m] by metis
  have ar: "alt_result_form (\<lambda>c i j. Some ''1'') ?m c = AltAhp (Inr r')" for c
    by (simp add: alt_result_form_def build_alt_matrix_def build_matrix_ones r'(1))
  let ?a0 = "\<lparr>cols = replicate ?n (replicate ?m 0), critical = False, inconsistent = False\<rparr>"
  let ?rs = "alt_results (alternatives_source inp) ?n ?m"
  have rs: "?rs = map (\<lambda>c. (c, AltAhp (Inr r'))) [0..<?n]"
    by (simp add: assms(7) ar)
  have "\<forall>(c, x)\<in>set ?rs. c < length (cols ?a0) \<and> (alt_weights x = [] \<or> length (alt_weights x) = ?m)"
    by (auto simp: rs r'(2))
  from accumulate_ok [OF this] obtain a where acc: "accumulate ?m ?rs ?a0 = Inr a"
    and fl: "\<not> critical a" "\<not> inconsistent a"
    using m by (auto simp: rs r'(2,3))
  have "weights r \<noteq> []" using assms(3,6) by auto
  note route = calculate_final_route_cases [OF assms(1,2,3,4,5) this]
  show ?thesis using acc fl assms(6) by (simp add: route Let_def)
qed

lemma select_items_by_ids_length:
  assumes "distinct (map fst rows)" "distinct ids" "ids \<noteq> []" "set ids \<subseteq> int ` fst ` set rows"
  shows "length (select_items_by_ids ids rows) = length ids"
proof -
  let ?P = "\<lambda>r :: item_row. int (fst r) \<in> set ids"
  have dr: "distinct rows" using assms(1) by (simp add: distinct_map)
  have "length (select_items_by_ids ids rows) = length (filter ?P rows)"
    using assms(3) by (simp add: select_items_by_ids_def select_items_def split_def)
  also have "\<dots> = card (set (filter ?P rows))"
    by (rule distinct_card [symmetric]) (rule distinct_filter [OF dr])
  also have "\<dots> = card ((\<lambda>r. int (fst r)) ` set (filter ?P rows))"
  proof (rule card_image [symmetric])
    have "inj_on fst (set rows)" using assms(1) by (simp add: distinct_map)
    thus "inj_on (\<lambda>r. int (fst r)) (set (filter ?P rows))"
      by (auto simp: inj_on_def)
  qed
  also have "(\<lambda>r. int (fst r)) ` set (filter ?P rows) = set ids"
    using assms(4) by force
  also have "card (set ids) = length ids" using assms(2) by (rule distinct_card)
  finally show ?thesis .
qed

lemma get_or_create_Some:
  assumes "db_wf d" "u \<noteq> []"
  obtains k d' where "get_or_create_session_db_id (Some u) d = (Some k, d')" "0 < k" "db_wf d'"
    "get_or_create_session_db_id (Some u) d' = (Some k, d')"
proof -
  obtain i d' where g: "get_or_create_session_db_id (Some u) d = (i, d')" by fastforce
  from get_or_create_again [OF assms g] get_or_create_wf_snd [OF assms(1) g] g that show ?thesis by blast
qed

lemma home_ok:
  assumes "s_flask_id s \<noteq> Some []" "u \<noteq> []"
  obtains v s' where "home u (s, d) = (HomePage (get_criteria_from_db d) (get_all_alternatives d), s', d)"
    "s_flask_id s' = Some v" "v \<noteq> []" "\<not> s_imported s'"
proof -
  obtain p s' d' where h: "home u (s, d) = (p, s', d')" by (metis prod.exhaust)
  have "p = HomePage (get_criteria_from_db d) (get_all_alternatives d)" "d' = d" "\<not> s_imported s'"
    using h by (auto simp: home_def Let_def pop_run_keys_def)
  moreover have "\<exists>v. s_flask_id s' = Some v \<and> v \<noteq> []"
    using h assms by (cases "s_flask_id s") (auto simp: home_def Let_def pop_run_keys_def)
  ultimately show ?thesis using h that by blast
qed

lemma start_ahp_ok:
  assumes "s_flask_id s \<noteq> None" "map py_int cs = map Some cids" "map py_int als = map Some aids"
    "3 \<le> length cids" "2 \<le> length aids"
    "length (get_criteria_by_ids cids d) = length cids" "length (get_alternatives_by_ids aids d) = length aids"
  shows "start_ahp_route cs als (s, d) =
           (StepsPage (get_criteria_by_ids cids d) (get_alternatives_by_ids aids d),
            (pop_run_keys s)\<lparr>s_criteria := Some (get_criteria_by_ids cids d),
                              s_alternatives := Some (get_alternatives_by_ids aids d)\<rparr>, d)"
proof -
  have "map (the \<circ> py_int) cs = cids" "map (the \<circ> py_int) als = aids"
    using arg_cong [OF assms(2), of "map the"] arg_cong [OF assms(3), of "map the"] by (simp_all add: comp_def)
  moreover have "None \<notin> set (map py_int cs)" "None \<notin> set (map py_int als)"
    by (simp_all only: assms(2,3)) auto
  moreover have "length cs = length cids" "length als = length aids"
    using arg_cong [OF assms(2), of length] arg_cong [OF assms(3), of length] by simp_all
  ultimately show ?thesis
    using assms(1,4-7) by (simp add: start_ahp_route_def Let_def)
qed

lemma calculate_criteria_ones:
  assumes "db_wf d" "s_flask_id s = Some u" "u \<noteq> []" "s_criteria s = Some cts" "cts \<noteq> []"
    "py_true (s_alternatives s)" "\<not> s_imported s"
  obtains r p d' where "calculate_criteria_route (\<lambda>i j. Some ''1'') (s, d) =
      (p, s\<lparr>s_crit_results := Some (CritAhp (Inr r))\<rparr>, d')" "db_wf d'"
    "is_consistent r" "weights r = replicate (length cts) (1 / real (length cts))" "CR r = PFin 0"
proof -
  obtain k d1 where g: "get_or_create_session_db_id (Some u) d = (Some k, d1)" "0 < k"
    using get_or_create_Some [OF assms(1,3)] by metis
  obtain r where r: "calculate_ahp (replicate (length cts) (replicate (length cts) (PFin 1))) = Inr r"
    "weights r = replicate (length cts) (1 / real (length cts))" "is_consistent r" "CR r = PFin 0"
    using calculate_ahp_ones [of "length cts"] assms(5) by auto
  obtain p s' d' where c: "calculate_criteria_route (\<lambda>i j. Some ''1'') (s, d) = (p, s', d')"
    by (metis prod.exhaust)
  have "s' = s\<lparr>s_crit_results := Some (CritAhp (Inr r))\<rparr>"
    using c g assms(2,4-7) r(1)
    by (auto simp: calculate_criteria_route_def Let_def py_id_true_def py_true_def the_list_def
        build_matrix_ones split: if_splits)
  moreover have "db_wf d'" using calculate_criteria_wf [OF assms(1) c] by simp
  ultimately show ?thesis using that c r(2-4) by blast
qed

lemma calculate_final_ones:
  assumes "db_wf d" "s_flask_id s = Some u" "u \<noteq> []" "s_criteria s = Some cts" "cts \<noteq> []"
    "s_alternatives s = Some ats" "ats \<noteq> []" "\<not> s_imported s"
    "s_crit_results s = Some (CritAhp (Inr r))" "is_consistent r" "length (weights r) = length cts"
    "pf_finite (CR r)"
  shows "\<exists>cs sc rk aid st'. calculate_final_handler (\<lambda>c i j. Some ''1'') (s, d) =
           (FinalPage (Ranked cs sc rk) (Some aid), st')"
proof -
  obtain k d1 where g: "get_or_create_session_db_id (Some u) d = (Some k, d1)" "0 < k"
    using get_or_create_Some [OF assms(1,3)] by metis
  let ?inp = "final_input_of s (Some k) (\<lambda>c i j. Some ''1'')"
  obtain cs sc rk where rt: "calculate_final_route ?inp = Ranked cs sc rk"
    using final_route_ones [of ?inp k r] g(2) assms(4-11)
    by (auto simp: final_input_of_def py_id_true_def the_list_def)
  have cr: "crit_cr (the (criteria_ahp_results ?inp)) = Some (CR r)"
    using assms(9) by (simp add: final_input_of_def)
  show ?thesis
    using g rt cr assms(2,12)
    by (auto simp: calculate_final_handler_def Let_def save_ahp_analysis_def py_id_true_def result_data_def
        split: prod.splits)
qed

section \<open>Properties of the application\<close>

text \<open>Claim C12. Every state a browser session reaches, from a fresh
  session on the empty database and by any sequence of requests to the
  routes, has a well-formed database and a session whose import keys come
  together.\<close>

theorem reach_invariant:
  assumes "reach st"
  shows "db_wf (snd st) \<and> session_wf (fst st)"
  using assms
proof (induction rule: reach.induct)
  case reach_init
  show ?case by (simp add: db_wf_empty session_wf_def empty_session_def)
next
  case (reach_step st rq)
  obtain s d where st: "st = (s, d)" by fastforce
  obtain p s' d' where h: "handle rq (s, d) = (p, s', d')" by (metis prod.exhaust)
  from handle_wf [OF _ _ h] reach_step.IH show ?case by (simp add: st h)
qed

text \<open>Claim C11. Liveness of an AHP session: from any session state, on a
  well-formed database holding the selected criteria and alternatives, the
  sequence of requests home, start (at least three criteria and two
  alternatives, every id parsed by \<open>int\<close> and found), criteria matrix
  and alternative matrices with every judgment \<open>"1"\<close>, ends on the result
  page with a ranking and the id under which the analysis was saved.\<close>

theorem ahp_session_reaches_ranking:
  assumes wf: "db_wf d" and u: "u \<noteq> []" and fid: "s_flask_id s \<noteq> Some []"
    and cs: "map py_int cs = map Some cids" "distinct cids" "3 \<le> length cids"
      "set cids \<subseteq> int ` fst ` set (criteria_tbl d)"
    and als: "map py_int als = map Some aids" "distinct aids" "2 \<le> length aids"
      "set aids \<subseteq> int ` fst ` set (alternatives_tbl d)"
  shows "\<exists>ps cols sc rk aid st'.
           run [HomeReq u, StartAhpReq cs als, CalculateCriteriaReq (\<lambda>i j. Some ''1''),
                CalculateFinalReq (\<lambda>c i j. Some ''1'')] (s, d) = (ps, st') \<and>
           last ps = FinalPage (Ranked cols sc rk) (Some aid)"
proof -
  obtain v s1 where h1: "home u (s, d) = (HomePage (get_criteria_from_db d) (get_all_alternatives d), s1, d)"
    and s1: "s_flask_id s1 = Some v" "v \<noteq> []" "\<not> s_imported s1"
    using home_ok [OF fid u] by metis
  let ?ct = "get_criteria_by_ids cids d" and ?at = "get_alternatives_by_ids aids d"
  have dk: "distinct (map fst (criteria_tbl d))" "distinct (map fst (alternatives_tbl d))"
    using wf by (simp_all add: db_wf_def items_wf_def)
  have lc: "length ?ct = length cids"
    unfolding get_criteria_by_ids_def using cs(2-4) dk(1) by (intro select_items_by_ids_length) auto
  have la: "length ?at = length aids"
    unfolding get_alternatives_by_ids_def using als(2-4) dk(2) by (intro select_items_by_ids_length) auto
  define s2 where "s2 = (pop_run_keys s1)\<lparr>s_criteria := Some ?ct, s_alternatives := Some ?at\<rparr>"
  have h2: "start_ahp_route cs als (s1, d) = (StepsPage ?ct ?at, s2, d)"
    unfolding s2_def using start_ahp_ok [OF _ cs(1) als(1) cs(3) als(3) lc la] s1(1) by simp
  have ne: "?ct \<noteq> []" "?at \<noteq> []" using lc la cs(3) als(3) by auto
  have f2: "s_flask_id s2 = Some v" "s_criteria s2 = Some ?ct" "s_alternatives s2 = Some ?at"
    "\<not> s_imported s2" "py_true (s_alternatives s2)"
    using s1 ne by (simp_all add: s2_def pop_run_keys_def py_true_def)
  obtain r p3 d3 where h3: "calculate_criteria_route (\<lambda>i j. Some ''1'') (s2, d) =
      (p3, s2\<lparr>s_crit_results := Some (CritAhp (Inr r))\<rparr>, d3)" and w3: "db_wf d3"
    and r: "is_consistent r" "weights r = replicate (length ?ct) (1 / real (length ?ct))" "CR r = PFin 0"
    by (rule calculate_criteria_ones [OF wf f2(1) s1(2) f2(2) ne(1) f2(5) f2(4)])
  let ?s3 = "s2\<lparr>s_crit_results := Some (CritAhp (Inr r))\<rparr>"
  have f3: "s_flask_id ?s3 = Some v" "s_criteria ?s3 = Some ?ct" "s_alternatives ?s3 = Some ?at"
    "\<not> s_imported ?s3" "s_crit_results ?s3 = Some (CritAhp (Inr r))"
    using f2 by simp_all
  have "length (weights r) = length ?ct" "pf_finite (CR r)" using r by simp_all
  from calculate_final_ones [OF w3 f3(1) s1(2) f3(2) ne(1) f3(3) ne(2) f3(4) f3(5) r(1) this]
  obtain cols sc rk aid st' where h4: "calculate_final_handler (\<lambda>c i j. Some ''1'') (?s3, d3) =
      (FinalPage (Ranked cols sc rk) (Some aid), st')" by blast
  show ?thesis using h1 h2 h3 h4 by auto
qed

text \<open>Claim C15. The result page of the history shows only analyses of the
  browser's own session: a page for \<open>analysis_id\<close> is rendered only when
  the Flask session id maps to a database session that owns a stored
  analysis with that id, and the session dictionary is left unchanged.\<close>

theorem view_result_own_session:
  assumes "view_result_route aid (s, d) = (ResultPage r, s', d')"
  shows "\<exists>u k. s_flask_id s = Some u \<and> get_or_create_session_db_id (Some u) d = (Some k, d') \<and>
           an_session r = k \<and> an_id r = aid \<and> r \<in> set (analyses_tbl d') \<and> s' = s"
proof -
  obtain sid d1 where g: "(if py_true (s_flask_id s) then get_or_create_session_db_id (s_flask_id s) d
                           else (None, d)) = (sid, d1)" by fastforce
  from assms g have t: "py_id_true sid" "get_ahp_analysis_by_id (Some aid) sid d1 = Some r" "d' = d1" "s' = s"
    by (auto simp: view_result_route_def Let_def split: if_splits option.splits)
  then obtain k where k: "sid = Some k" by (cases sid) (auto simp: py_id_true_def)
  have "py_true (s_flask_id s)" using g t(1) by (auto simp: py_id_true_def split: if_splits)
  then obtain u where u: "s_flask_id s = Some u" by (cases "s_flask_id s") (auto simp: py_true_def)
  from t(2) k have "find (\<lambda>x. Some (an_id x) = Some aid \<and> an_session x = k) (analyses_tbl d1) = Some r"
    using t(1) by (simp add: get_ahp_analysis_by_id_def py_id_true_def split: if_splits)
  hence "r \<in> set (analyses_tbl d1) \<and> an_id r = aid \<and> an_session r = k"
    by (auto simp: find_Some_iff)
  with g u k t(3,4) \<open>py_true (s_flask_id s)\<close> show ?thesis by auto
qed

lemma import_matrices_StepsD:
  assumes "import_matrices wb cn an s1 = (StepsPage c a, s')"
  shows "s_imported s' \<and> s_criteria s' = s_criteria s1 \<and> s_alternatives s' = s_alternatives s1 \<and>
         s_crit_results s' = s_crit_results s1 \<and> c = the_list (s_criteria s1) \<and> a = the_list (s_alternatives s1)"
proof -
  obtain sh M sh2 imp found where
    h: "map_of wb ''MaTranTieuChi'' = Some sh" "parse_matrix_from_sheet sh cn cn = Inr M"
       "map_of wb ''TatCaMaTranPA'' = Some sh2" "scan_blocks sh2 cn an 1 [] [] = Inr (imp, found)"
       "length found = length cn"
  proof (cases "map_of wb ''MaTranTieuChi''")
    case (Some sh)
    show ?thesis
    proof (cases "parse_matrix_from_sheet sh cn cn")
      case (Inr M)
      show ?thesis
      proof (cases "map_of wb ''TatCaMaTranPA''")
        case (Some sh2)
        show ?thesis
        proof (cases "scan_blocks sh2 cn an 1 [] []")
          case (Inr res)
          obtain imp found where res: "res = (imp, found)" by fastforce
          have "length found = length cn"
            using assms \<open>map_of wb ''MaTranTieuChi'' = Some sh\<close> \<open>parse_matrix_from_sheet sh cn cn = Inr M\<close>
              Some Inr res by (auto simp: import_matrices_def Let_def split: if_splits)
          with that \<open>map_of wb ''MaTranTieuChi'' = Some sh\<close> \<open>parse_matrix_from_sheet sh cn cn = Inr M\<close>
            Some Inr res show ?thesis by blast
        qed (use assms \<open>map_of wb ''MaTranTieuChi'' = Some sh\<close> Inr Some in \<open>simp add: import_matrices_def Let_def\<close>)
      qed (use assms Some Inr in \<open>simp add: import_matrices_def Let_def\<close>)
    qed (use assms Some in \<open>simp add: import_matrices_def\<close>)
  qed (use assms in \<open>simp add: import_matrices_def\<close>)
  with assms show ?thesis by (auto simp: import_matrices_def Let_def simp del: scan_blocks.simps)
qed

lemma import_workbook_StepsD:
  assumes "import_workbook wb (s, d) = (StepsPage c a, s', d')"
  shows "d' = d \<and> s_imported s' \<and> s_criteria s' = Some c \<and> s_alternatives s' = Some a \<and>
         s_crit_results s' = s_crit_results s"
proof (cases "map_of wb ''DanhSach''")
  case (Some sh)
  let ?s1 = "s\<lparr>s_criteria := Some (known_tuples (name_to_id (get_criteria_from_db d)) (list_column sh 1)),
               s_alternatives := Some (known_tuples (name_to_id (get_all_alternatives d)) (list_column sh 2))\<rparr>"
  obtain p s'' where im: "import_matrices wb (list_column sh 1) (list_column sh 2) ?s1 = (p, s'')"
    by fastforce
  have "p = StepsPage c a \<and> s'' = s' \<and> d' = d"
    using assms Some im by (simp add: import_workbook_def Let_def split: if_splits)
  with import_matrices_StepsD [of wb "list_column sh 1" "list_column sh 2" ?s1 c a s'] im
  show ?thesis by (simp add: the_list_def)
qed (use assms in \<open>simp add: import_workbook_def\<close>)

text \<open>Claim C37. A successful Excel import replaces the selection and marks
  the session as imported but keeps the criteria results of an earlier run:
  \<open>import_excel_route\<close> never pops \<open>criteria_ahp_results\<close>, and the final
  step reads them for the new criteria.\<close>

theorem import_keeps_criteria_results:
  assumes "import_excel_route up (s, d) = (StepsPage cts ats, s', d')"
  shows "s_imported s' \<and> s_criteria s' = Some cts \<and> s_alternatives s' = Some ats \<and> d' = d \<and>
         s_crit_results s' = s_crit_results s \<and>
         criteria_ahp_results (final_input_of s' sid f) = s_crit_results s"
proof -
  obtain filename wb where "up = Some (filename, Some wb)" "import_workbook wb (s, d) = (StepsPage cts ats, s', d')"
    using assms by (auto simp: import_excel_route_def split: option.splits if_splits)
  from import_workbook_StepsD [OF this(2)] show ?thesis by (simp add: final_input_of_def)
qed

text \<open>Claim C39. A criteria form with a missing or refused cell: the route
  stores the input-error result with uniform weights, shows no alternatives
  form and writes nothing but the session row; the final step then refuses
  to rank.\<close>

theorem calculate_criteria_input_error:
  assumes "get_or_create_session_db_id (s_flask_id s) d = (Some k, d1)" "0 < k"
    "s_criteria s = Some cts" "cts \<noteq> []" "py_true (s_alternatives s)"
    "\<not> (s_imported s \<and> s_imported_criteria s \<noteq> None)" "build_matrix form (length cts) = Inl e"
  shows "calculate_criteria_route form (s, d) =
           (CriteriaPage (CritInputError e (length cts))
              (get_sorted_criteria_with_weights (CritInputError e (length cts)) cts) False,
            s\<lparr>s_crit_results := Some (CritInputError e (length cts))\<rparr>, d1) \<and>
         calculate_final_route (final_input_of (s\<lparr>s_crit_results := Some (CritInputError e (length cts))\<rparr>)
           (Some k) f) = CriteriaNotReady"
proof -
  have "calculate_criteria_route form (s, d) =
           (CriteriaPage (CritInputError e (length cts))
              (get_sorted_criteria_with_weights (CritInputError e (length cts)) cts) False,
            s\<lparr>s_crit_results := Some (CritInputError e (length cts))\<rparr>, d1)"
    using assms by (auto simp: calculate_criteria_route_def Let_def py_id_true_def py_true_def the_list_def)
  moreover have "calculate_final_route (final_input_of (s\<lparr>s_crit_results := Some (CritInputError e (length cts))\<rparr>)
           (Some k) f) = CriteriaNotReady"
    using assms(2-5) by (auto simp: calculate_final_route_def final_input_of_def py_id_true_def py_true_def
        the_list_def split: option.splits)
  ultimately show ?thesis ..
qed

section \<open>Witnesses\<close>

theorem reach_invariant_witness:
  "db_wf (snd (snd (handle (AddCriteriaReq '' Cost '') (snd (handle (HomeReq ''u1'') (empty_session, empty_db)))))) \<and>
   session_wf (fst (snd (handle (AddCriteriaReq '' Cost '') (snd (handle (HomeReq ''u1'') (empty_session, empty_db))))))"
proof -
  have "reach (snd (handle (AddCriteriaReq '' Cost '') (snd (handle (HomeReq ''u1'') (empty_session, empty_db)))))"
    by (intro reach_step reach_init)
  from reach_invariant [OF this] show ?thesis .
qed

theorem ahp_session_reaches_ranking_witness:
  "\<exists>ps cols sc rk aid st'.
     run [HomeReq ''u1'', StartAhpReq [''1'', ''2'', ''3''] [''1'', ''2''], CalculateCriteriaReq (\<lambda>i j. Some ''1''),
          CalculateFinalReq (\<lambda>c i j. Some ''1'')]
       (empty_session, empty_db\<lparr>criteria_tbl := [(1, ''Cost'', None), (2, ''Area'', None), (3, ''Access'', None)],
          next_criteria_id := 4, alternatives_tbl := [(1, ''Site A'', None), (2, ''Site B'', None)],
          next_alternative_id := 3\<rparr>) = (ps, st') \<and>
     last ps = FinalPage (Ranked cols sc rk) (Some aid)"
proof (rule ahp_session_reaches_ranking)
  show "db_wf (empty_db\<lparr>criteria_tbl := [(1, ''Cost'', None), (2, ''Area'', None), (3, ''Access'', None)],
          next_criteria_id := 4, alternatives_tbl := [(1, ''Site A'', None), (2, ''Site B'', None)],
          next_alternative_id := 3\<rparr>)"
    by (simp add: db_wf_def items_wf_def empty_db_def)
  show "map py_int [''1'', ''2'', ''3''] = map Some [1, 2, 3]" by code_simp
  show "map py_int [''1'', ''2''] = map Some [1, 2]" by code_simp
qed (simp_all add: empty_session_def)

theorem view_result_own_session_witness:
  "let s0 = empty_session\<lparr>s_flask_id := Some ''u1''\<rparr>;
       r0 = \<lparr>an_id = 1, an_session = 1, an_name = None, an_criteria = [''Cost''], an_alternatives = [''Site A''],
             an_criteria_weights = [1], an_local_matrix = [[1]], an_scores = [1], an_ranked = [(''Site A'', 1)],
             an_cr = Some 0, an_consistent = 1, an_alt_crs = [], an_notes = None, an_created = 0\<rparr>;
       d0 = empty_db\<lparr>session_tbl := [(1, ''u1'')], next_session_id := 2, analyses_tbl := [r0],
                     next_analysis_id := 2, clock := 1\<rparr>
   in \<exists>u k. s_flask_id s0 = Some u \<and> get_or_create_session_db_id (Some u) d0 = (Some k, d0) \<and>
        an_session r0 = k \<and> an_id r0 = 1 \<and> r0 \<in> set (analyses_tbl d0) \<and> s0 = s0"
  unfolding Let_def
  by (rule view_result_own_session)
    (simp add: view_result_route_def get_or_create_session_db_id_def get_ahp_analysis_by_id_def
      py_true_def py_id_true_def)

theorem calculate_criteria_input_error_witness:
  "calculate_criteria_route (\<lambda>i j. None)
     (empty_session\<lparr>s_flask_id := Some ''u1'', s_criteria := Some [(1, ''Cost''), (2, ''Area'')],
        s_alternatives := Some [(1, ''Site A'')]\<rparr>, empty_db) =
     (CriteriaPage (CritInputError (MissingCell 0 1) 2)
        (get_sorted_criteria_with_weights (CritInputError (MissingCell 0 1) 2) [(1, ''Cost''), (2, ''Area'')]) False,
      empty_session\<lparr>s_flask_id := Some ''u1'', s_criteria := Some [(1, ''Cost''), (2, ''Area'')],
        s_alternatives := Some [(1, ''Site A'')], s_crit_results := Some (CritInputError (MissingCell 0 1) 2)\<rparr>,
      snd (get_or_create_session_db_id (Some ''u1'') empty_db)) \<and>
   calculate_final_route (final_input_of (empty_session\<lparr>s_flask_id := Some ''u1'',
        s_criteria := Some [(1, ''Cost''), (2, ''Area'')], s_alternatives := Some [(1, ''Site A'')],
        s_crit_results := Some (CritInputError (MissingCell 0 1) 2)\<rparr>) (Some 1) (\<lambda>c i j. None)) =
     CriteriaNotReady"
proof -
  let ?s = "empty_session\<lparr>s_flask_id := Some ''u1'', s_criteria := Some [(1::nat, ''Cost''), (2, ''Area'')],
        s_alternatives := Some [(1::nat, ''Site A'')]\<rparr>"
  have g: "get_or_create_session_db_id (s_flask_id ?s) empty_db =
           (Some 1, snd (get_or_create_session_db_id (Some ''u1'') empty_db))"
    by (simp add: get_or_create_session_db_id_def empty_db_def empty_session_def)
  have b: "build_matrix (\<lambda>i j. None) (length [(1::nat, ''Cost''), (2, ''Area'')]) = Inl (MissingCell 0 1)"
    by code_simp
  from calculate_criteria_input_error [OF g _ _ _ _ _ b, of "\<lambda>c i j. None"] show ?thesis
    by (simp add: empty_session_def py_true_def numeral_2_eq_2)
qed

theorem import_keeps_criteria_results_witness:
  "let cn = [''C1'', ''C2'', ''C3'', ''C4'']; an = [''X'', ''Y'', ''Z''];
       lists = \<lparr>sh_cell = \<lambda>r c. if c = 1 \<and> 2 \<le> r \<and> r \<le> 5 then Some (cn ! (r - 2))
                               else if c = 2 \<and> 2 \<le> r \<and> r \<le> 4 then Some (an ! (r - 2)) else None,
                sh_max_row = 5, sh_max_column = 2\<rparr>;
       crit = \<lparr>sh_cell = \<lambda>r c. if r = 1 \<and> 2 \<le> c \<and> c \<le> 5 then Some (cn ! (c - 2))
                              else if c = 1 \<and> 2 \<le> r \<and> r \<le> 5 then Some (cn ! (r - 2))
                              else if 2 \<le> r \<and> r \<le> 5 \<and> 2 \<le> c \<and> c \<le> 5 then Some ''1'' else None,
               sh_max_row = 5, sh_max_column = 5\<rparr>;
       alts = \<lparr>sh_cell = \<lambda>r c. if r = 0 \<or> 20 < r then None
                              else if (r - 1) mod 5 = 0 then
                                (if c = 1 then Some (criterion_block_marker @ cn ! ((r - 1) div 5)) else None)
                              else if (r - 1) mod 5 = 1 then
                                (if 2 \<le> c \<and> c \<le> 4 then Some (an ! (c - 2)) else None)
                              else if c = 1 then Some (an ! ((r - 1) mod 5 - 2))
                              else if 2 \<le> c \<and> c \<le> 4 then Some ''1'' else None,
               sh_max_row = 20, sh_max_column = 4\<rparr>;
       up = Some (''ahp.xlsx'', Some [(''DanhSach'', lists), (''MaTranTieuChi'', crit), (''TatCaMaTranPA'', alts)]);
       s0 = empty_session\<lparr>s_flask_id := Some ''u1'', s_crit_results := Some (CritInputError (MissingCell 0 1) 3)\<rparr>;
       st = import_excel_route up (s0, empty_db)
   in fst st = StepsPage [] [] \<and> s_imported (fst (snd st)) \<and>
      s_crit_results (fst (snd st)) = Some (CritInputError (MissingCell 0 1) 3)"
proof -
  define cn where "cn = [''C1'', ''C2'', ''C3'', ''C4'']"
  define an where "an = [''X'', ''Y'', ''Z'']"
  define lists where "lists = \<lparr>sh_cell = \<lambda>r c. if c = 1 \<and> 2 \<le> r \<and> r \<le> 5 then Some (cn ! (r - 2))
                               else if c = 2 \<and> 2 \<le> r \<and> r \<le> 4 then Some (an ! (r - 2)) else None,
                sh_max_row = 5, sh_max_column = 2\<rparr>"
  define crit where "crit = \<lparr>sh_cell = \<lambda>r c. if r = 1 \<and> 2 \<le> c \<and> c \<le> 5 then Some (cn ! (c - 2))
                              else if c = 1 \<and> 2 \<le> r \<and> r \<le> 5 then Some (cn ! (r - 2))
                              else if 2 \<le> r \<and> r \<le> 5 \<and> 2 \<le> c \<and> c \<le> 5 then Some ''1'' else None,
               sh_max_row = 5, sh_max_column = 5\<rparr>"
  define alts where "alts = \<lparr>sh_cell = \<lambda>r c. if r = 0 \<or> 20 < r then None
                              else if (r - 1) mod 5 = 0 then
                                (if c = 1 then Some (criterion_block_marker @ cn ! ((r - 1) div 5)) else None)
                              else if (r - 1) mod 5 = 1 then
                                (if 2 \<le> c \<and> c \<le> 4 then Some (an ! (c - 2)) else None)
                              else if c = 1 then Some (an ! ((r - 1) mod 5 - 2))
                              else if 2 \<le> c \<and> c \<le> 4 then Some ''1'' else None,
               sh_max_row = 20, sh_max_column = 4\<rparr>"
  define up where "up = Some (''ahp.xlsx'', Some [(''DanhSach'', lists), (''MaTranTieuChi'', crit), (''TatCaMaTranPA'', alts)])"
  define s0 where "s0 = empty_session\<lparr>s_flask_id := Some ''u1'', s_crit_results := Some (CritInputError (MissingCell 0 1) 3)\<rparr>"
  have ev: "import_excel_route up (s0, empty_db) =
      (StepsPage [] [], fst (snd (import_excel_route up (s0, empty_db))), empty_db)"
    unfolding up_def lists_def crit_def alts_def s0_def cn_def an_def by code_simp
  from import_keeps_criteria_results [OF ev]
  have "s_imported (fst (snd (import_excel_route up (s0, empty_db)))) \<and>
        s_crit_results (fst (snd (import_excel_route up (s0, empty_db)))) = Some (CritInputError (MissingCell 0 1) 3)"
    by (simp add: s0_def)
  moreover have "fst (import_excel_route up (s0, empty_db)) = StepsPage [] []"
    by (subst ev) simp
  ultimately have "fst (import_excel_route up (s0, empty_db)) = StepsPage [] [] \<and>
      s_imported (fst (snd (import_excel_route up (s0, empty_db)))) \<and>
      s_crit_results (fst (snd (import_excel_route up (s0, empty_db)))) = Some (CritInputError (MissingCell 0 1) 3)"
    by blast
  then show ?thesis
    unfolding up_def lists_def crit_def alts_def s0_def cn_def an_def Let_def .
qed

end
