(* ===== verification/Form_Echo.thy ===== *)
theory Form_Echo
  imports Matrix_Build "HOL-Library.AList"
begin

text \<open>
  The form echo of a matrix (\<open>app.py\<close> 266--304): an imported or parsed
  comparison matrix is turned back into the strings of the comparison form,
  \<open>convert_numpy_matrix_to_form_data\<close>, so that the next page shows it and
  submits it again. The form data is a dictionary from field names
  (\<open>matrix[r][c]\<close>, \<open>alt_matrix[k][r][c]\<close>) to strings, kept as an
  association list in insertion order. Also here: Python's \<open>str()\<close> of an
  integer, \<open>round()\<close> and the \<open>.4f\<close> format on exact reals, which the
  report theory uses too.
\<close>

section \<open>Python's \<open>str\<close>, \<open>round\<close> and \<open>format\<close>\<close>

text \<open>\<open>str(n)\<close> of a natural number and of an integer, in decimal.\<close>

fun py_str_nat :: "nat \<Rightarrow> string" where
  "py_str_nat n =
     (if n < 10 then [char_of (48 + n)] else py_str_nat (n div 10) @ [char_of (48 + n mod 10)])"

declare py_str_nat.simps [simp del]

definition py_str_int :: "int \<Rightarrow> string" where
  "py_str_int i = (if i < 0 then CHR ''-'' # py_str_nat (nat (- i)) else py_str_nat (nat i))"

text \<open>\<open>round(y)\<close>: the nearest integer, ties to even.\<close>

definition round_real_half_even :: "real \<Rightarrow> int" where
  "round_real_half_even y =
     (let f = \<lfloor>y\<rfloor>; e = y - of_int f
      in if e < 1 / 2 then f else if 1 / 2 < e then f + 1 else if even f then f else f + 1)"

text \<open>\<open>f"{x:.4f}"\<close>: the multiple of \<open>10^-4\<close> nearest to \<open>x\<close> (ties to
  even), with four decimals.\<close>

definition format_4f :: "real \<Rightarrow> string" where
  "format_4f x =
     (let q = round_real_half_even (\<bar>x\<bar> * 10 ^ 4); ds = py_str_nat (nat (q mod 10 ^ 4))
      in (if x < 0 then ''-'' else []) @ py_str_nat (nat (q div 10 ^ 4)) @ ''.'' @
         replicate (4 - length ds) CHR ''0'' @ ds)"

text \<open>\<open>s.rstrip(c)\<close> for one character.\<close>

definition py_rstrip :: "char \<Rightarrow> string \<Rightarrow> string" where
  "py_rstrip c s = rev (dropWhile (\<lambda>x. x = c) (rev s))"

section \<open>The echo of one cell\<close>

text \<open>The string written for an upper entry, 277--287: a value in
  \<open>(0, 1)\<close> whose inverse is within \<open>10^-6\<close> of an integer \<open>d\<close> as
  \<open>"1/d"\<close>, a value at least 1 within \<open>10^-6\<close> of an integer as
  \<open>str(int(value))\<close> (truncated), other positive values by the \<open>.4f\<close>
  format without trailing zeros, and the rest by \<open>str(value)\<close>:
  \<open>float_str\<close> stands for the shortest decimal form of a finite float,
  which exact reals do not have. \<open>round(inf)\<close> raises \<open>OverflowError\<close>:
  \<open>None\<close>.\<close>

definition echo_cell :: "(real \<Rightarrow> string) \<Rightarrow> pyfloat \<Rightarrow> string option" where
  "echo_cell float_str v =
     (case v of
        PFin value \<Rightarrow>
          (if 0 < value \<and> value < 1 then
             (let inv_value = 1 / value
              in if \<bar>inv_value - of_int (round_real_half_even inv_value)\<bar> < 1 / 10 ^ 6
                 then Some (''1/'' @ py_str_int (round_real_half_even inv_value))
                 else Some (py_rstrip CHR ''.'' (py_rstrip CHR ''0'' (format_4f value))))
           else if 1 \<le> value then
             Some (if \<bar>value - of_int (round_real_half_even value)\<bar> < 1 / 10 ^ 6
                   then py_str_int \<lfloor>value\<rfloor>
                   else py_rstrip CHR ''.'' (py_rstrip CHR ''0'' (format_4f value)))
           else Some (float_str value))
      | PInf \<Rightarrow> None
      | PNegInf \<Rightarrow> Some ''-inf''
      | PNaN \<Rightarrow> Some ''nan'')"

section \<open>The form data of a matrix\<close>

text \<open>The field name, 271--272.\<close>

definition form_key :: "string \<Rightarrow> nat option \<Rightarrow> nat \<Rightarrow> nat \<Rightarrow> string" where
  "form_key form_prefix crit_idx r c =
     (let key_base = ''['' @ py_str_nat r @ '']['' @ py_str_nat c @ '']''
      in case crit_idx of
           None \<Rightarrow> form_prefix @ key_base
         | Some k \<Rightarrow> form_prefix @ ''['' @ py_str_nat k @ '']'' @ key_base)"

text \<open>\<open>convert_numpy_matrix_to_form_data\<close>, 266--288, for a matrix given as
  rows of equal length: \<open>"1"\<close> on the diagonal, the echo of the entry
  above it, nothing below. \<open>np.array([]).shape\<close> has one component, so
  the unpacking raises for the empty matrix.\<close>

definition convert_numpy_matrix_to_form_data ::
  "(real \<Rightarrow> string) \<Rightarrow> pymatrix \<Rightarrow> string \<Rightarrow> nat option \<Rightarrow> (string \<times> string) list option" where
  "convert_numpy_matrix_to_form_data float_str matrix_np form_prefix crit_idx =
     (if matrix_np = [] then None
      else
        foldl (\<lambda>acc (r, c). case acc of None \<Rightarrow> None | Some form_data \<Rightarrow>
                 (let key = form_key form_prefix crit_idx r c
                  in if r = c then Some (AList.update key ''1'' form_data)
                     else if r < c then
                       (case echo_cell float_str (matrix_np ! r ! c) of
                          None \<Rightarrow> None
                        | Some s \<Rightarrow> Some (AList.update key s form_data))
                     else Some form_data))
          (Some []) (List.product [0..<length matrix_np] [0..<length (hd matrix_np)]))"

text \<open>\<open>convert_all_alt_matrices_to_form_data\<close>, 289--304: the echo of
  every imported alternatives matrix under its criterion index, merged by
  \<open>dict.update\<close>. The session's keys \<open>str(crit_idx)\<close> are read back by
  \<open>int()\<close>, the identity on them.\<close>

definition dict_update_all :: "(string \<times> string) list \<Rightarrow> (string \<times> string) list \<Rightarrow> (string \<times> string) list" where
  "dict_update_all d e = foldl (\<lambda>acc (k, v). AList.update k v acc) d e"

definition convert_all_alt_matrices_to_form_data ::
  "(real \<Rightarrow> string) \<Rightarrow> (nat \<times> pymatrix) list \<Rightarrow> (string \<times> string) list option" where
  "convert_all_alt_matrices_to_form_data float_str imported_alternative_matrices =
     foldl (\<lambda>acc (crit_idx, matrix_np). case acc of None \<Rightarrow> None | Some form_data \<Rightarrow>
              (case convert_numpy_matrix_to_form_data float_str matrix_np ''alt_matrix'' (Some crit_idx) of
                 None \<Rightarrow> None
               | Some fd \<Rightarrow> Some (dict_update_all form_data fd)))
       (Some []) imported_alternative_matrices"

text \<open>The form a browser submits back from the echo: the value of each
  field.\<close>

definition echo_cells :: "(string \<times> string) list \<Rightarrow> string \<Rightarrow> nat option \<Rightarrow> cells" where
  "echo_cells form_data form_prefix crit_idx = (\<lambda>i j. map_of form_data (form_key form_prefix crit_idx i j))"

text \<open>The exact Saaty values: \<open>1..9\<close> and \<open>1/2..1/9\<close>.\<close>

definition saaty_values :: "real list" where
  "saaty_values = map real [1..<10] @ map (\<lambda>d. 1 / real d) [2..<10]"

section \<open>Lemmas\<close>

lemma digit_char: "d < 10 \<Longrightarrow> is_digit (char_of (48 + d)) \<and> digit_val (char_of (48 + d)) = d \<and> \<not> py_space (char_of (48 + d))"
proof -
  assume d: "d < 10"
  have "''0123456789'' = map (\<lambda>d. char_of (48 + d)) [0..<10]" by code_simp
  moreover have "of_char (char_of (48 + d) :: char) = 48 + d" using d by (simp add: of_char_of)
  ultimately show ?thesis using d by (auto simp: is_digit_def digit_val_def py_space_def)
qed

lemma py_str_nat_digits: "py_str_nat n \<noteq> [] \<and> (\<forall>c\<in>set (py_str_nat n). is_digit c \<and> \<not> py_space c)"
proof (induction n rule: py_str_nat.induct)
  case (1 n)
  then show ?case by (simp add: py_str_nat.simps [of n] digit_char)
qed

lemma digits_val_py_str_nat: "digits_val (py_str_nat n) = n"
proof (induction n rule: py_str_nat.induct)
  case (1 n)
  have f: "filter is_digit (py_str_nat m) = py_str_nat m" for m
    using py_str_nat_digits [of m] by (simp add: filter_id_conv)
  show ?case
  proof (cases "n < 10")
    case True then show ?thesis by (simp add: py_str_nat.simps [of n] digits_val_def digit_char)
  next
    case False
    then have "digits_val (py_str_nat (n div 10)) = n div 10" using "1.IH" by simp
    with False show ?thesis
      by (simp add: py_str_nat.simps [of n] digits_val_def f digit_char)
  qed
qed

lemma digitpart_ok_digits: "s \<noteq> [] \<Longrightarrow> \<forall>c\<in>set s. is_digit c \<Longrightarrow> digitpart_ok s"
proof (induction s)
  case (Cons c r)
  have "CHR ''_'' \<notin> set r" using Cons.prems by (auto simp: is_digit_def)
  with Cons show ?case by (cases r) auto
qed simp

lemma py_int_py_str_nat: "py_int (py_str_nat n) = Some (int n)"
proof -
  obtain c r where cr: "py_str_nat n = c # r" using py_str_nat_digits [of n] by (cases "py_str_nat n") auto
  have all: "\<forall>x\<in>set (py_str_nat n). is_digit x \<and> \<not> py_space x" using py_str_nat_digits by blast
  have strip: "py_strip (py_str_nat n) = py_str_nat n"
  proof -
    have "dropWhile py_space (py_str_nat n) = py_str_nat n" using all cr by simp
    moreover have "dropWhile py_space (rev (py_str_nat n)) = rev (py_str_nat n)"
      using all by (cases "rev (py_str_nat n)") auto
    ultimately show ?thesis by (simp add: py_strip_def)
  qed
  have "c \<noteq> CHR ''+'' \<and> c \<noteq> CHR ''-''" using all cr by (auto simp: is_digit_def)
  then have "sign_split (py_str_nat n) = (False, py_str_nat n)" by (simp add: sign_split_def cr)
  moreover have "digitpart_ok (py_str_nat n)" using all cr by (intro digitpart_ok_digits) auto
  ultimately show ?thesis by (simp add: py_int_def strip signed_digits_def digits_val_py_str_nat)
qed

lemma py_str_nat_inj:
  assumes "py_str_nat a = py_str_nat b"
  shows "a = b"
proof -
  have "py_int (py_str_nat a) = py_int (py_str_nat b)" using assms by (rule arg_cong)
  then show ?thesis by (simp only: py_int_py_str_nat option.inject of_nat_eq_iff)
qed

lemma py_str_nat_no_brackets: "CHR '']'' \<notin> set (py_str_nat n)"
proof
  assume "CHR '']'' \<in> set (py_str_nat n)"
  then have "is_digit CHR '']''" using py_str_nat_digits [of n] by blast
  then show False by (simp add: is_digit_def)
qed

lemma split_at_bracket:
  assumes "CHR '']'' \<notin> set a" "CHR '']'' \<notin> set a'" "a @ CHR '']'' # b = a' @ CHR '']'' # b'"
  shows "a = a' \<and> b = b'"
proof -
  have t: "takeWhile (\<lambda>x. x \<noteq> CHR '']'') (x @ CHR '']'' # y) = x" if "CHR '']'' \<notin> set x" for x y
    using that by (subst takeWhile_append2) auto
  from t [OF assms(1), of b] t [OF assms(2), of b'] assms(3) have "a = a'" by metis
  with assms(3) show ?thesis by simp
qed

lemma form_key_inj:
  assumes "form_key p k i j = form_key p k i' j'"
  shows "i = i' \<and> j = j'"
proof -
  have "py_str_nat i @ CHR '']'' # CHR ''['' # py_str_nat j @ '']'' =
        py_str_nat i' @ CHR '']'' # CHR ''['' # py_str_nat j' @ '']''"
    using assms by (auto simp: form_key_def Let_def split: option.splits)
  from split_at_bracket [OF py_str_nat_no_brackets py_str_nat_no_brackets this]
  have "py_str_nat i = py_str_nat i'" "py_str_nat j @ '']'' = py_str_nat j' @ '']''" by simp_all
  then have "py_str_nat i = py_str_nat i'" "py_str_nat j = py_str_nat j'" by simp_all
  then show ?thesis by (auto dest: py_str_nat_inj)
qed

lemma saaty_values_eq:
  "saaty_values = [1, 2, 3, 4, 5, 6, 7, 8, 9, 1 / 2, 1 / 3, 1 / 4, 1 / 5, 1 / 6, 1 / 7, 1 / 8, 1 / 9]"
  by (simp add: saaty_values_def upt_rec)

lemma echo_saaty_values:
  "list_all (\<lambda>v. echo_cell fs (PFin v) = Some (if 1 \<le> v then py_str_int \<lfloor>v\<rfloor> else ''1/'' @ py_str_int \<lfloor>1 / v\<rfloor>))
     saaty_values"
  by (simp add: saaty_values_eq echo_cell_def round_real_half_even_def Let_def)

lemma parse_saaty_texts:
  "list_all (\<lambda>v. parse_saaty_value (py_strip (if 1 \<le> v then py_str_int \<lfloor>v\<rfloor> else ''1/'' @ py_str_int \<lfloor>1 / v\<rfloor>)) False = Inr v)
     saaty_values"
  by code_simp

lemma parse_one_diagonal: "parse_saaty_value (py_strip ''1'') True = Inr 1"
  by code_simp

lemma foldl_form_updates:
  assumes step: "\<And>fd r c. (r, c) \<in> set ps \<Longrightarrow>
                   F (Some fd) (r, c) = Some (if r \<le> c then AList.update (key r c) (val r c) fd else fd)"
    and inj: "\<And>i j r c. key i j = key r c \<Longrightarrow> i = r \<and> j = c"
  shows "\<exists>fd. foldl F (Some fda) ps = Some fd \<and>
           (\<forall>i j. map_of fd (key i j) =
                    (if (i, j) \<in> set ps \<and> i \<le> j then Some (val i j) else map_of fda (key i j)))"
  using step
proof (induction ps arbitrary: fda)
  case Nil
  show ?case by simp
next
  case (Cons p ps)
  obtain r c where p: "p = (r, c)" by fastforce
  define fdb where "fdb = (if r \<le> c then AList.update (key r c) (val r c) fda else fda)"
  have s1: "F (Some fda) p = Some fdb" using Cons.prems [of r c fda] by (simp add: p fdb_def)
  obtain fd where fd: "foldl F (Some fdb) ps = Some fd"
    and look: "\<forall>i j. map_of fd (key i j) =
                 (if (i, j) \<in> set ps \<and> i \<le> j then Some (val i j) else map_of fdb (key i j))"
    using Cons.IH [of fdb] Cons.prems by auto
  have "map_of fdb (key i j) = (if (i, j) = (r, c) \<and> i \<le> j then Some (val i j) else map_of fda (key i j))"
    for i j
    using inj [of i j r c] by (auto simp: fdb_def update_conv')
  with fd look s1 show ?case by (auto simp: p)
qed

lemma convert_lookup:
  assumes sq: "square n M" and n: "0 < n"
    and ok: "\<forall>i<n. \<forall>j<n. i < j \<longrightarrow> echo_cell fs (M ! i ! j) \<noteq> None"
  shows "\<exists>fd. convert_numpy_matrix_to_form_data fs M p k = Some fd \<and>
           (\<forall>i<n. \<forall>j<n. map_of fd (form_key p k i j) =
              (if i = j then Some ''1'' else if i < j then echo_cell fs (M ! i ! j) else None))"
proof -
  have M: "M \<noteq> []" "length M = n" "length (hd M) = n"
    using sq n by (auto simp: square_def list_all_iff)
  let ?val = "\<lambda>i j. if i = j then ''1'' else the (echo_cell fs (M ! i ! j))"
  let ?F = "\<lambda>acc (r, c). case acc of None \<Rightarrow> None | Some form_data \<Rightarrow>
                 (let key = form_key p k r c
                  in if r = c then Some (AList.update key ''1'' form_data)
                     else if r < c then
                       (case echo_cell fs (M ! r ! c) of
                          None \<Rightarrow> None
                        | Some s \<Rightarrow> Some (AList.update key s form_data))
                     else Some form_data)"
  have step: "?F (Some fd) (r, c) = Some (if r \<le> c then AList.update (form_key p k r c) (?val r c) fd else fd)"
    if "(r, c) \<in> set (List.product [0..<n] [0..<n])" for fd r c
  proof -
    have "r < n" "c < n" using that by auto
    then show ?thesis using ok [rule_format, of r c] by (auto simp: Let_def split: option.split)
  qed
  have "\<exists>fd. foldl ?F (Some []) (List.product [0..<n] [0..<n]) = Some fd \<and>
          (\<forall>i j. map_of fd (form_key p k i j) =
                 (if (i, j) \<in> set (List.product [0..<n] [0..<n]) \<and> i \<le> j then Some (?val i j)
                  else map_of [] (form_key p k i j)))"
    by (rule foldl_form_updates [OF step form_key_inj])
  then obtain fd where fd: "foldl ?F (Some []) (List.product [0..<n] [0..<n]) = Some fd"
    and look: "\<forall>i j. map_of fd (form_key p k i j) =
                 (if (i, j) \<in> set (List.product [0..<n] [0..<n]) \<and> i \<le> j then Some (?val i j)
                  else map_of [] (form_key p k i j))"
    by blast
  have "convert_numpy_matrix_to_form_data fs M p k = Some fd"
    using fd M by (simp add: convert_numpy_matrix_to_form_data_def)
  moreover have "map_of fd (form_key p k i j) =
                   (if i = j then Some ''1'' else if i < j then echo_cell fs (M ! i ! j) else None)"
    if "i < n" "j < n" for i j
    using look that ok by auto
  ultimately show ?thesis by blast
qed

lemma saaty_value_echo_parse:
  assumes "v \<in> set saaty_values"
  shows "\<exists>s. echo_cell fs (PFin v) = Some s \<and> parse_saaty_value (py_strip s) False = Inr v"
  using assms echo_saaty_values [of fs] parse_saaty_texts by (auto simp: list_all_iff)

text \<open>Claim C22. The form echo of a comparison matrix whose judgments are
  exact Saaty values is read back unchanged: \<open>convert_numpy_matrix_to_form_data\<close>
  writes \<open>"1"\<close> on the diagonal, \<open>"d"\<close> or \<open>"1/d"\<close> above it, and
  submitting that form to the cell loop of the criteria step rebuilds the
  same matrix.\<close>

theorem form_echo_roundtrip:
  assumes cm: "comparison_matrix n M" and n: "0 < n"
    and sv: "\<forall>i<n. \<forall>j<n. i < j \<longrightarrow> pf_val (M ! i ! j) \<in> set saaty_values"
  shows "\<exists>fd. convert_numpy_matrix_to_form_data fs M ''matrix'' None = Some fd \<and>
           build_matrix (echo_cells fd ''matrix'' None) n = Inr M"
proof -
  have sq: "square n M" and diag: "\<forall>i<n. M ! i ! i = PFin 1"
    and pair: "\<forall>i j. i < j \<and> j < n \<longrightarrow> saaty_pair (M ! i ! j) (M ! j ! i)"
    using cm by (simp_all add: comparison_matrix_iff)
  have fin: "M ! i ! j = PFin (pf_val (M ! i ! j))" if "i < j" "j < n" for i j
  proof -
    have "saaty_pair (M ! i ! j) (M ! j ! i)" using pair that by blast
    then show ?thesis by (cases "M ! i ! j") (auto simp: saaty_pair_def)
  qed
  have echo: "\<exists>s. echo_cell fs (M ! i ! j) = Some s \<and> parse_saaty_value (py_strip s) False = Inr (pf_val (M ! i ! j))"
    if "i < j" "j < n" for i j
    using saaty_value_echo_parse [of "pf_val (M ! i ! j)" fs] sv that fin [OF that] by auto
  obtain fd where conv: "convert_numpy_matrix_to_form_data fs M ''matrix'' None = Some fd"
    and look: "\<forall>i<n. \<forall>j<n. map_of fd (form_key ''matrix'' None i j) =
              (if i = j then Some ''1'' else if i < j then echo_cell fs (M ! i ! j) else None)"
    using convert_lookup [OF sq n, of fs "''matrix''" None] echo by fastforce
  let ?form = "echo_cells fd ''matrix'' None"
  have cell: "?form i j = (if i = j then Some ''1'' else if i < j then echo_cell fs (M ! i ! j) else None)"
    if "i < n" "j < n" for i j
    using look that by (simp add: echo_cells_def)
  have upper: "upper_val ?form i j = pf_val (M ! i ! j)" if "i < j" "j < n" for i j
    using echo [OF that] cell [of i j] that by (auto simp: upper_val_def cell_value_def)
  have checks: "\<forall>i<n. \<forall>j<n. cell_check ?form (i, j) = None"
  proof (intro allI impI)
    fix i j assume "i < n" "j < n"
    then consider "i = j" | "i < j" | "j < i" by linarith
    then show "cell_check ?form (i, j) = None"
    proof cases
      case 1 with cell [OF \<open>i < n\<close> \<open>j < n\<close>] show ?thesis
        by (simp add: cell_value_def parse_one_diagonal)
    next
      case 2 with cell [OF \<open>i < n\<close> \<open>j < n\<close>] echo [OF 2 \<open>j < n\<close>] show ?thesis
        by (auto simp: cell_value_def)
    next
      case 3 with cell [OF \<open>i < n\<close> \<open>j < n\<close>] show ?thesis
        by (simp add: cell_value_def)
    qed
  qed
  have entries: "target_entry ?form a b = M ! a ! b" if "a < n" "b < n" for a b
  proof -
    consider "a = b" | "a < b" | "b < a" by linarith
    then show ?thesis
    proof cases
      case 1 then show ?thesis using diag that by (simp add: target_entry_def)
    next
      case 2 then show ?thesis using upper [OF 2 \<open>b < n\<close>] fin [OF 2 \<open>b < n\<close>]
        by (simp add: target_entry_def)
    next
      case 3
      have "saaty_pair (M ! b ! a) (M ! a ! b)" using pair 3 \<open>a < n\<close> by blast
      then show ?thesis using 3 upper [OF 3 \<open>a < n\<close>]
        by (auto simp: target_entry_def saaty_pair_def mirror_value_scale)
    qed
  qed
  have "build_matrix ?form n = Inr (tab n (\<lambda>a b. if (min a b, max a b) \<in> set (List.product [0..<n] [0..<n])
                                               then target_entry ?form a b else PFin 1))"
    using checks by (simp add: build_matrix_loop all_cells_ok [THEN iffD2])
  also have "\<dots> = Inr (tab n (\<lambda>i j. M ! i ! j))"
    by (intro arg_cong [where f = Inr] tab_cong) (simp add: entries min_def max_def)
  also have "\<dots> = Inr M"
    by (simp only: tab_square_eq [OF sq, symmetric])
  finally show ?thesis using conv by blast
qed

section \<open>Witnesses\<close>

theorem form_echo_roundtrip_witness:
  "convert_numpy_matrix_to_form_data (\<lambda>_. []) [[PFin 1, PFin 3], [PFin (1 / 3), PFin 1]] ''matrix'' None =
     Some [(''matrix[0][0]'', ''1''), (''matrix[0][1]'', ''3''), (''matrix[1][1]'', ''1'')] \<and>
   build_matrix (echo_cells [(''matrix[0][0]'', ''1''), (''matrix[0][1]'', ''3''), (''matrix[1][1]'', ''1'')]
                   ''matrix'' None) 2 =
     Inr [[PFin 1, PFin 3], [PFin (1 / 3), PFin 1]]"
proof -
  let ?M = "[[PFin 1, PFin 3], [PFin (1 / 3), PFin 1]]"
  have c: "convert_numpy_matrix_to_form_data (\<lambda>_. []) ?M ''matrix'' None =
     Some [(''matrix[0][0]'', ''1''), (''matrix[0][1]'', ''3''), (''matrix[1][1]'', ''1'')]"
    by code_simp
  have cm: "comparison_matrix 2 ?M"
    by (simp add: comparison_matrix_def saaty_pair_def square_def upt_rec)
  have sv: "\<forall>i<2. \<forall>j<2. i < j \<longrightarrow> pf_val (?M ! i ! j) \<in> set saaty_values"
    by (auto simp: less_Suc_eq numeral_2_eq_2 saaty_values_eq)
  from form_echo_roundtrip [OF cm _ sv, of "\<lambda>_. []"] c show ?thesis by simp
qed

end
