(* ===== verification/Reports.thy ===== *)
theory Reports
  imports Session Form_Echo
begin

text \<open>
  The reports of a stored analysis (\<open>app.py\<close> 883--1118 and
  \<open>get_ahp_analysis_by_id\<close>, \<open>model.py\<close> 415--470). The getter turns a row
  of \<open>AHPAnalyses\<close> into a dictionary of JSON values: the table's columns
  under their own names, the \<open>*_json\<close> columns parsed under the names the
  code gives them, \<open>criteria_is_consistent\<close> replaced by the boolean
  \<open>is_consistent_criteria\<close>. \<open>create_excel_report\<close> reads that dictionary
  with \<open>.get\<close> and writes four sheets; a sheet is the function from a row
  and a column to the value written there (fonts, merges, alignment and
  column widths are not modelled; the fixed texts are named by
  \<open>report_label\<close>). The two download routes check the browser's session
  and the analysis' owner before building a report; the PDF itself
  (ReportLab, charts) is a parameter of the model.
\<close>

section \<open>JSON values and Python dictionaries\<close>

datatype jval =
    JNull
  | JBool bool
  | JInt int
  | JFloat pyfloat
  | JStr string
  | JList "jval list"
  | JObj "(string \<times> jval) list"

text \<open>\<open>d.get(k)\<close> and \<open>d.get(k, default)\<close>.\<close>

definition dict_get :: "(string \<times> jval) list \<Rightarrow> string \<Rightarrow> jval" where
  "dict_get d k = (case map_of d k of Some v \<Rightarrow> v | None \<Rightarrow> JNull)"

definition dict_get_default :: "(string \<times> jval) list \<Rightarrow> string \<Rightarrow> jval \<Rightarrow> jval" where
  "dict_get_default d k v0 = (case map_of d k of Some v \<Rightarrow> v | None \<Rightarrow> v0)"

text \<open>Python's truth value of a JSON value.\<close>

fun py_truthy :: "jval \<Rightarrow> bool" where
  "py_truthy JNull = False"
| "py_truthy (JBool b) = b"
| "py_truthy (JInt i) = (i \<noteq> 0)"
| "py_truthy (JFloat x) = (x \<noteq> PFin 0)"
| "py_truthy (JStr s) = (s \<noteq> [])"
| "py_truthy (JList xs) = (xs \<noteq> [])"
| "py_truthy (JObj d) = (d \<noteq> [])"

text \<open>\<open>isinstance(v, (int, float))\<close>: a \<open>bool\<close> is an \<open>int\<close>.\<close>

fun is_number :: "jval \<Rightarrow> bool" where
  "is_number (JBool _) = True"
| "is_number (JInt _) = True"
| "is_number (JFloat _) = True"
| "is_number _ = False"

text \<open>The sequence a report iterates over or indexes: the lists of a stored
  analysis. Any other value, which a stored analysis never holds there, is
  taken as raising.\<close>

fun jlist :: "jval \<Rightarrow> jval list option" where
  "jlist (JList xs) = Some xs"
| "jlist _ = None"

text \<open>The text an f-string gives a criterion name: the string itself (the
  names of a stored analysis are strings); \<open>str()\<close> of other values is
  only modelled for \<open>None\<close>, booleans and integers.\<close>

fun py_format :: "jval \<Rightarrow> string" where
  "py_format (JStr s) = s"
| "py_format (JInt i) = py_str_int i"
| "py_format (JBool b) = (if b then ''True'' else ''False'')"
| "py_format JNull = ''None''"
| "py_format _ = []"

text \<open>\<open>round(x, k)\<close>: the multiple of \<open>10^-k\<close> nearest to \<open>x\<close>, ties to
  even; infinities and NaN are returned as they are, an \<open>int\<close> (or
  \<open>bool\<close>) stays an \<open>int\<close>.\<close>

fun py_round :: "nat \<Rightarrow> jval \<Rightarrow> jval" where
  "py_round k (JFloat (PFin x)) = JFloat (PFin (of_int (round_real_half_even (x * 10 ^ k)) / 10 ^ k))"
| "py_round k (JFloat x) = JFloat x"
| "py_round k (JInt i) = JInt i"
| "py_round k (JBool b) = JInt (if b then 1 else 0)"
| "py_round k v = v"

text \<open>\<open>score * 100\<close> for a number.\<close>

fun py_times_100 :: "jval \<Rightarrow> jval" where
  "py_times_100 (JFloat (PFin x)) = JFloat (PFin (x * 100))"
| "py_times_100 (JFloat x) = JFloat x"
| "py_times_100 (JInt i) = JInt (100 * i)"
| "py_times_100 (JBool b) = JInt (if b then 100 else 0)"
| "py_times_100 v = v"

text \<open>\<open>round(v, k) if isinstance(v, (int, float)) else v\<close>.\<close>

definition cell_round :: "nat \<Rightarrow> jval \<Rightarrow> jval" where
  "cell_round k v = (if is_number v then py_round k v else v)"

section \<open>The dictionary of a stored analysis\<close>

definition json_float :: "real \<Rightarrow> jval" where
  "json_float x = JFloat (PFin x)"

definition json_floats :: "real list \<Rightarrow> jval" where
  "json_floats xs = JList (map json_float xs)"

definition json_opt_str :: "string option \<Rightarrow> jval" where
  "json_opt_str x = (case x of None \<Rightarrow> JNull | Some s \<Rightarrow> JStr s)"

text \<open>The dictionary \<open>calculate_ahp\<close> returns, after \<open>json.dumps\<close> and
  \<open>json.loads\<close> (\<open>ahp.py\<close> 100--236): on success its keys in the order
  they are set; on a failure the error and \<open>is_consistent = False\<close> (the
  text of the message and the keys set to \<open>None\<close> are not modelled: no
  report reads them). A form input error is \<open>{"error": ...}\<close>
  (\<open>app.py\<close> 729).\<close>

definition ahp_result_json :: "ahp_result \<Rightarrow> jval" where
  "ahp_result_json r =
     JObj [(''n'', JInt (int (res_n r))), (''colSums'', json_floats (colSums r)),
           (''normMatrix'', JList (map json_floats (normMatrix r))),
           (''weights'', json_floats (weights r)), (''wsv'', json_floats (wsv r)),
           (''cv'', json_floats (cv r)), (''lambdaMax'', json_float (lambdaMax r)),
           (''ci'', json_float (ci r)), (''RI'', json_float (RI r)), (''CR'', JFloat (CR r)),
           (''is_consistent'', JBool (is_consistent r))]"

fun alt_outcome_json :: "alt_outcome \<Rightarrow> jval" where
  "alt_outcome_json (AltInputError _) = JObj [(''error'', JStr ''input error'')]"
| "alt_outcome_json (AltAhp (Inl _)) = JObj [(''error'', JStr ''ahp error''), (''is_consistent'', JBool False)]"
| "alt_outcome_json (AltAhp (Inr r)) = ahp_result_json r"

text \<open>\<open>alternative_ahp_results_by_crit_idx\<close>: keyed by \<open>str(crit_idx)\<close>.\<close>

definition alt_crs_json :: "(nat \<times> alt_outcome) list \<Rightarrow> jval" where
  "alt_crs_json crs = JObj (map (\<lambda>(c, q). (py_str_nat c, alt_outcome_json q)) crs)"

text \<open>\<open>get_ahp_analysis_by_id\<close>'s dictionary, 439--470: the columns
  \<open>analysis_id\<close>, \<open>session_db_id\<close>, \<open>analysis_name\<close>, \<open>criteria_cr\<close>,
  \<open>notes\<close>, \<open>created_at\<close> (the row's clock tick stands for the timestamp),
  the parsed lists, and \<open>is_consistent_criteria\<close>.\<close>

definition analysis_dict :: "analysis_row \<Rightarrow> (string \<times> jval) list" where
  "analysis_dict r =
     [(''analysis_id'', JInt (int (an_id r))), (''session_db_id'', JInt (int (an_session r))),
      (''analysis_name'', json_opt_str (an_name r)),
      (''criteria_cr'', (case an_cr r of None \<Rightarrow> JNull | Some x \<Rightarrow> json_float x)),
      (''notes'', json_opt_str (an_notes r)), (''created_at'', JInt (int (an_created r))),
      (''criteria_names'', JList (map JStr (an_criteria r))),
      (''alternatives'', JList (map JStr (an_alternatives r))),
      (''criteria_weights'', json_floats (an_criteria_weights r)),
      (''local_alternative_weights_matrix'', JList (map json_floats (an_local_matrix r))),
      (''alternative_scores'', json_floats (an_scores r)),
      (''ranked_alternatives'', JList (map (\<lambda>(n, x). JList [JStr n, json_float x]) (an_ranked r))),
      (''alternative_crs'', alt_crs_json (an_alt_crs r)),
      (''is_consistent_criteria'', JBool (an_consistent r \<noteq> 0))]"

section \<open>Worksheets of the report\<close>

datatype report_label =
    ReportDate | TitleCriteriaWeights | HeadCriterion | HeadWeight | CrCriteriaLabel
  | LabelConsistent | LabelInconsistent | TitleDetails | HeadAlternative | HeadLocalWeight
  | TitleLocalSummary | HeadAltByCriterion | TitleRanking | HeadRank | HeadTotalScore | HeadPercent
  | BestAlternative

datatype xcell = XV jval | XL report_label

type_synonym xsheet = "nat \<times> nat \<Rightarrow> xcell"

definition empty_xsheet :: xsheet where
  "empty_xsheet = (\<lambda>_. XV JNull)"

text \<open>\<open>"(Nh\<^bold>at qu\<^bold>an)" if v else "(Kh\<^bold>ong nh\<^bold>at qu\<^bold>an)" if v is False else ""\<close>.\<close>

definition consistency_label :: "jval \<Rightarrow> xcell" where
  "consistency_label v =
     (if py_truthy v then XL LabelConsistent else if v = JBool False then XL LabelInconsistent
      else XV (JStr []))"

text \<open>Sheet \<open>TrongSoTieuChi\<close>, 897--924: a row per criterion
  (\<open>criteria_weights[i]\<close> raises past the end), then the CR row.\<close>

definition criteria_weight_rows :: "nat \<Rightarrow> jval list \<Rightarrow> jval list \<Rightarrow> xsheet \<Rightarrow> xsheet" where
  "criteria_weight_rows row names wts ws =
     foldl (\<lambda>w (i, name). w((row + i, 1) := XV (JInt (int i + 1)), (row + i, 2) := XV name,
                            (row + i, 3) := XV (cell_round 5 (wts ! i))))
       ws (List.enumerate 0 names)"

definition sheet_criteria_weights :: "(string \<times> jval) list \<Rightarrow> unit + xsheet" where
  "sheet_criteria_weights d =
     (let ws0 = empty_xsheet((2, 1) := XL ReportDate, (1, 1) := XL TitleCriteriaWeights,
                  (3, 1) := XV (JStr ''STT''), (3, 2) := XL HeadCriterion, (3, 3) := XL HeadWeight);
          names = dict_get d ''criteria_names''; wts = dict_get d ''criteria_weights'';
          rows = (if py_truthy names \<and> py_truthy wts then
                    (case (jlist names, jlist wts) of
                       (Some ns, Some ws) \<Rightarrow>
                         if length ns \<le> length ws then Inr (criteria_weight_rows 4 ns ws ws0, 4 + length ns)
                         else Inl ()
                     | _ \<Rightarrow> Inl ())
                  else Inr (ws0, 4))
      in case rows of
           Inl u \<Rightarrow> Inl u
         | Inr (ws1, row) \<Rightarrow>
             Inr (ws1((row + 1, 1) := XL CrCriteriaLabel,
                      (row + 1, 2) := XV (cell_round 4 (dict_get d ''cr_criteria'')),
                      (row + 1, 3) := consistency_label (dict_get d ''is_consistent_criteria''))))"

text \<open>Sheet \<open>ChiTietTrongSoPA\<close>, 943--992: a block per entry of
  \<open>alternative_crs\<close> that is a dictionary, titled with the criterion named
  by \<open>int(crit_idx_str)\<close> (Python's negative indexing included).\<close>

definition list_get_or_na :: "jval list \<Rightarrow> nat \<Rightarrow> jval" where
  "list_get_or_na xs i = (if i < length xs then xs ! i else JStr ''N/A'')"

definition alt_detail_rows :: "nat \<Rightarrow> jval list \<Rightarrow> jval list \<Rightarrow> jval list \<Rightarrow> jval list \<Rightarrow> xsheet \<Rightarrow> xsheet" where
  "alt_detail_rows row alts pw pwsv pcv ws =
     foldl (\<lambda>w (i, a). w((row + i, 1) := XV a,
                         (row + i, 2) := XV (cell_round 4 (list_get_or_na pw i)),
                         (row + i, 3) := XV (cell_round 4 (list_get_or_na pwsv i)),
                         (row + i, 4) := XV (cell_round 4 (list_get_or_na pcv i))))
       ws (List.enumerate 0 alts)"

definition criterion_title :: "jval list \<Rightarrow> int \<Rightarrow> string option" where
  "criterion_title crits cidx =
     (if cidx < int (length crits) then
        (if 0 \<le> cidx then Some (py_format (crits ! nat cidx))
         else if - int (length crits) \<le> cidx then Some (py_format (crits ! nat (int (length crits) + cidx)))
         else None)
      else Some (take 10 criterion_block_marker @ '' Index '' @ py_str_int cidx))"

fun detail_blocks :: "jval list \<Rightarrow> jval list \<Rightarrow> (string \<times> jval) list \<Rightarrow> nat \<Rightarrow> xsheet \<Rightarrow> unit + xsheet" where
  "detail_blocks crits alts [] row ws = Inr ws"
| "detail_blocks crits alts ((k, v) # items) row ws =
     (case v of
        JObj dd \<Rightarrow>
          (case py_int k of
             None \<Rightarrow> Inl ()
           | Some cidx \<Rightarrow>
               (case criterion_title crits cidx of
                  None \<Rightarrow> Inl ()
                | Some name \<Rightarrow>
                    (case (jlist (dict_get_default dd ''weights'' (JList [])),
                           jlist (dict_get_default dd ''wsv'' (JList [])),
                           jlist (dict_get_default dd ''cv'' (JList []))) of
                       (Some pw, Some pwsv, Some pcv) \<Rightarrow>
                         (let w1 = ws((row, 1) := XV (JStr (criterion_block_marker @ name)),
                                      (row + 1, 1) := XL HeadAlternative, (row + 1, 2) := XL HeadLocalWeight,
                                      (row + 1, 3) := XV (JStr ''WSV''), (row + 1, 4) := XV (JStr ''CV''));
                              w2 = alt_detail_rows (row + 2) alts pw pwsv pcv w1;
                              r3 = row + 2 + length alts;
                              w3 = w2((r3, 1) := XV (JStr ''CR:''),
                                      (r3, 2) := XV (cell_round 4 (dict_get dd ''CR'')),
                                      (r3, 3) := consistency_label (dict_get dd ''is_consistent''))
                          in detail_blocks crits alts items (r3 + 2) w3)
                     | _ \<Rightarrow> Inl ())))
      | _ \<Rightarrow> detail_blocks crits alts items row ws)"

definition sheet_details :: "(string \<times> jval) list \<Rightarrow> unit + xsheet option" where
  "sheet_details d =
     (let crs = dict_get d ''alternative_crs''; crits = dict_get d ''criteria_names'';
          alts = dict_get d ''alternatives''
      in if py_truthy crs \<and> py_truthy crits \<and> py_truthy alts then
           (case (crs, jlist crits, jlist alts) of
              (JObj items, Some cs, Some als) \<Rightarrow>
                (case detail_blocks cs als items 3 (empty_xsheet((1, 1) := XL TitleDetails)) of
                   Inl u \<Rightarrow> Inl u
                 | Inr ws \<Rightarrow> Inr (Some ws))
            | _ \<Rightarrow> Inl ())
         else Inr None)"

text \<open>Sheet \<open>TongHopTrongSoPATheoTC\<close>, 1010--1028: the local weights by
  alternative and criterion (\<open>matrix[i][j]\<close> raises past the end).\<close>

definition matrix_cell :: "jval list \<Rightarrow> nat \<Rightarrow> nat \<Rightarrow> jval option" where
  "matrix_cell m i j =
     (if i < length m then
        (case jlist (m ! i) of Some row \<Rightarrow> if j < length row then Some (row ! j) else None | None \<Rightarrow> None)
      else None)"

definition local_summary_cells :: "jval list \<Rightarrow> jval list \<Rightarrow> jval list \<Rightarrow> xsheet \<Rightarrow> unit + xsheet" where
  "local_summary_cells m alts crits ws =
     foldl (\<lambda>acc (i, a). case acc of Inl u \<Rightarrow> Inl u | Inr w \<Rightarrow>
              foldl (\<lambda>acc2 (j, _). case acc2 of Inl u \<Rightarrow> Inl u | Inr w2 \<Rightarrow>
                       (case matrix_cell m i j of
                          None \<Rightarrow> Inl ()
                        | Some v \<Rightarrow> Inr (w2((4 + i, j + 2) := XV (cell_round 5 v)))))
                (Inr (w((4 + i, 1) := XV a))) (List.enumerate 0 crits))
       (Inr ws) (List.enumerate 0 alts)"

definition sheet_local_summary :: "(string \<times> jval) list \<Rightarrow> unit + xsheet option" where
  "sheet_local_summary d =
     (let m = dict_get d ''local_alternative_weights_matrix''; alts = dict_get d ''alternatives'';
          crits = dict_get d ''criteria_names''
      in if py_truthy m \<and> py_truthy alts \<and> py_truthy crits then
           (case (jlist m, jlist alts, jlist crits) of
              (Some ms, Some als, Some cs) \<Rightarrow>
                (let ws0 = foldl (\<lambda>w (j, c). w((3, j + 2) := XV c))
                             (empty_xsheet((1, 1) := XL TitleLocalSummary, (3, 1) := XL HeadAltByCriterion))
                             (List.enumerate 0 cs)
                 in case local_summary_cells ms als cs ws0 of
                      Inl u \<Rightarrow> Inl u
                    | Inr ws \<Rightarrow> Inr (Some ws))
            | _ \<Rightarrow> Inl ())
         else Inr None)"

text \<open>Sheet \<open>XepHangCuoiCung\<close>, 1046--1068: rank, name, score and
  percentage of each ranked alternative, then the best one.\<close>

definition ranking_row :: "nat \<Rightarrow> jval \<Rightarrow> xsheet \<Rightarrow> unit + xsheet" where
  "ranking_row i e w =
     (case jlist e of
        Some [name, score] \<Rightarrow>
          Inr (w((4 + i, 1) := XV (JInt (int i + 1)), (4 + i, 2) := XV name,
                 (4 + i, 3) := XV (cell_round 4 score),
                 (4 + i, 4) := XV (if is_number score then py_round 2 (py_times_100 score) else JStr ''N/A'')))
      | _ \<Rightarrow> Inl ())"

definition ranking_rows :: "jval list \<Rightarrow> xsheet \<Rightarrow> unit + xsheet" where
  "ranking_rows rk ws =
     foldl (\<lambda>acc (i, e). case acc of Inl u \<Rightarrow> Inl u | Inr w \<Rightarrow> ranking_row i e w)
       (Inr ws) (List.enumerate 0 rk)"

definition sheet_ranking :: "(string \<times> jval) list \<Rightarrow> unit + xsheet" where
  "sheet_ranking d =
     (let ws0 = empty_xsheet((1, 1) := XL TitleRanking, (3, 1) := XL HeadRank, (3, 2) := XL HeadAlternative,
                  (3, 3) := XL HeadTotalScore, (3, 4) := XL HeadPercent);
          rk = dict_get d ''ranked_alternatives''
      in if py_truthy rk then
           (case jlist rk of
              Some es \<Rightarrow>
                (case ranking_rows es ws0 of
                   Inl u \<Rightarrow> Inl u
                 | Inr ws \<Rightarrow>
                     (case jlist (hd es) of
                        Some (best # _) \<Rightarrow>
                          Inr (ws((4 + length es + 1, 1) := XL BestAlternative,
                                  (4 + length es + 1, 2) := XV best))
                      | _ \<Rightarrow> Inl ()))
            | None \<Rightarrow> Inl ())
         else Inr ws0)"

text \<open>\<open>create_excel_report\<close>: the sheets in the order they are created;
  \<open>Inl ()\<close> is an exception raised while writing.\<close>

definition create_excel_report :: "(string \<times> jval) list \<Rightarrow> unit + (string \<times> xsheet) list" where
  "create_excel_report d =
     (case sheet_criteria_weights d of
        Inl u \<Rightarrow> Inl u
      | Inr s1 \<Rightarrow>
          (case sheet_details d of
             Inl u \<Rightarrow> Inl u
           | Inr s2 \<Rightarrow>
               (case sheet_local_summary d of
                  Inl u \<Rightarrow> Inl u
                | Inr s3 \<Rightarrow>
                    (case sheet_ranking d of
                       Inl u \<Rightarrow> Inl u
                     | Inr s4 \<Rightarrow>
                         Inr ([(''TrongSoTieuChi'', s1)] @
                              (case s2 of Some w \<Rightarrow> [(''ChiTietTrongSoPA'', w)] | None \<Rightarrow> []) @
                              (case s3 of Some w \<Rightarrow> [(''TongHopTrongSoPATheoTC'', w)] | None \<Rightarrow> []) @
                              [(''XepHangCuoiCung'', s4)])))))"

section \<open>The download routes\<close>

datatype report_response =
    ReportRedirect route_name
  | ResultRedirect nat
  | ExcelAttachment nat "(string \<times> xsheet) list"
  | PdfAttachment nat string

text \<open>The session check both routes share, 1093--1099 and 1111--1117: the
  database session of the browser and the analysis it owns.\<close>

definition owned_analysis :: "nat \<Rightarrow> app_state \<Rightarrow> analysis_row option \<times> db" where
  "owned_analysis analysis_id st =
     (let (s, d) = st;
          (sid, d1) = (if py_true (s_flask_id s) then get_or_create_session_db_id (s_flask_id s) d
                       else (None, d))
      in if \<not> py_id_true sid then (None, d1)
         else (get_ahp_analysis_by_id (Some analysis_id) sid d1, d1))"

definition download_excel_report :: "nat \<Rightarrow> app_state \<Rightarrow> report_response \<times> app_state" where
  "download_excel_report analysis_id st =
     (let (r, d1) = owned_analysis analysis_id st
      in case r of
           None \<Rightarrow> (ReportRedirect HistoryRoute, fst st, d1)
         | Some a \<Rightarrow>
             (case create_excel_report (analysis_dict a) of
                Inl _ \<Rightarrow> (ResultRedirect analysis_id, fst st, d1)
              | Inr wb \<Rightarrow> (ExcelAttachment analysis_id wb, fst st, d1)))"

text \<open>\<open>download_pdf_report\<close>: \<open>build\<close> stands for the charts and the
  ReportLab document built from the dictionary (\<open>None\<close> when the build
  raises); empty bytes redirect as a failure does.\<close>

definition download_pdf_report ::
  "((string \<times> jval) list \<Rightarrow> string option) \<Rightarrow> nat \<Rightarrow> app_state \<Rightarrow> report_response \<times> app_state" where
  "download_pdf_report build analysis_id st =
     (let (r, d1) = owned_analysis analysis_id st
      in case r of
           None \<Rightarrow> (ReportRedirect HistoryRoute, fst st, d1)
         | Some a \<Rightarrow>
             (case build (analysis_dict a) of
                None \<Rightarrow> (ResultRedirect analysis_id, fst st, d1)
              | Some bytes \<Rightarrow>
                  if bytes \<noteq> [] then (PdfAttachment analysis_id bytes, fst st, d1)
                  else (ResultRedirect analysis_id, fst st, d1)))"

section \<open>Lemmas\<close>

lemma analysis_dict_get [simp]:
  "dict_get (analysis_dict r) ''criteria_names'' = JList (map JStr (an_criteria r))"
  "dict_get (analysis_dict r) ''criteria_weights'' = json_floats (an_criteria_weights r)"
  "dict_get (analysis_dict r) ''cr_criteria'' = JNull"
  "dict_get (analysis_dict r) ''is_consistent_criteria'' = JBool (an_consistent r \<noteq> 0)"
  "dict_get (analysis_dict r) ''alternative_crs'' = alt_crs_json (an_alt_crs r)"
  "dict_get (analysis_dict r) ''alternatives'' = JList (map JStr (an_alternatives r))"
  "dict_get (analysis_dict r) ''local_alternative_weights_matrix'' = JList (map json_floats (an_local_matrix r))"
  "dict_get (analysis_dict r) ''ranked_alternatives'' =
     JList (map (\<lambda>(n, x). JList [JStr n, json_float x]) (an_ranked r))"
  by (simp_all add: dict_get_def analysis_dict_def)

lemma foldl_sum_Inr:
  assumes "\<forall>x\<in>set xs. \<forall>w. \<exists>w'. F (Inr w) x = Inr w'"
  shows "\<exists>w'. foldl F (Inr w0) xs = Inr w'"
  using assms
proof (induction xs arbitrary: w0)
  case (Cons x xs)
  then obtain w1 where "F (Inr w0) x = Inr w1" by (meson list.set_intros(1))
  with Cons show ?case by simp
qed simp

lemma alt_outcome_json_lists:
  "\<exists>dd. alt_outcome_json q = JObj dd \<and>
     jlist (dict_get_default dd ''weights'' (JList [])) \<noteq> None \<and>
     jlist (dict_get_default dd ''wsv'' (JList [])) \<noteq> None \<and>
     jlist (dict_get_default dd ''cv'' (JList [])) \<noteq> None"
  by (cases q rule: alt_outcome_json.cases)
    (simp_all add: dict_get_default_def ahp_result_json_def json_floats_def)

lemma criterion_title_nat: "criterion_title cs (int c) \<noteq> None"
  by (simp add: criterion_title_def)

lemma detail_blocks_ok:
  "\<exists>ws'. detail_blocks cs als (map (\<lambda>(c, q). (py_str_nat c, alt_outcome_json q)) crs) row ws = Inr ws'"
proof (induction crs arbitrary: row ws)
  case (Cons cq crs)
  obtain c q where cq: "cq = (c, q)" by fastforce
  obtain dd where dd: "alt_outcome_json q = JObj dd"
    and l: "jlist (dict_get_default dd ''weights'' (JList [])) \<noteq> None"
           "jlist (dict_get_default dd ''wsv'' (JList [])) \<noteq> None"
           "jlist (dict_get_default dd ''cv'' (JList [])) \<noteq> None"
    using alt_outcome_json_lists [of q] by blast
  obtain t where t: "criterion_title cs (int c) = Some t" using criterion_title_nat by blast
  show ?case
    using l Cons.IH by (auto simp: cq dd t py_int_py_str_nat Let_def split: option.split)
qed simp

lemma sheet_criteria_weights_cr_row:
  assumes "length (an_criteria r) \<le> length (an_criteria_weights r)"
  shows "\<exists>ws. sheet_criteria_weights (analysis_dict r) = Inr ws \<and>
    (let row = (if an_criteria r \<noteq> [] \<and> an_criteria_weights r \<noteq> [] then 5 + length (an_criteria r) else 5)
     in ws (row, 2) = XV JNull \<and> consistency_label (JBool (an_consistent r \<noteq> 0)) = ws (row, 3))"
  using assms by (auto simp: sheet_criteria_weights_def json_floats_def cell_round_def Let_def)

lemma sheet_criteria_weights_InrD:
  assumes "sheet_criteria_weights (analysis_dict r) = Inr ws"
  shows "let row = (if an_criteria r \<noteq> [] \<and> an_criteria_weights r \<noteq> [] then 5 + length (an_criteria r) else 5)
         in ws (row, 2) = XV JNull \<and> ws (row, 3) = consistency_label (JBool (an_consistent r \<noteq> 0))"
  using assms
  by (auto simp: sheet_criteria_weights_def json_floats_def cell_round_def Let_def split: if_splits)

lemma sheet_details_ok: "\<exists>x. sheet_details (analysis_dict r) = Inr x"
proof -
  obtain ws where "detail_blocks (map JStr (an_criteria r)) (map JStr (an_alternatives r))
      (map (\<lambda>(c, q). (py_str_nat c, alt_outcome_json q)) (an_alt_crs r)) 3
      (empty_xsheet((1, 1) := XL TitleDetails)) = Inr ws"
    using detail_blocks_ok by blast
  then show ?thesis by (auto simp: sheet_details_def alt_crs_json_def Let_def)
qed

lemma in_enumerate_less: "(i, x) \<in> set (List.enumerate 0 xs) \<Longrightarrow> i < length xs"
  by (simp add: in_set_enumerate_eq)

lemma local_summary_cells_ok:
  assumes "length als \<le> length M" "\<forall>row\<in>set M. length cs \<le> length row"
  shows "\<exists>ws'. local_summary_cells (map json_floats M) als cs ws = Inr ws'"
proof -
  have cell: "matrix_cell (map json_floats M) i j \<noteq> None" if "i < length als" "j < length cs" for i j
  proof -
    have "i < length M" using that assms(1) by simp
    moreover then have "j < length (M ! i)" using that assms(2) nth_mem by fastforce
    ultimately show ?thesis by (simp add: matrix_cell_def json_floats_def)
  qed
  show ?thesis
    unfolding local_summary_cells_def
    by (rule foldl_sum_Inr)
      (auto dest!: in_enumerate_less cell intro!: foldl_sum_Inr split: option.split)
qed

lemma sheet_local_summary_ok:
  assumes "length (an_alternatives r) \<le> length (an_local_matrix r)"
    "\<forall>row\<in>set (an_local_matrix r). length (an_criteria r) \<le> length row"
  shows "\<exists>x. sheet_local_summary (analysis_dict r) = Inr x"
proof -
  let ?ws0 = "foldl (\<lambda>w (j, c). w((3, j + 2) := XV c))
               (empty_xsheet((1, 1) := XL TitleLocalSummary, (3, 1) := XL HeadAltByCriterion))
               (List.enumerate 0 (map JStr (an_criteria r)))"
  obtain ws where "local_summary_cells (map json_floats (an_local_matrix r)) (map JStr (an_alternatives r))
      (map JStr (an_criteria r)) ?ws0 = Inr ws"
    using local_summary_cells_ok [of "map JStr (an_alternatives r)" "an_local_matrix r" "map JStr (an_criteria r)"] assms
    by auto
  then show ?thesis by (auto simp: sheet_local_summary_def Let_def)
qed

lemma ranking_fold_cells:
  "\<exists>w'. foldl (\<lambda>acc (i, e). case acc of Inl u \<Rightarrow> Inl u | Inr w \<Rightarrow> ranking_row i e w) (Inr wa)
           (List.enumerate k (map (\<lambda>(n, x). JList [JStr n, json_float x]) rs)) = Inr w' \<and>
     (\<forall>i<length rs. w' (4 + k + i, 1) = XV (JInt (int (k + i) + 1)) \<and>
                    w' (4 + k + i, 2) = XV (JStr (fst (rs ! i))) \<and>
                    w' (4 + k + i, 3) = XV (py_round 4 (json_float (snd (rs ! i)))) \<and>
                    w' (4 + k + i, 4) = XV (py_round 2 (json_float (snd (rs ! i) * 100)))) \<and>
     (\<forall>j c. j < 4 + k \<or> 4 + k + length rs \<le> j \<longrightarrow> w' (j, c) = wa (j, c))"
proof (induction rs arbitrary: k wa)
  case Nil
  show ?case by simp
next
  case (Cons nx rs)
  obtain n x where nx: "nx = (n, x)" by fastforce
  define w1 where "w1 = wa((4 + k, 1) := XV (JInt (int k + 1)), (4 + k, 2) := XV (JStr n),
                 (4 + k, 3) := XV (py_round 4 (json_float x)),
                 (4 + k, 4) := XV (py_round 2 (json_float (x * 100))))"
  have step: "ranking_row k (JList [JStr n, json_float x]) wa = Inr w1"
    by (simp add: ranking_row_def w1_def cell_round_def json_float_def)
  obtain w' where w': "foldl (\<lambda>acc (i, e). case acc of Inl u \<Rightarrow> Inl u | Inr w \<Rightarrow> ranking_row i e w) (Inr w1)
           (List.enumerate (Suc k) (map (\<lambda>(n, x). JList [JStr n, json_float x]) rs)) = Inr w'"
    and cells: "\<forall>i<length rs. w' (4 + Suc k + i, 1) = XV (JInt (int (Suc k + i) + 1)) \<and>
                    w' (4 + Suc k + i, 2) = XV (JStr (fst (rs ! i))) \<and>
                    w' (4 + Suc k + i, 3) = XV (py_round 4 (json_float (snd (rs ! i)))) \<and>
                    w' (4 + Suc k + i, 4) = XV (py_round 2 (json_float (snd (rs ! i) * 100)))"
    and frame: "\<forall>j c. j < 4 + Suc k \<or> 4 + Suc k + length rs \<le> j \<longrightarrow> w' (j, c) = w1 (j, c)"
    using Cons.IH [where k = "Suc k" and wa = w1] by blast
  have "w' (4 + k + i, 1) = XV (JInt (int (k + i) + 1)) \<and>
        w' (4 + k + i, 2) = XV (JStr (fst ((nx # rs) ! i))) \<and>
        w' (4 + k + i, 3) = XV (py_round 4 (json_float (snd ((nx # rs) ! i)))) \<and>
        w' (4 + k + i, 4) = XV (py_round 2 (json_float (snd ((nx # rs) ! i) * 100)))"
    if "i < length (nx # rs)" for i
  proof (cases i)
    case 0
    then show ?thesis using frame by (simp add: w1_def nx)
  next
    case (Suc m)
    then have "m < length rs" using that by simp
    from cells [rule_format, OF this] show ?thesis by (simp add: Suc add.assoc)
  qed
  moreover have "w' (j, c) = wa (j, c)" if "j < 4 + k \<or> 4 + k + length (nx # rs) \<le> j" for j c
    using that frame by (auto simp: w1_def)
  ultimately show ?case
    using w' step by (auto simp: nx)
qed

lemma sheet_ranking_cells:
  "\<exists>ws. sheet_ranking (analysis_dict r) = Inr ws \<and>
     (\<forall>i<length (an_ranked r). ws (4 + i, 1) = XV (JInt (int i + 1)) \<and>
        ws (4 + i, 2) = XV (JStr (fst (an_ranked r ! i))) \<and>
        ws (4 + i, 3) = XV (py_round 4 (json_float (snd (an_ranked r ! i)))) \<and>
        ws (4 + i, 4) = XV (py_round 2 (json_float (snd (an_ranked r ! i) * 100)))) \<and>
     (an_ranked r \<noteq> [] \<longrightarrow> ws (5 + length (an_ranked r), 2) = XV (JStr (fst (hd (an_ranked r)))))"
proof (cases "an_ranked r")
  case Nil
  then show ?thesis by (simp add: sheet_ranking_def)
next
  case (Cons nx rs)
  obtain n x where nx: "nx = (n, x)" by fastforce
  let ?ws0 = "empty_xsheet((1, 1) := XL TitleRanking, (3, 1) := XL HeadRank, (3, 2) := XL HeadAlternative,
                  (3, 3) := XL HeadTotalScore, (3, 4) := XL HeadPercent)"
  obtain w' where
    fold: "foldl (\<lambda>acc (i, e). case acc of Inl u \<Rightarrow> Inl u | Inr w \<Rightarrow> ranking_row i e w) (Inr ?ws0)
             (List.enumerate 0 (map (\<lambda>(n, x). JList [JStr n, json_float x]) (an_ranked r))) = Inr w'"
    and cells: "\<forall>i<length (an_ranked r). w' (4 + 0 + i, 1) = XV (JInt (int (0 + i) + 1)) \<and>
                    w' (4 + 0 + i, 2) = XV (JStr (fst (an_ranked r ! i))) \<and>
                    w' (4 + 0 + i, 3) = XV (py_round 4 (json_float (snd (an_ranked r ! i)))) \<and>
                    w' (4 + 0 + i, 4) = XV (py_round 2 (json_float (snd (an_ranked r ! i) * 100)))"
    using ranking_fold_cells [where k = 0 and wa = ?ws0 and rs = "an_ranked r"] by blast
  have "sheet_ranking (analysis_dict r) =
          Inr (w'((4 + length (an_ranked r) + 1, 1) := XL BestAlternative,
                  (4 + length (an_ranked r) + 1, 2) := XV (JStr n)))"
    using fold Cons by (simp add: sheet_ranking_def ranking_rows_def nx Let_def)
  with cells Cons nx show ?thesis by auto
qed

lemma create_excel_report_ok:
  assumes "length (an_criteria r) \<le> length (an_criteria_weights r)"
    "length (an_alternatives r) \<le> length (an_local_matrix r)"
    "\<forall>row\<in>set (an_local_matrix r). length (an_criteria r) \<le> length row"
  shows "\<exists>wb. create_excel_report (analysis_dict r) = Inr wb \<and>
           map_of wb ''XepHangCuoiCung'' = Some (projr (sheet_ranking (analysis_dict r)))"
proof -
  obtain s1 where s1: "sheet_criteria_weights (analysis_dict r) = Inr s1"
    using sheet_criteria_weights_cr_row [OF assms(1)] by blast
  obtain s2 where s2: "sheet_details (analysis_dict r) = Inr s2" using sheet_details_ok by blast
  obtain s3 where s3: "sheet_local_summary (analysis_dict r) = Inr s3"
    using sheet_local_summary_ok [OF assms(2,3)] by blast
  obtain s4 where s4: "sheet_ranking (analysis_dict r) = Inr s4" using sheet_ranking_cells by blast
  show ?thesis
    by (cases s2; cases s3) (simp_all add: create_excel_report_def s1 s2 s3 s4)
qed

lemma create_excel_report_InrD:
  assumes "create_excel_report d = Inr wb"
  shows "\<exists>s1 rest. sheet_criteria_weights d = Inr s1 \<and> wb = (''TrongSoTieuChi'', s1) # rest"
  using assms by (auto simp: create_excel_report_def split: sum.splits)

lemma owned_analysis_SomeD:
  assumes "owned_analysis aid (s, d) = (Some r, d1)"
  shows "\<exists>u k. s_flask_id s = Some u \<and> get_or_create_session_db_id (Some u) d = (Some k, d1) \<and>
           r \<in> set (analyses_tbl d1) \<and> an_id r = aid \<and> an_session r = k"
proof -
  obtain sid d2 where g: "(if py_true (s_flask_id s) then get_or_create_session_db_id (s_flask_id s) d
                           else (None, d)) = (sid, d2)" by fastforce
  from assms g have t: "py_id_true sid" "get_ahp_analysis_by_id (Some aid) sid d2 = Some r" "d1 = d2"
    by (auto simp: owned_analysis_def Let_def split: if_splits)
  then obtain k where k: "sid = Some k" by (cases sid) (auto simp: py_id_true_def)
  have "py_true (s_flask_id s)" using g t(1) by (auto simp: py_id_true_def split: if_splits)
  then obtain u where u: "s_flask_id s = Some u" by (cases "s_flask_id s") (auto simp: py_true_def)
  from t(2) k have "find (\<lambda>x. Some (an_id x) = Some aid \<and> an_session x = k) (analyses_tbl d2) = Some r"
    using t(1) by (simp add: get_ahp_analysis_by_id_def py_id_true_def split: if_splits)
  hence "r \<in> set (analyses_tbl d2) \<and> an_id r = aid \<and> an_session r = k"
    by (auto simp: find_Some_iff)
  with g u k t(3) \<open>py_true (s_flask_id s)\<close> show ?thesis by auto
qed

lemma owned_analysis_wf:
  "db_wf d \<Longrightarrow> owned_analysis aid (s, d) = (r, d1) \<Longrightarrow> db_wf d1"
  by (auto simp: owned_analysis_def Let_def split: if_splits prod.splits intro: get_or_create_wf_snd)

lemma download_pdf_report_own_session:
  assumes "download_pdf_report build aid (s, d) = (PdfAttachment a bytes, s', d')"
  shows "\<exists>u k r. s_flask_id s = Some u \<and> get_or_create_session_db_id (Some u) d = (Some k, d') \<and>
           r \<in> set (analyses_tbl d') \<and> an_id r = aid \<and> an_session r = k \<and>
           a = aid \<and> build (analysis_dict r) = Some bytes \<and> bytes \<noteq> [] \<and> s' = s"
proof -
  obtain ro d1 where o: "owned_analysis aid (s, d) = (ro, d1)" by fastforce
  with assms obtain r where r: "ro = Some r" "build (analysis_dict r) = Some bytes" "bytes \<noteq> []"
      "a = aid" "s' = s" "d' = d1"
    by (auto simp: download_pdf_report_def split: option.splits if_splits)
  with owned_analysis_SomeD [of aid s d r d1] o show ?thesis by blast
qed

lemma download_reports_wf:
  assumes "db_wf d"
  shows "download_excel_report aid (s, d) = (p, s', d') \<Longrightarrow> db_wf d' \<and> s' = s"
    and "download_pdf_report build aid (s, d) = (q, s'', d'') \<Longrightarrow> db_wf d'' \<and> s'' = s"
  using owned_analysis_wf [OF assms, of aid s]
  by (auto simp: download_excel_report_def download_pdf_report_def
           split: prod.splits option.splits sum.splits if_splits)

text \<open>Claim C16. The Excel report of an analysis is sent only to the browser
  session that owns it: an attachment for \<open>analysis_id\<close> is returned only
  when the Flask session id maps to a database session owning a stored
  analysis with that id, the workbook is the report of that analysis, and
  the session dictionary is left unchanged.\<close>

theorem download_excel_report_own_session:
  assumes "download_excel_report aid (s, d) = (ExcelAttachment a wb, s', d')"
  shows "\<exists>u k r. s_flask_id s = Some u \<and> get_or_create_session_db_id (Some u) d = (Some k, d') \<and>
           r \<in> set (analyses_tbl d') \<and> an_id r = aid \<and> an_session r = k \<and>
           a = aid \<and> create_excel_report (analysis_dict r) = Inr wb \<and> s' = s"
proof -
  obtain ro d1 where o: "owned_analysis aid (s, d) = (ro, d1)" by fastforce
  with assms obtain r where r: "ro = Some r" "create_excel_report (analysis_dict r) = Inr wb"
      "a = aid" "s' = s" "d' = d1"
    by (auto simp: download_excel_report_def split: option.splits sum.splits)
  with owned_analysis_SomeD [of aid s d r d1] o show ?thesis by blast
qed

text \<open>Claim C21. The criteria CR never reaches the Excel report: the getter
  keeps the column under its name \<open>criteria_cr\<close> while the report reads
  \<open>cr_criteria\<close>, so for every stored analysis, whatever its CR, the CR
  row of sheet \<open>TrongSoTieuChi\<close> holds \<open>None\<close>; only the consistency
  label next to it follows the stored flag.\<close>

theorem excel_report_drops_criteria_cr:
  assumes "create_excel_report (analysis_dict r) = Inr wb"
  shows "\<exists>ws. map_of wb ''TrongSoTieuChi'' = Some ws \<and>
           (let row = (if an_criteria r \<noteq> [] \<and> an_criteria_weights r \<noteq> [] then 5 + length (an_criteria r) else 5)
            in ws (row, 2) = XV JNull \<and>
               ws (row, 3) = XL (if an_consistent r \<noteq> 0 then LabelConsistent else LabelInconsistent))"
proof -
  obtain s1 rest where s1: "sheet_criteria_weights (analysis_dict r) = Inr s1" "wb = (''TrongSoTieuChi'', s1) # rest"
    using create_excel_report_InrD [OF assms] by blast
  from sheet_criteria_weights_InrD [OF s1(1)] show ?thesis
    by (simp add: s1(2) consistency_label_def Let_def)
qed


section \<open>Witnesses\<close>

theorem download_excel_report_own_session_witness:
  "let s0 = empty_session\<lparr>s_flask_id := Some ''u1''\<rparr>;
       r0 = \<lparr>an_id = 1, an_session = 1, an_name = None, an_criteria = [''Cost''], an_alternatives = [''Site A''],
             an_criteria_weights = [1], an_local_matrix = [[1]], an_scores = [1], an_ranked = [(''Site A'', 1)],
             an_cr = Some 0, an_consistent = 1, an_alt_crs = [], an_notes = None, an_created = 0\<rparr>;
       d0 = empty_db\<lparr>session_tbl := [(1, ''u1'')], next_session_id := 2, analyses_tbl := [r0],
                     next_analysis_id := 2, clock := 1\<rparr>
   in \<exists>wb. download_excel_report 1 (s0, d0) = (ExcelAttachment 1 wb, s0, d0) \<and>
        (\<exists>u k r. s_flask_id s0 = Some u \<and> get_or_create_session_db_id (Some u) d0 = (Some k, d0) \<and>
           r \<in> set (analyses_tbl d0) \<and> an_id r = 1 \<and> an_session r = k \<and>
           (1::nat) = 1 \<and> create_excel_report (analysis_dict r) = Inr wb \<and> s0 = s0)"
proof -
  let ?s0 = "empty_session\<lparr>s_flask_id := Some ''u1''\<rparr>"
  let ?r0 = "\<lparr>an_id = 1, an_session = 1, an_name = None, an_criteria = [''Cost''], an_alternatives = [''Site A''],
             an_criteria_weights = [1], an_local_matrix = [[1]], an_scores = [1], an_ranked = [(''Site A'', 1)],
             an_cr = Some 0, an_consistent = 1, an_alt_crs = [], an_notes = None, an_created = 0\<rparr>"
  let ?d0 = "empty_db\<lparr>session_tbl := [(1, ''u1'')], next_session_id := 2, analyses_tbl := [?r0],
                     next_analysis_id := 2, clock := 1\<rparr>"
  obtain wb where wb: "create_excel_report (analysis_dict ?r0) = Inr wb"
    using create_excel_report_ok [of ?r0] by auto
  have dl: "download_excel_report 1 (?s0, ?d0) = (ExcelAttachment 1 wb, ?s0, ?d0)"
    using wb by (simp add: download_excel_report_def owned_analysis_def get_or_create_session_db_id_def
        get_ahp_analysis_by_id_def py_true_def py_id_true_def)
  show ?thesis
    unfolding Let_def using download_excel_report_own_session [OF dl] dl by blast
qed

theorem excel_report_drops_criteria_cr_witness:
  "let r0 = \<lparr>an_id = 1, an_session = 1, an_name = None, an_criteria = [''Cost''], an_alternatives = [''Site A''],
             an_criteria_weights = [1], an_local_matrix = [[1]], an_scores = [1], an_ranked = [(''Site A'', 1)],
             an_cr = Some (1 / 20), an_consistent = 1, an_alt_crs = [], an_notes = None, an_created = 0\<rparr>
   in \<exists>wb ws. create_excel_report (analysis_dict r0) = Inr wb \<and> map_of wb ''TrongSoTieuChi'' = Some ws \<and>
        an_cr r0 = Some (1 / 20) \<and> ws (6, 2) = XV JNull \<and> ws (6, 3) = XL LabelConsistent"
proof -
  let ?r0 = "\<lparr>an_id = 1, an_session = 1, an_name = None, an_criteria = [''Cost''], an_alternatives = [''Site A''],
             an_criteria_weights = [1], an_local_matrix = [[1]], an_scores = [1], an_ranked = [(''Site A'', 1)],
             an_cr = Some (1 / 20), an_consistent = 1, an_alt_crs = [], an_notes = None, an_created = 0\<rparr>"
  obtain wb where wb: "create_excel_report (analysis_dict ?r0) = Inr wb"
    using create_excel_report_ok [of ?r0] by auto
  from excel_report_drops_criteria_cr [OF wb] wb show ?thesis unfolding Let_def by auto
qed


end
