(* ===== verification/Spec2Isabelle.thy ===== *)
theory Spec2Isabelle
  imports Saaty Engine Matrix_Build Ranking Persistence Excel_Import Session Form_Echo Reports
begin

text \<open>
  \<^bold>\<open>A verification model of the AHP application \<open>Quyhoachdat2_1\<close>.\<close>

  The repository is a Flask application for the Analytic Hierarchy Process.
  Its computational core is \<open>src/Quyhoachdat2_1/controller/ahp.py\<close>
  (\<open>parse_saaty_value\<close>, \<open>calculate_ahp\<close>, \<open>get_sorted_criteria_with_weights\<close>).
  The routes of \<open>src/Quyhoachdat2_1/app.py\<close> keep a run's state in the
  Flask session, build comparison matrices from form cells or Excel sheets by
  calling the parser cell by cell, call the engine once for the criteria
  matrix and once per criterion for the alternatives, aggregate the results
  into a ranking, and store intermediate results and the final analysis
  through \<open>src/Quyhoachdat2_1/model/model.py\<close> (SQL Server). The parts
  interact by plain values: parser results fill matrices (\<open>Matrix_Build\<close>,
  \<open>Excel_Import\<close>), matrices go to the engine (\<open>Engine\<close>), engine
  results go to the aggregation (\<open>Ranking\<close>), and the routes
  (\<open>Session\<close>) thread the session dictionary and the database
  (\<open>Persistence\<close>) through them; the download routes read a stored
  analysis back and turn it into a report (\<open>Reports\<close>).

  \<^bold>\<open>Theories.\<close>
  \<^item> \<open>AHP_Prelude\<close>: Python floats with their non-finite values (\<open>pyfloat\<close>),
    \<open>math.isclose\<close>, \<open>str.strip\<close>/\<open>replace\<close>/\<open>split\<close>, matrices as
    \<open>tab n g\<close>, and lemmas on sums over index lists.
  \<^item> \<open>Saaty\<close>: \<open>parse_saaty_value\<close> (ahp.py 24--86) with the parts of
    Python's \<open>int()\<close> and \<open>float()\<close> it uses; decimals are read exactly as
    mantissa and exponent, \<open>round(x, 10)\<close> is exact round-half-even; every
    \<open>raise ValueError\<close> is a constructor of \<open>saaty_error\<close>. Lemmas: accepted
    values lie on the Saaty scale and in \<open>(1/10, 9]\<close>; the integer branch's
    reciprocal test is dead code; the decimal reciprocal test is a rounding
    comparison.
  \<^item> \<open>Engine\<close>: \<open>calculate_ahp\<close> (ahp.py 89--236) as a function from a matrix
    of \<open>pyfloat\<close> to \<open>ahp_error + ahp_result\<close>: validation in the code's
    order, column sums, normalisation, row means, renormalisation, weighted
    sum vector, consistency vector, \<open>\<lambda>max\<close>, CI, RI table, CR, the
    consistency flag. Lemmas: weights sum to 1 and lie in [0, 1]; for a
    perfectly consistent matrix \<open>a\<^sub>i\<^sub>j = w\<^sub>i / w\<^sub>j\<close> the weights are \<open>w\<close>
    normalised, \<open>\<lambda>max = n\<close> and CR = 0 (the abstract AHP contract,
    \<open>ratio_matrix\<close>); the renormalisation is the identity; each error result;
    the spec's worked example.
  \<^item> \<open>Matrix_Build\<close>: the cell loops (app.py \<open>calculate_criteria_route\<close>,
    \<open>calculate_final_route\<close> and the loops of the two Excel readers) as
    \<open>build_cell\<close>/\<open>build_loop\<close>/\<open>build_matrix\<close> over a cell function,
    stopping at the first exception. Lemmas: the loop equals the declarative
    \<open>matrix_of_cells\<close> with \<open>first_error\<close>; every step preserves
    \<open>comparison_matrix\<close> (the spec's ComparisonMatrix) and so does the whole
    loop; upper cells are the parsed judgments, lower cells their reciprocals
    and never read; the errors name their cell.
  \<^item> \<open>Ranking\<close>: \<open>get_sorted_criteria_with_weights\<close> and the computation of
    \<open>calculate_final_route\<close> (app.py 655--808) as a function from the session
    data to the page it ends on (\<open>final_outcome\<close>), the \<open>except\<close> handler
    being \<open>ServerError\<close>. Lemmas: a ranking is only produced from a
    consistent criteria result and error-free, consistent alternatives
    results; on the form path its scores sum to exactly 1; any alternatives
    error gives the server-error page, an inconsistency the warning page; the
    ranking is sorted, a permutation and stable.
  \<^item> \<open>Persistence\<close>: every function of model.py that touches the database,
    over an explicit store \<open>db\<close> (one row list per table, one identity
    counter per \<open>IDENTITY\<close> column, a clock for \<open>created_at\<close>); a rolled-back
    transaction returns the store unchanged. Lemmas: every store reached by
    the data layer's operations (\<open>db_step\<close>) is well formed; a saved analysis
    reads back field by field and heads its session's history; saving
    weights replaces the session's rows; session ids are positive and
    stable.
  \<^item> \<open>Excel_Import\<close>: \<open>parse_matrix_from_sheet\<close> and
    \<open>parse_single_matrix_block\<close> (app.py 139--264) with their header and
    label checks, over a sheet given as the text of its cells; \<open>allowed_file\<close>;
    the lists of sheet \<open>DanhSach\<close>; the \<open>while\<close> loop over sheet
    \<open>TatCaMaTranPA\<close> (\<open>scan_blocks\<close>, a \<open>function\<close> whose termination
    measure is the rows left) and the same loop as written, a
    \<open>while_option\<close> over the state \<open>(current_row, imported, found)\<close>
    (\<open>scan_loop\<close>). Lemmas: on sheets without empty header or label cells
    the matrix is indexed by names; an empty header cell shifts the columns
    read; the loop keeps the imported dictionary well formed; the
    \<open>while\<close> loop stops on every sheet and computes what \<open>scan_blocks\<close>
    computes.
  \<^item> \<open>Session\<close>: the routes \<open>home\<close>, \<open>add_criteria_route\<close>,
    \<open>add_alternative_route\<close>, \<open>start_ahp_route\<close>, \<open>import_excel_route\<close>,
    \<open>calculate_criteria_route\<close>, \<open>calculate_final_route\<close> (with its saves:
    \<open>calculate_final_handler\<close>), \<open>history_list_route\<close> and
    \<open>view_result_route\<close>, each a function from the request data and the
    state (session dictionary \<open>flask_session\<close>, database) to the page and
    the new state; \<open>handle\<close> dispatches a \<open>request\<close>, \<open>run\<close> chains
    requests and \<open>reach\<close> is the inductive set of reachable states. Lemmas:
    every reachable state is well formed (rule induction); a user who starts
    a run on stored criteria and alternatives and answers every judgment
    with 1 reaches the result page with a saved analysis (liveness); the
    history shows only the session's own analyses; an import keeps stale
    criteria results; a refused criteria cell blocks the final step.
  \<^item> \<open>Form_Echo\<close>: \<open>convert_numpy_matrix_to_form_data\<close> and
    \<open>convert_all_alt_matrices_to_form_data\<close> (app.py 266--304), which turn a
    matrix back into the strings of the comparison form, with Python's
    \<open>str()\<close> of integers, \<open>round()\<close> and the \<open>.4f\<close> format. Lemmas:
    \<open>int(str(n)) = n\<close>; distinct cells get distinct field names; the echo
    of a comparison matrix with exact Saaty judgments, submitted back to
    the cell loop, rebuilds the same matrix.
  \<^item> \<open>Reports\<close>: the dictionary \<open>get_ahp_analysis_by_id\<close> returns, as JSON
    values (\<open>analysis_dict\<close>); \<open>create_excel_report\<close> (app.py 883--1089)
    as four sheets of cell values read from that dictionary with
    \<open>.get\<close>, an exception being \<open>Inl\<close>; \<open>download_excel_report\<close> and
    \<open>download_pdf_report\<close> with their session and owner checks, the PDF
    document being a parameter. Lemmas: every key of \<open>alternative_crs\<close>
    reads back as its criterion index; a report is only sent to the session owning
    the analysis; the report of a well-shaped analysis raises nothing and
    lists the ranking in order; the criteria CR never reaches the report.
  \<^item> This theory: a matrix built from cells always passes the engine's
    validation and yields strictly positive weights summing to 1.

  \<^bold>\<open>Bounds and loops.\<close> The loops of the code run over \<open>range(n)\<close> or a
  finite list; they are structural recursions (\<open>build_loop\<close>,
  \<open>accumulate\<close>, \<open>flash_inconsistent\<close>, \<open>lookup_rows\<close>) or maps over
  \<open>[0..<n]\<close>. The one \<open>while\<close> loop, over the rows of an Excel sheet,
  is \<open>scan_blocks\<close>, proved to terminate by the measure
  \<open>max_row + 1 - current_row\<close>; its literal form \<open>scan_loop\<close> is a
  \<open>while_option\<close>, whose result is \<open>None\<close> if it runs forever, and is
  proved to return \<open>Some\<close> by \<open>measure_while_option_Some\<close> with that
  measure plus one while no \<open>return\<close> has been taken. Every function is
  total and no fuel is needed. The model has one browser session; several browsers share only
  the database, which the model's \<open>db\<close> represents.

  \<^bold>\<open>Not modelled.\<close> Binary64 rounding (arithmetic is exact; the code's
  tolerances \<open>1e-9\<close>, \<open>1e-6\<close> and \<open>1e-10\<close> are kept as written);
  database connection failures and JSON decoding errors (stored JSON is
  read back as written); the formatting of the Excel report (fonts, merged
  cells, column widths, the date line, whose text depends on the clock),
  the PDF document and the charts (\<open>generate_charts_to_files\<close>,
  ReportLab: the PDF route takes the document as a parameter), templates
  and flash messages; the form echoes kept in the session
  (\<open>form_data_*_temp\<close>) and the routes' choice of which echo to render;
  the text \<open>str()\<close> gives a finite float that is not positive (a
  parameter of the echo); openpyxl's reading of the file
  (a sheet is the text of its cells).
\<close>

section \<open>From form cells to weights\<close>

lemma comparison_matrix_values:
  assumes cm: "comparison_matrix n M"
  shows "map (map pf_val) M = tab n (\<lambda>i j. pf_val (M ! i ! j))"
proof -
  have sq: "square n M" using cm by (simp add: comparison_matrix_def)
  have sqA: "square n (map (map pf_val) M)" using sq by simp
  have "map (map pf_val) M = tab n (\<lambda>i j. map (map pf_val) M ! i ! j)" by (rule tab_square_eq [OF sqA])
  also have "\<dots> = tab n (\<lambda>i j. pf_val (M ! i ! j))"
    by (rule tab_cong) (simp add: entry_of_square [OF sq])
  finally show ?thesis .
qed

lemma comparison_matrix_columns:
  assumes cm: "comparison_matrix n M" and j: "j < n"
  shows "tolerance < (\<Sum>i<n. pf_val (M ! i ! j))"
proof -
  have "pf_val (M ! j ! j) \<le> (\<Sum>i<n. pf_val (M ! i ! j))"
    using j comparison_matrix_entry [OF cm] by (intro member_le_sum) (auto intro: less_imp_le)
  moreover have "M ! j ! j = PFin 1" using cm j by (simp add: comparison_matrix_iff)
  moreover have "tolerance < 1" by (simp add: tolerance_def)
  ultimately show ?thesis by simp
qed

lemma comparison_matrix_accepted:
  assumes cm: "comparison_matrix n M" and n: "0 < n"
  shows "calculate_ahp M = Inr (compute_weights n (tab n (\<lambda>i j. pf_val (M ! i ! j)))
                                 (col_sums n (tab n (\<lambda>i j. pf_val (M ! i ! j)))))"
proof -
  have sq: "square n M" using cm by (simp add: comparison_matrix_def)
  then have len: "length M = n" by (simp add: square_def)
  note At = comparison_matrix_values [OF cm]
  have fin: "list_all (list_all pf_finite) M"
    using comparison_matrix_entry [OF cm] sq len by (auto simp: list_all_length)
  have diag: "M ! i ! i = PFin 1" if "i < n" for i
    using cm that by (simp add: comparison_matrix_iff)
  have fbd: "first_bad_diagonal n (tab n (\<lambda>i j. pf_val (M ! i ! j))) = None"
    using diag tolerance_pos
    by (simp add: first_bad_diagonal_def find_None_iff isclose_def py_isclose_def le_max_iff_disj)
  have "degenerate_columns (col_sums n (tab n (\<lambda>i j. pf_val (M ! i ! j)))) = []"
    using comparison_matrix_columns [OF cm] by (simp add: degenerate_columns_Nil col_sums_tab)
  with sq fin fbd n len At show ?thesis
    by (simp add: calculate_ahp_Inr Let_def)
qed

lemma built_matrix_comparison:
  "build_matrix form n = Inr M \<Longrightarrow> comparison_matrix n M"
  using matrix_of_cells_comparison build_matrix_InrD by metis

text \<open>Claim C6. A matrix built from form cells always passes the engine's
  validation: \<open>calculate_ahp\<close> returns weights, one per row, strictly
  positive and summing to 1; the engine's error results are unreachable from
  the form and spreadsheet paths.\<close>

theorem built_matrix_accepted_by_engine:
  assumes b: "build_matrix form n = Inr M" and n: "0 < n"
  shows "\<exists>r. calculate_ahp M = Inr r \<and> length (weights r) = n \<and>
             sum_list (weights r) = 1 \<and> list_all (\<lambda>x. 0 < x) (weights r)"
proof -
  have cm: "comparison_matrix n M" by (rule built_matrix_comparison [OF b])
  define g where "g = (\<lambda>i j. pf_val (M ! i ! j))"
  define r where "r = compute_weights n (tab n g) (col_sums n (tab n g))"
  have acc: "calculate_ahp M = Inr r"
    using comparison_matrix_accepted [OF cm n] by (simp add: r_def g_def)
  have big: "\<forall>j<n. tolerance < (\<Sum>i<n. g i j)"
    using comparison_matrix_columns [OF cm] by (simp add: g_def)
  have pos: "\<forall>i<n. \<forall>j<n. 0 < g i j"
    using comparison_matrix_entry [OF cm] by (simp add: g_def)
  have len: "length (row_means n (norm_matrix n (tab n g) (col_sums n (tab n g)))) = n"
    by simp
  have "length (weights r) = n \<and> sum_list (weights r) = 1"
    using sum_normalize_weights [OF n] len by (simp add: r_def compute_weights_fields)
  moreover have "list_all (\<lambda>x. 0 < x) (weights r)"
    unfolding r_def by (rule positive_matrix_weights [OF n pos big])
  ultimately show ?thesis using acc by blast
qed

theorem built_matrix_accepted_by_engine_witness:
  "build_matrix (\<lambda>i j. if (i, j) = (0, 1) then Some ''4'' else None) 2 =
     Inr [[PFin 1, PFin 4], [PFin (1 / 4), PFin 1]] \<and> (0::nat) < 2 \<and>
   (\<exists>r. calculate_ahp [[PFin 1, PFin 4], [PFin (1 / 4), PFin 1]] = Inr r \<and>
        length (weights r) = 2 \<and> sum_list (weights r) = 1 \<and> list_all (\<lambda>x. 0 < x) (weights r))"
proof -
  have h: "build_matrix (\<lambda>i j. if (i, j) = (0, 1) then Some ''4'' else None) 2 =
     Inr [[PFin 1, PFin 4], [PFin (1 / 4), PFin 1]]" by code_simp
  show ?thesis using h built_matrix_accepted_by_engine [OF h] by simp
qed

end
